theory Spec2Isabelle
  imports Main "HOL-Library.Word"
begin

section \<open>The JNI bridge of jhdf5: constant translation and exception raising\<close>

text \<open>
  The development embeds \<^verbatim>\<open>exceptionImp.c\<close>, \<^verbatim>\<open>h5Constants.h\<close> and
  \<^verbatim>\<open>h5Constants.c\<close>. The bridge code sits between two collaborators whose code is not
  part of it: the managed runtime, reached through the JNI function table, and the HDF5
  library, reached through \<^verbatim>\<open>hdf5.h\<close>. Both are parameters of the model. Every call the
  bridge makes to either of them, to \<^verbatim>\<open>fopen\<close>/\<^verbatim>\<open>fclose\<close> and to \<^verbatim>\<open>fprintf(stderr, ...)\<close>
  is recorded, in program order, in a list of events returned next to the C return value.
\<close>

subsection \<open>C and JNI types\<close>

type_synonym jint = "32 word"
type_synonym herr_t = "32 word"

datatype jboolean = JNI_FALSE | JNI_TRUE

text \<open>
  References handed out by the runtime carry what they refer to: a class reference its
  name, a method id its class, name and signature, an object its class, the constructor
  it was built with and the argument array passed to \<^verbatim>\<open>NewObjectA\<close>.
\<close>

datatype jclass = JClass string
datatype jmethodID = JMethodID jclass string string
datatype jstring = JString string

text \<open>A \<^verbatim>\<open>jvalue\<close> slot: the \<^verbatim>\<open>i\<close> member or the \<^verbatim>\<open>l\<close> member (\<open>None\<close> is \<^verbatim>\<open>NULL\<close>).\<close>

datatype jvalue = JV_i jint | JV_l "jstring option"
datatype jobject = JObject jclass jmethodID "jvalue list"

text \<open>A \<^verbatim>\<open>FILE *\<close>: the standard error stream, or a file opened under a path with a mode.\<close>

datatype FILE = Stderr | Opened string string

datatype H5E_direction_t = H5E_WALK_UPWARD | H5E_WALK_DOWNWARD

datatype event =
    JNI_FindClass string
  | JNI_GetMethodID jclass string string
  | JNI_NewStringUTF string
  | JNI_NewObjectA jclass jmethodID "jvalue list"
  | JNI_Throw "jobject option" jint
  | JNI_GetStringUTFChars jstring
  | JNI_ReleaseStringUTFChars jstring "string option"
  | C_fprintf_stderr string
  | C_fopen "string option" string "FILE option"
  | C_fclose FILE
  | H5_Ewalk H5E_direction_t
  | H5_Eget_major jint
  | H5_Eget_minor jint
  | H5_Eprint "FILE option"
  | H5_macro string

text \<open>
  The calls into the HDF5 library among the events. \<open>H5_macro m\<close> is the evaluation of the
  \<^verbatim>\<open>hdf5.h\<close> macro \<open>m\<close>, which may read a library global or initialise the library.
\<close>

fun is_native_call :: "event \<Rightarrow> bool" where
  "is_native_call (H5_Ewalk d) = True"
| "is_native_call (H5_Eget_major n) = True"
| "is_native_call (H5_Eget_minor n) = True"
| "is_native_call (H5_Eprint s) = True"
| "is_native_call (H5_macro m) = True"
| "is_native_call e = False"

subsection \<open>The managed runtime\<close>

text \<open>
  What the runtime answers is not decided by the bridge: whether a class or a constructor
  is found, whether a string or an object can be allocated, and the status \<^verbatim>\<open>Throw\<close>
  returns (negative on failure).
\<close>

record JNIEnv =
  class_found :: "string \<Rightarrow> bool"
  method_found :: "jclass \<Rightarrow> string \<Rightarrow> string \<Rightarrow> bool"
  string_made :: "string \<Rightarrow> bool"
  object_made :: "jclass \<Rightarrow> jmethodID \<Rightarrow> jvalue list \<Rightarrow> bool"
  throw_status :: "jobject option \<Rightarrow> jint"
  chars_made :: "jstring \<Rightarrow> bool"

definition FindClass :: "JNIEnv \<Rightarrow> string \<Rightarrow> jclass option" where
  "FindClass env name = (if class_found env name then Some (JClass name) else None)"

definition GetMethodID :: "JNIEnv \<Rightarrow> jclass \<Rightarrow> string \<Rightarrow> string \<Rightarrow> jmethodID option" where
  "GetMethodID env clazz name sig =
     (if method_found env clazz name sig then Some (JMethodID clazz name sig) else None)"

definition NewStringUTF :: "JNIEnv \<Rightarrow> string \<Rightarrow> jstring option" where
  "NewStringUTF env bytes = (if string_made env bytes then Some (JString bytes) else None)"

definition NewObjectA :: "JNIEnv \<Rightarrow> jclass \<Rightarrow> jmethodID \<Rightarrow> jvalue list \<Rightarrow> jobject option" where
  "NewObjectA env clazz methodID args =
     (if object_made env clazz methodID args then Some (JObject clazz methodID args) else None)"

definition Throw :: "JNIEnv \<Rightarrow> jobject option \<Rightarrow> jint" where
  "Throw env obj = throw_status env obj"

definition GetStringUTFChars :: "JNIEnv \<Rightarrow> jstring \<Rightarrow> string option" where
  "GetStringUTFChars env s = (if chars_made env s then (case s of JString bytes \<Rightarrow> Some bytes) else None)"

text \<open>
  What a trace leaves behind: the exceptions the runtime accepted (a \<^verbatim>\<open>Throw\<close> of an
  object that did not return a negative status), the lines written to the standard error
  stream, and the files opened and not closed again.
\<close>

fun thrown :: "event list \<Rightarrow> jobject list" where
  "thrown [] = []"
| "thrown (JNI_Throw (Some ex) rval # t) = (if sint rval < 0 then thrown t else ex # thrown t)"
| "thrown (e # t) = thrown t"

fun stderr_output :: "event list \<Rightarrow> string list" where
  "stderr_output [] = []"
| "stderr_output (C_fprintf_stderr s # t) = s # stderr_output t"
| "stderr_output (e # t) = stderr_output t"

fun open_files :: "FILE list \<Rightarrow> event list \<Rightarrow> FILE list" where
  "open_files fs [] = fs"
| "open_files fs (C_fopen p m (Some f) # t) = open_files (f # fs) t"
| "open_files fs (C_fclose f # t) = open_files (remove1 f fs) t"
| "open_files fs (e # t) = open_files fs t"

subsection \<open>The HDF5 library\<close>

text \<open>
  An entry of the library's error stack. The bridge reads its major and minor number
  only (\<^verbatim>\<open>err_desc->maj_num\<close>, \<^verbatim>\<open>err_desc->min_num\<close>).
\<close>

record H5E_error_t =
  err_maj_num :: jint
  err_min_num :: jint

text \<open>
  The linked library: the value of each macro and enumeration constant of \<^verbatim>\<open>hdf5.h\<close>, as
  a number of the macro's own C type; the message tables behind \<^verbatim>\<open>H5Eget_major\<close> and
  \<^verbatim>\<open>H5Eget_minor\<close>; and the error stack of the calling thread, the entry pushed
  first (where the error was detected) at the head.
\<close>

record hdf5 =
  macro_value :: "string \<Rightarrow> int"
  major_mesg :: "jint \<Rightarrow> string"
  minor_mesg :: "jint \<Rightarrow> string"
  error_stack :: "H5E_error_t list"

text \<open>
  \<^verbatim>\<open>H5Ewalk\<close>, as the library documents it: upward it visits the entries from the one
  where the error was detected to the API function, downward in the opposite order; the
  callback gets the position in the walk, the entry and the client data, and a negative
  status from it ends the walk.
\<close>

definition walk_order :: "H5E_direction_t \<Rightarrow> H5E_error_t list \<Rightarrow> H5E_error_t list" where
  "walk_order direction stack =
     (case direction of H5E_WALK_UPWARD \<Rightarrow> stack | H5E_WALK_DOWNWARD \<Rightarrow> rev stack)"

fun walk_entries ::
  "(nat \<Rightarrow> H5E_error_t option \<Rightarrow> 'a \<Rightarrow> herr_t \<times> 'a) \<Rightarrow> nat \<Rightarrow> H5E_error_t list \<Rightarrow> 'a \<Rightarrow> herr_t \<times> 'a"
where
  "walk_entries func n [] client_data = (0, client_data)"
| "walk_entries func n (e # es) client_data =
     (case func n (Some e) client_data of
        (status, client_data') \<Rightarrow>
          if sint status < 0 then (status, client_data')
          else walk_entries func (Suc n) es client_data')"

definition H5Ewalk ::
  "hdf5 \<Rightarrow> H5E_direction_t \<Rightarrow> (nat \<Rightarrow> H5E_error_t option \<Rightarrow> 'a \<Rightarrow> herr_t \<times> 'a) \<Rightarrow> 'a \<Rightarrow> herr_t \<times> 'a"
where
  "H5Ewalk lib direction func client_data =
     walk_entries func 0 (walk_order direction (error_stack lib)) client_data"

definition H5Eget_major :: "hdf5 \<Rightarrow> jint \<Rightarrow> string" where
  "H5Eget_major lib n = major_mesg lib n"

definition H5Eget_minor :: "hdf5 \<Rightarrow> jint \<Rightarrow> string" where
  "H5Eget_minor lib n = minor_mesg lib n"

subsection \<open>exceptionImp.c\<close>

text \<open>
  \<^verbatim>\<open>H5E_num_t\<close>, the pair the callback fills. Its fields \<^verbatim>\<open>maj_num\<close> and \<^verbatim>\<open>min_num\<close> carry
  the prefix \<open>nums\<close> here, those of \<^verbatim>\<open>H5E_error_t\<close> the prefix \<open>err\<close>, since the source uses
  the two names for local variables as well.
\<close>

record H5E_num_t =
  nums_maj_num :: jint
  nums_min_num :: jint

definition walk_error_callback ::
  "nat \<Rightarrow> H5E_error_t option \<Rightarrow> H5E_num_t \<Rightarrow> herr_t \<times> H5E_num_t"
where
  "walk_error_callback n err_desc err_nums =
     (case err_desc of
        Some d \<Rightarrow> (0, err_nums\<lparr>nums_maj_num := err_maj_num d, nums_min_num := err_min_num d\<rparr>)
      | None \<Rightarrow> (0, err_nums))"

text \<open>
  \<^verbatim>\<open>H5E_num_t err_nums;\<close> is an automatic variable without an initialiser: what it holds
  before the walk is whatever the C stack held, the parameter \<open>err_nums\<close> here. The status
  of \<^verbatim>\<open>H5Ewalk\<close> is dropped, as in the source.
\<close>

definition getMajorErrorNumber :: "hdf5 \<Rightarrow> H5E_num_t \<Rightarrow> jint" where
  "getMajorErrorNumber lib err_nums =
     nums_maj_num (snd (H5Ewalk lib H5E_WALK_DOWNWARD walk_error_callback err_nums))"

definition getMinorErrorNumber :: "hdf5 \<Rightarrow> H5E_num_t \<Rightarrow> jint" where
  "getMinorErrorNumber lib err_nums =
     nums_min_num (snd (H5Ewalk lib H5E_WALK_DOWNWARD walk_error_callback err_nums))"

text \<open>
  \<^verbatim>\<open>h5outOfMemory\<close>, \<^verbatim>\<open>h5JNIFatalError\<close>, \<^verbatim>\<open>h5nullArgument\<close>, \<^verbatim>\<open>h5badArgument\<close>,
  \<^verbatim>\<open>h5unimplemented\<close>, \<^verbatim>\<open>h5illegalConstantError\<close> and \<^verbatim>\<open>h5raiseException\<close> have the same
  body, statement for statement; they differ in the class name, in the text of the
  string and in the line printed when \<^verbatim>\<open>Throw\<close> fails. The body is written once, with
  these three as parameters. The argument array is \<^verbatim>\<open>char *args[2]\<close> holding the string
  reference and \<^verbatim>\<open>0\<close>, passed as a \<^verbatim>\<open>jvalue *\<close>. Neither the string nor the object is
  checked against \<^verbatim>\<open>NULL\<close>.
\<close>

definition throw_with_string :: "JNIEnv \<Rightarrow> string \<Rightarrow> string \<Rightarrow> string \<Rightarrow> jboolean \<times> event list" where
  "throw_with_string env class_name text diagnostic =
     (case FindClass env class_name of
        None \<Rightarrow> (JNI_FALSE, [JNI_FindClass class_name])
      | Some jc \<Rightarrow>
          (case GetMethodID env jc ''<init>'' ''(Ljava/lang/String;)V'' of
             None \<Rightarrow>
               (JNI_FALSE,
                [JNI_FindClass class_name, JNI_GetMethodID jc ''<init>'' ''(Ljava/lang/String;)V''])
           | Some jm \<Rightarrow>
               (let str = NewStringUTF env text;
                    args = [JV_l str, JV_l None];
                    ex = NewObjectA env jc jm args;
                    rval = Throw env ex;
                    calls = [JNI_FindClass class_name,
                             JNI_GetMethodID jc ''<init>'' ''(Ljava/lang/String;)V'',
                             JNI_NewStringUTF text,
                             JNI_NewObjectA jc jm args,
                             JNI_Throw ex rval]
                in if sint rval < 0 then (JNI_FALSE, calls @ [C_fprintf_stderr diagnostic])
                   else (JNI_TRUE, calls))))"

definition h5outOfMemory :: "JNIEnv \<Rightarrow> string \<Rightarrow> jboolean \<times> event list" where
  "h5outOfMemory env functName =
     throw_with_string env ''java/lang/OutOfMemoryError'' functName
       (''FATAL ERROR:  OutOfMemoryError: Throw failed'' @ [CHR 0x0A])"

definition h5JNIFatalError :: "JNIEnv \<Rightarrow> string \<Rightarrow> jboolean \<times> event list" where
  "h5JNIFatalError env functName =
     throw_with_string env ''java/lang/InternalError'' functName
       (''FATAL ERROR:  JNIFatal: Throw failed'' @ [CHR 0x0A])"

definition h5nullArgument :: "JNIEnv \<Rightarrow> string \<Rightarrow> jboolean \<times> event list" where
  "h5nullArgument env functName =
     throw_with_string env ''java/lang/NullPointerException'' functName
       (''FATAL ERROR:  NullPointer: Throw failed'' @ [CHR 0x0A])"

definition h5badArgument :: "JNIEnv \<Rightarrow> string \<Rightarrow> jboolean \<times> event list" where
  "h5badArgument env functName =
     throw_with_string env ''java/lang/IllegalArgumentException'' functName
       (''FATAL ERROR:  BadArgument: Throw failed'' @ [CHR 0x0A])"

definition h5unimplemented :: "JNIEnv \<Rightarrow> string \<Rightarrow> jboolean \<times> event list" where
  "h5unimplemented env functName =
     throw_with_string env ''java/lang/UnsupportedOperationException'' functName
       (''FATAL ERROR:  Unsupported: Throw failed'' @ [CHR 0x0A])"

definition h5illegalConstantError :: "JNIEnv \<Rightarrow> jboolean \<times> event list" where
  "h5illegalConstantError env =
     throw_with_string env ''java/lang/IllegalArgumentException'' ''Illegal java constant''
       (''FATAL ERROR:  Unsupported: Throw failed'' @ [CHR 0x0A])"

definition h5raiseException :: "JNIEnv \<Rightarrow> string \<Rightarrow> string \<Rightarrow> jboolean \<times> event list" where
  "h5raiseException env exception message =
     throw_with_string env exception message
       (''FATAL ERROR:  raiseException: Throw failed'' @ [CHR 0x0A])"

text \<open>
  The cast \<^verbatim>\<open>(H5E_major_t) maj_num\<close> keeps the value; the comparisons are with the
  library's major error numbers, in the order of the source.
\<close>

definition defineHDF5LibraryException :: "hdf5 \<Rightarrow> jint \<Rightarrow> string" where
  "defineHDF5LibraryException lib maj_num =
     (let err_num = sint maj_num in
      if err_num = macro_value lib ''H5E_ARGS'' then
        ''ncsa/hdf/hdf5lib/exceptions/HDF5FunctionArgumentException''
      else if err_num = macro_value lib ''H5E_RESOURCE'' then
        ''ncsa/hdf/hdf5lib/exceptions/HDF5ResourceUnavailableException''
      else if err_num = macro_value lib ''H5E_INTERNAL'' then
        ''ncsa/hdf/hdf5lib/exceptions/HDF5InternalErrorException''
      else if err_num = macro_value lib ''H5E_FILE'' then
        ''ncsa/hdf/hdf5lib/exceptions/HDF5FileInterfaceException''
      else if err_num = macro_value lib ''H5E_IO'' then
        ''ncsa/hdf/hdf5lib/exceptions/HDF5LowLevelIOException''
      else if err_num = macro_value lib ''H5E_FUNC'' then
        ''ncsa/hdf/hdf5lib/exceptions/HDF5FunctionEntryExitException''
      else if err_num = macro_value lib ''H5E_ATOM'' then
        ''ncsa/hdf/hdf5lib/exceptions/HDF5AtomException''
      else if err_num = macro_value lib ''H5E_CACHE'' then
        ''ncsa/hdf/hdf5lib/exceptions/HDF5MetaDataCacheException''
      else if err_num = macro_value lib ''H5E_BTREE'' then
        ''ncsa/hdf/hdf5lib/exceptions/HDF5BtreeException''
      else if err_num = macro_value lib ''H5E_SYM'' then
        ''ncsa/hdf/hdf5lib/exceptions/HDF5SymbolTableException''
      else if err_num = macro_value lib ''H5E_HEAP'' then
        ''ncsa/hdf/hdf5lib/exceptions/HDF5HeapException''
      else if err_num = macro_value lib ''H5E_OHDR'' then
        ''ncsa/hdf/hdf5lib/exceptions/HDF5ObjectHeaderException''
      else if err_num = macro_value lib ''H5E_DATATYPE'' then
        ''ncsa/hdf/hdf5lib/exceptions/HDF5DatatypeInterfaceException''
      else if err_num = macro_value lib ''H5E_DATASPACE'' then
        ''ncsa/hdf/hdf5lib/exceptions/HDF5DataspaceInterfaceException''
      else if err_num = macro_value lib ''H5E_DATASET'' then
        ''ncsa/hdf/hdf5lib/exceptions/HDF5DatasetInterfaceException''
      else if err_num = macro_value lib ''H5E_STORAGE'' then
        ''ncsa/hdf/hdf5lib/exceptions/HDF5DataStorageException''
      else if err_num = macro_value lib ''H5E_PLIST'' then
        ''ncsa/hdf/hdf5lib/exceptions/HDF5PropertyListInterfaceException''
      else if err_num = macro_value lib ''H5E_ATTR'' then
        ''ncsa/hdf/hdf5lib/exceptions/HDF5AttributeException''
      else if err_num = macro_value lib ''H5E_PLINE'' then
        ''ncsa/hdf/hdf5lib/exceptions/HDF5DataFiltersException''
      else if err_num = macro_value lib ''H5E_EFL'' then
        ''ncsa/hdf/hdf5lib/exceptions/HDF5ExternalFileListException''
      else if err_num = macro_value lib ''H5E_REFERENCE'' then
        ''ncsa/hdf/hdf5lib/exceptions/HDF5ReferenceException''
      else
        ''ncsa/hdf/hdf5lib/exceptions/HDF5LibraryException'')"

text \<open>
  \<^verbatim>\<open>h5libraryError\<close>. The two calls of the getters each walk the stack with an
  uninitialised \<^verbatim>\<open>err_nums\<close> of their own (\<open>junk1\<close>, \<open>junk2\<close>).
\<close>

definition h5libraryError :: "JNIEnv \<Rightarrow> hdf5 \<Rightarrow> H5E_num_t \<Rightarrow> H5E_num_t \<Rightarrow> jboolean \<times> event list" where
  "h5libraryError env lib junk1 junk2 =
     (let maj_num = getMajorErrorNumber lib junk1;
          maj_msg = H5Eget_major lib maj_num;
          exception = defineHDF5LibraryException lib maj_num;
          calls1 = [H5_Ewalk H5E_WALK_DOWNWARD, H5_Eget_major maj_num, JNI_FindClass exception]
      in case FindClass env exception of
           None \<Rightarrow> (JNI_FALSE, calls1)
         | Some jc \<Rightarrow>
             (let calls2 = calls1 @
                    [JNI_GetMethodID jc ''<init>'' ''(ILjava/lang/String;ILjava/lang/String;)V'']
              in case GetMethodID env jc ''<init>'' ''(ILjava/lang/String;ILjava/lang/String;)V'' of
                   None \<Rightarrow>
                     (JNI_FALSE, calls2 @
                        [C_fprintf_stderr
                           (''FATAL ERROR:  h5libraryError: Cannot find constructor'' @ [CHR 0x0A])])
                 | Some jm \<Rightarrow>
                     (let min_num = getMinorErrorNumber lib junk2;
                          min_msg = H5Eget_minor lib min_num;
                          maj_msg_str = NewStringUTF env maj_msg;
                          min_msg_str = NewStringUTF env min_msg;
                          calls3 = calls2 @
                            [H5_Ewalk H5E_WALK_DOWNWARD, H5_Eget_minor min_num,
                             JNI_NewStringUTF maj_msg, JNI_NewStringUTF min_msg]
                      in if maj_msg_str = None \<or> min_msg_str = None then
                           (JNI_FALSE, calls3 @
                              [C_fprintf_stderr
                                 (''FATAL ERROR: h5libraryError: Out of Memory'' @ [CHR 0x0A])])
                         else
                           (let args = [JV_i maj_num, JV_l maj_msg_str, JV_i min_num, JV_l min_msg_str];
                                ex = NewObjectA env jc jm args;
                                rval = Throw env ex;
                                calls4 = calls3 @ [JNI_NewObjectA jc jm args, JNI_Throw ex rval]
                            in if sint rval < 0 then
                                 (JNI_FALSE, calls4 @
                                    [C_fprintf_stderr
                                       (''FATAL ERROR:  h5libraryError: Throw failed'' @ [CHR 0x0A])])
                               else (JNI_TRUE, calls4)))))"

text \<open>
  \<^verbatim>\<open>fopen\<close>: whether the file can be opened is the file system's answer. The source passes
  the result of \<^verbatim>\<open>GetStringUTFChars\<close> on without a check; a \<^verbatim>\<open>NULL\<close> path is taken here
  as an open that fails.
\<close>

definition fopen :: "(string \<Rightarrow> string \<Rightarrow> bool) \<Rightarrow> string option \<Rightarrow> string \<Rightarrow> FILE option" where
  "fopen can_open path mode =
     (case path of
        None \<Rightarrow> None
      | Some p \<Rightarrow> if can_open p mode then Some (Opened p mode) else None)"

text \<open>
  \<^verbatim>\<open>Java_ncsa_hdf_hdf5lib_exceptions_HDF5LibraryException_printStackTrace0\<close>. The function
  returns nothing; the model returns the calls it made.
\<close>

definition printStackTrace0 ::
  "JNIEnv \<Rightarrow> (string \<Rightarrow> string \<Rightarrow> bool) \<Rightarrow> jstring option \<Rightarrow> event list"
where
  "printStackTrace0 env can_open file_name =
     (case file_name of
        None \<Rightarrow> [H5_Eprint (Some Stderr)]
      | Some name \<Rightarrow>
          (let file = GetStringUTFChars env name;
               stream = fopen can_open file ''a+''
           in [JNI_GetStringUTFChars name, C_fopen file ''a+'' stream, H5_Eprint stream,
               JNI_ReleaseStringUTFChars name file]
              @ (case stream of Some f \<Rightarrow> [C_fclose f] | None \<Rightarrow> [])))"

subsection \<open>h5Constants.h: the identifiers of the managed side\<close>

text \<open>
  Each \<^verbatim>\<open>#define JH5... n\<close> of the header that is not commented out, in the header's order.
\<close>

definition JH5_SZIP_MAX_PIXELS_PER_BLOCK :: int where "JH5_SZIP_MAX_PIXELS_PER_BLOCK = 1000"
definition JH5_SZIP_NN_OPTION_MASK :: int where "JH5_SZIP_NN_OPTION_MASK = 1010"
definition JH5_SZIP_EC_OPTION_MASK :: int where "JH5_SZIP_EC_OPTION_MASK = 1020"
definition JH5_SZIP_ALLOW_K13_OPTION_MASK :: int where "JH5_SZIP_ALLOW_K13_OPTION_MASK = 1021"
definition JH5_SZIP_CHIP_OPTION_MASK :: int where "JH5_SZIP_CHIP_OPTION_MASK = 1022"
definition JH5D_ALLOC_TIME_DEFAULT :: int where "JH5D_ALLOC_TIME_DEFAULT = 1030"
definition JH5D_ALLOC_TIME_EARLY :: int where "JH5D_ALLOC_TIME_EARLY = 1040"
definition JH5D_ALLOC_TIME_ERROR :: int where "JH5D_ALLOC_TIME_ERROR = 1050"
definition JH5D_ALLOC_TIME_INCR :: int where "JH5D_ALLOC_TIME_INCR = 1060"
definition JH5D_ALLOC_TIME_LATE :: int where "JH5D_ALLOC_TIME_LATE = 1070"
definition JH5D_CHUNKED :: int where "JH5D_CHUNKED = 1080"
definition JH5D_COMPACT :: int where "JH5D_COMPACT = 1090"
definition JH5D_CONTIGUOUS :: int where "JH5D_CONTIGUOUS = 1100"
definition JH5D_FILL_TIME_ALLOC :: int where "JH5D_FILL_TIME_ALLOC = 1110"
definition JH5D_FILL_TIME_ERROR :: int where "JH5D_FILL_TIME_ERROR = 1120"
definition JH5D_FILL_TIME_NEVER :: int where "JH5D_FILL_TIME_NEVER = 1130"
definition JH5D_FILL_VALUE_DEFAULT :: int where "JH5D_FILL_VALUE_DEFAULT = 1140"
definition JH5D_FILL_VALUE_ERROR :: int where "JH5D_FILL_VALUE_ERROR = 1150"
definition JH5D_FILL_VALUE_UNDEFINED :: int where "JH5D_FILL_VALUE_UNDEFINED = 1160"
definition JH5D_FILL_VALUE_USER_DEFINED :: int where "JH5D_FILL_VALUE_USER_DEFINED = 1170"
definition JH5D_LAYOUT_ERROR :: int where "JH5D_LAYOUT_ERROR = 1180"
definition JH5D_NLAYOUTS :: int where "JH5D_NLAYOUTS = 1190"
definition JH5D_SPACE_STATUS_ALLOCATED :: int where "JH5D_SPACE_STATUS_ALLOCATED = 1200"
definition JH5D_SPACE_STATUS_ERROR :: int where "JH5D_SPACE_STATUS_ERROR = 1210"
definition JH5D_SPACE_STATUS_NOT_ALLOCATED :: int where "JH5D_SPACE_STATUS_NOT_ALLOCATED = 1220"
definition JH5D_SPACE_STATUS_PART_ALLOCATED :: int where "JH5D_SPACE_STATUS_PART_ALLOCATED = 1230"
definition JH5E_ALIGNMENT :: int where "JH5E_ALIGNMENT = 1240"
definition JH5E_ALREADYEXISTS :: int where "JH5E_ALREADYEXISTS = 1250"
definition JH5E_ALREADYINIT :: int where "JH5E_ALREADYINIT = 1260"
definition JH5E_ARGS :: int where "JH5E_ARGS = 1270"
definition JH5E_ATOM :: int where "JH5E_ATOM = 1280"
definition JH5E_ATTR :: int where "JH5E_ATTR = 1290"
definition JH5E_BADATOM :: int where "JH5E_BADATOM = 1300"
definition JH5E_BADFILE :: int where "JH5E_BADFILE = 1310"
definition JH5E_BADGROUP :: int where "JH5E_BADGROUP = 1320"
definition JH5E_BADMESG :: int where "JH5E_BADMESG = 1330"
definition JH5E_BADRANGE :: int where "JH5E_BADRANGE = 1340"
definition JH5E_BADSELECT :: int where "JH5E_BADSELECT = 1350"
definition JH5E_BADSIZE :: int where "JH5E_BADSIZE = 1360"
definition JH5E_BADTYPE :: int where "JH5E_BADTYPE = 1370"
definition JH5E_BADVALUE :: int where "JH5E_BADVALUE = 1380"
definition JH5E_BTREE :: int where "JH5E_BTREE = 1390"
definition JH5E_CACHE :: int where "JH5E_CACHE = 1400"
definition JH5E_CALLBACK :: int where "JH5E_CALLBACK = 1410"
definition JH5E_CANAPPLY :: int where "JH5E_CANAPPLY = 1420"
definition JH5E_CANTCLIP :: int where "JH5E_CANTCLIP = 1450"
definition JH5E_CANTCLOSEFILE :: int where "JH5E_CANTCLOSEFILE = 1460"
definition JH5E_CANTCONVERT :: int where "JH5E_CANTCONVERT = 1470"
definition JH5E_CANTCOPY :: int where "JH5E_CANTCOPY = 1480"
definition JH5E_CANTCOUNT :: int where "JH5E_CANTCOUNT = 1490"
definition JH5E_CANTCREATE :: int where "JH5E_CANTCREATE = 1500"
definition JH5E_CANTDEC :: int where "JH5E_CANTDEC = 1510"
definition JH5E_CANTDECODE :: int where "JH5E_CANTDECODE = 1520"
definition JH5E_CANTDELETE :: int where "JH5E_CANTDELETE = 1530"
definition JH5E_CANTENCODE :: int where "JH5E_CANTENCODE = 1540"
definition JH5E_CANTFLUSH :: int where "JH5E_CANTFLUSH = 1550"
definition JH5E_CANTFREE :: int where "JH5E_CANTFREE = 1560"
definition JH5E_CANTGET :: int where "JH5E_CANTGET = 1570"
definition JH5E_CANTINC :: int where "JH5E_CANTINC = 1580"
definition JH5E_CANTINIT :: int where "JH5E_CANTINIT = 1590"
definition JH5E_CANTINSERT :: int where "JH5E_CANTINSERT = 1600"
definition JH5E_CANTLIST :: int where "JH5E_CANTLIST = 1610"
definition JH5E_CANTLOAD :: int where "JH5E_CANTLOAD = 1620"
definition JH5E_CANTLOCK :: int where "JH5E_CANTLOCK = 1630"
definition JH5E_CANTMAKETREE :: int where "JH5E_CANTMAKETREE = 1640"
definition JH5E_CANTNEXT :: int where "JH5E_CANTNEXT = 1650"
definition JH5E_CANTOPENFILE :: int where "JH5E_CANTOPENFILE = 1660"
definition JH5E_CANTOPENOBJ :: int where "JH5E_CANTOPENOBJ = 1670"
definition JH5E_CANTREGISTER :: int where "JH5E_CANTREGISTER = 1690"
definition JH5E_CANTRELEASE :: int where "JH5E_CANTRELEASE = 1700"
definition JH5E_CANTSELECT :: int where "JH5E_CANTSELECT = 1710"
definition JH5E_CANTSET :: int where "JH5E_CANTSET = 1730"
definition JH5E_CANTSPLIT :: int where "JH5E_CANTSPLIT = 1740"
definition JH5E_CANTUNLOCK :: int where "JH5E_CANTUNLOCK = 1750"
definition JH5E_CLOSEERROR :: int where "JH5E_CLOSEERROR = 1760"
definition JH5E_COMPLEN :: int where "JH5E_COMPLEN = 1770"
definition JH5E_DATASET :: int where "JH5E_DATASET = 1790"
definition JH5E_DATASPACE :: int where "JH5E_DATASPACE = 1800"
definition JH5E_DATATYPE :: int where "JH5E_DATATYPE = 1810"
definition JH5E_DUPCLASS :: int where "JH5E_DUPCLASS = 1820"
definition JH5E_EFL :: int where "JH5E_EFL = 1830"
definition JH5E_EXISTS :: int where "JH5E_EXISTS = 1840"
definition JH5E_FCNTL :: int where "JH5E_FCNTL = 1850"
definition JH5E_FILE :: int where "JH5E_FILE = 1860"
definition JH5E_FILEEXISTS :: int where "JH5E_FILEEXISTS = 1870"
definition JH5E_FILEOPEN :: int where "JH5E_FILEOPEN = 1880"
definition JH5E_FUNC :: int where "JH5E_FUNC = 1900"
definition JH5E_HEAP :: int where "JH5E_HEAP = 1910"
definition JH5E_INTERNAL :: int where "JH5E_INTERNAL = 1920"
definition JH5E_IO :: int where "JH5E_IO = 1930"
definition JH5E_LINK :: int where "JH5E_LINK = 1940"
definition JH5E_LINKCOUNT :: int where "JH5E_LINKCOUNT = 1950"
definition JH5E_MOUNT :: int where "JH5E_MOUNT = 1960"
definition JH5E_MPI :: int where "JH5E_MPI = 1970"
definition JH5E_MPIERRSTR :: int where "JH5E_MPIERRSTR = 1980"
definition JH5E_NOFILTER :: int where "JH5E_NOFILTER = 1990"
definition JH5E_NOIDS :: int where "JH5E_NOIDS = 2000"
definition JH5E_NONE_MAJOR :: int where "JH5E_NONE_MAJOR = 2010"
definition JH5E_NONE_MINOR :: int where "JH5E_NONE_MINOR = 2020"
definition JH5E_NOSPACE :: int where "JH5E_NOSPACE = 2030"
definition JH5E_NOTCACHED :: int where "JH5E_NOTCACHED = 2040"
definition JH5E_NOTFOUND :: int where "JH5E_NOTFOUND = 2050"
definition JH5E_NOTHDF5 :: int where "JH5E_NOTHDF5 = 2060"
definition JH5E_OHDR :: int where "JH5E_OHDR = 2070"
definition JH5E_OVERFLOW :: int where "JH5E_OVERFLOW = 2080"
definition JH5E_PLINE :: int where "JH5E_PLINE = 2090"
definition JH5E_PLIST :: int where "JH5E_PLIST = 2100"
definition JH5E_PROTECT :: int where "JH5E_PROTECT = 2110"
definition JH5E_READERROR :: int where "JH5E_READERROR = 2120"
definition JH5E_REFERENCE :: int where "JH5E_REFERENCE = 2130"
definition JH5E_RESOURCE :: int where "JH5E_RESOURCE = 2140"
definition JH5E_RS :: int where "JH5E_RS = 2150"
definition JH5E_SEEKERROR :: int where "JH5E_SEEKERROR = 2160"
definition JH5E_SETLOCAL :: int where "JH5E_SETLOCAL = 2170"
definition JH5E_STORAGE :: int where "JH5E_STORAGE = 2190"
definition JH5E_SYM :: int where "JH5E_SYM = 2200"
definition JH5E_TRUNCATED :: int where "JH5E_TRUNCATED = 2220"
definition JH5E_TST :: int where "JH5E_TST = 2230"
definition JH5E_UNINITIALIZED :: int where "JH5E_UNINITIALIZED = 2240"
definition JH5E_UNSUPPORTED :: int where "JH5E_UNSUPPORTED = 2250"
definition JH5E_VERSION :: int where "JH5E_VERSION = 2260"
definition JH5E_VFL :: int where "JH5E_VFL = 2270"
definition JH5E_WALK_DOWNWARD :: int where "JH5E_WALK_DOWNWARD = 2280"
definition JH5E_WALK_UPWARD :: int where "JH5E_WALK_UPWARD = 2290"
definition JH5E_WRITEERROR :: int where "JH5E_WRITEERROR = 2300"
definition JH5F_ACC_CREAT :: int where "JH5F_ACC_CREAT = 2310"
definition JH5F_ACC_DEBUG :: int where "JH5F_ACC_DEBUG = 2320"
definition JH5F_ACC_EXCL :: int where "JH5F_ACC_EXCL = 2330"
definition JH5F_ACC_RDONLY :: int where "JH5F_ACC_RDONLY = 2340"
definition JH5F_ACC_RDWR :: int where "JH5F_ACC_RDWR = 2350"
definition JH5F_ACC_TRUNC :: int where "JH5F_ACC_TRUNC = 2360"
definition JH5F_CLOSE_DEFAULT :: int where "JH5F_CLOSE_DEFAULT = 2370"
definition JH5F_CLOSE_SEMI :: int where "JH5F_CLOSE_SEMI = 2380"
definition JH5F_CLOSE_STRONG :: int where "JH5F_CLOSE_STRONG = 2390"
definition JH5F_CLOSE_WEAK :: int where "JH5F_CLOSE_WEAK = 2400"
definition JH5F_OBJ_ALL :: int where "JH5F_OBJ_ALL = 2410"
definition JH5F_OBJ_ATTR :: int where "JH5F_OBJ_ATTR = 2415"
definition JH5F_OBJ_DATASET :: int where "JH5F_OBJ_DATASET = 2420"
definition JH5F_OBJ_DATATYPE :: int where "JH5F_OBJ_DATATYPE = 2430"
definition JH5F_OBJ_FILE :: int where "JH5F_OBJ_FILE = 2440"
definition JH5F_OBJ_GROUP :: int where "JH5F_OBJ_GROUP = 2450"
definition JH5F_OBJ_LOCAL :: int where "JH5F_OBJ_LOCAL = 2455"
definition JH5F_SCOPE_DOWN :: int where "JH5F_SCOPE_DOWN = 2460"
definition JH5F_SCOPE_GLOBAL :: int where "JH5F_SCOPE_GLOBAL = 2470"
definition JH5F_SCOPE_LOCAL :: int where "JH5F_SCOPE_LOCAL = 2480"
definition JH5F_UNLIMITED :: int where "JH5F_UNLIMITED = 2490"
definition JH5F_LIBVER_EARLIEST :: int where "JH5F_LIBVER_EARLIEST = 2494"
definition JH5F_LIBVER_LATEST :: int where "JH5F_LIBVER_LATEST = 2495"
definition JH5G_DATASET :: int where "JH5G_DATASET = 2500"
definition JH5G_GROUP :: int where "JH5G_GROUP = 2510"
definition JH5G_LINK :: int where "JH5G_LINK = 2520"
definition JH5G_LINK_ERROR :: int where "JH5G_LINK_ERROR = 2530"
definition JH5G_LINK_HARD :: int where "JH5G_LINK_HARD = 2540"
definition JH5G_LINK_SOFT :: int where "JH5G_LINK_SOFT = 2550"
definition JH5G_NLIBTYPES :: int where "JH5G_NLIBTYPES = 2560"
definition JH5G_NTYPES :: int where "JH5G_NTYPES = 2570"
definition JH5G_NUSERTYPES :: int where "JH5G_NUSERTYPES = 2580"
definition JH5G_RESERVED_5 :: int where "JH5G_RESERVED_5 = 2600"
definition JH5G_RESERVED_6 :: int where "JH5G_RESERVED_6 = 2610"
definition JH5G_RESERVED_7 :: int where "JH5G_RESERVED_7 = 2620"
definition JH5G_SAME_LOC :: int where "JH5G_SAME_LOC = 2630"
definition JH5G_TYPE :: int where "JH5G_TYPE = 2640"
definition JH5G_UNKNOWN :: int where "JH5G_UNKNOWN = 2650"
definition JH5G_USERTYPE :: int where "JH5G_USERTYPE = 2660"
definition JH5I_ATTR :: int where "JH5I_ATTR = 2670"
definition JH5I_BADID :: int where "JH5I_BADID = 2680"
definition JH5I_DATASET :: int where "JH5I_DATASET = 2690"
definition JH5I_DATASPACE :: int where "JH5I_DATASPACE = 2700"
definition JH5I_DATATYPE :: int where "JH5I_DATATYPE = 2710"
definition JH5I_FILE :: int where "JH5I_FILE = 2720"
definition JH5I_FILE_CLOSING :: int where "JH5I_FILE_CLOSING = 2730"
definition JH5I_GENPROP_CLS :: int where "JH5I_GENPROP_CLS = 2740"
definition JH5I_GENPROP_LST :: int where "JH5I_GENPROP_LST = 2750"
definition JH5I_GROUP :: int where "JH5I_GROUP = 2760"
definition JH5I_INVALID_HID :: int where "JH5I_INVALID_HID = 2770"
definition JH5I_REFERENCE :: int where "JH5I_REFERENCE = 2790"
definition JH5I_VFL :: int where "JH5I_VFL = 2810"
definition JH5O_TYPE_UNKNOWN :: int where "JH5O_TYPE_UNKNOWN = 5510"
definition JH5O_TYPE_GROUP :: int where "JH5O_TYPE_GROUP = 5520"
definition JH5O_TYPE_DATASET :: int where "JH5O_TYPE_DATASET = 5530"
definition JH5O_TYPE_NAMED_DATATYPE :: int where "JH5O_TYPE_NAMED_DATATYPE = 5540"
definition JH5O_TYPE_NTYPES :: int where "JH5O_TYPE_NTYPES = 5550"
definition JH5L_TYPE_ERROR :: int where "JH5L_TYPE_ERROR = 5560"
definition JH5L_TYPE_HARD :: int where "JH5L_TYPE_HARD = 5570"
definition JH5L_TYPE_SOFT :: int where "JH5L_TYPE_SOFT = 5580"
definition JH5L_TYPE_EXTERNAL :: int where "JH5L_TYPE_EXTERNAL = 5590"
definition JH5L_TYPE_MAX :: int where "JH5L_TYPE_MAX = 5600"
definition JH5P_DATASET_CREATE :: int where "JH5P_DATASET_CREATE = 2820"
definition JH5P_DATASET_CREATE_DEFAULT :: int where "JH5P_DATASET_CREATE_DEFAULT = 2830"
definition JH5P_DATASET_XFER :: int where "JH5P_DATASET_XFER = 2840"
definition JH5P_DATASET_XFER_DEFAULT :: int where "JH5P_DATASET_XFER_DEFAULT = 2850"
definition JH5P_DEFAULT :: int where "JH5P_DEFAULT = 2860"
definition JH5P_FILE_ACCESS :: int where "JH5P_FILE_ACCESS = 2870"
definition JH5P_FILE_ACCESS_DEFAULT :: int where "JH5P_FILE_ACCESS_DEFAULT = 2880"
definition JH5P_FILE_CREATE :: int where "JH5P_FILE_CREATE = 2890"
definition JH5P_FILE_CREATE_DEFAULT :: int where "JH5P_FILE_CREATE_DEFAULT = 2900"
definition JH5P_NO_CLASS :: int where "JH5P_NO_CLASS = 2930"
definition JH5P_ROOT :: int where "JH5P_ROOT = 6000"
definition JH5P_OBJECT_CREATE :: int where "JH5P_OBJECT_CREATE = 6010"
definition JH5P_DATASET_ACCESS :: int where "JH5P_DATASET_ACCESS = 6020"
definition JH5P_DATASET_ACCESS_DEFAULT :: int where "JH5P_DATASET_ACCESS_DEFAULT = 6030"
definition JH5P_FILE_MOUNT :: int where "JH5P_FILE_MOUNT = 6040"
definition JH5P_FILE_MOUNT_DEFAULT :: int where "JH5P_FILE_MOUNT_DEFAULT = 6050"
definition JH5P_GROUP_CREATE :: int where "JH5P_GROUP_CREATE = 6060"
definition JH5P_GROUP_CREATE_DEFAULT :: int where "JH5P_GROUP_CREATE_DEFAULT = 6070"
definition JH5P_GROUP_ACCESS :: int where "JH5P_GROUP_ACCESS = 6080"
definition JH5P_GROUP_ACCESS_DEFAULT :: int where "JH5P_GROUP_ACCESS_DEFAULT = 6090"
definition JH5P_DATATYPE_CREATE :: int where "JH5P_DATATYPE_CREATE = 6100"
definition JH5P_DATATYPE_CREATE_DEFAULT :: int where "JH5P_DATATYPE_CREATE_DEFAULT = 6110"
definition JH5P_DATATYPE_ACCESS :: int where "JH5P_DATATYPE_ACCESS = 6120"
definition JH5P_DATATYPE_ACCESS_DEFAULT :: int where "JH5P_DATATYPE_ACCESS_DEFAULT = 6130"
definition JH5P_STRING_CREATE :: int where "JH5P_STRING_CREATE = 6140"
definition JH5P_ATTRIBUTE_CREATE :: int where "JH5P_ATTRIBUTE_CREATE = 6150"
definition JH5P_ATTRIBUTE_CREATE_DEFAULT :: int where "JH5P_ATTRIBUTE_CREATE_DEFAULT = 6160"
definition JH5P_OBJECT_COPY :: int where "JH5P_OBJECT_COPY = 6170"
definition JH5P_OBJECT_COPY_DEFAULT :: int where "JH5P_OBJECT_COPY_DEFAULT = 6180"
definition JH5P_LINK_CREATE :: int where "JH5P_LINK_CREATE = 6190"
definition JH5P_LINK_CREATE_DEFAULT :: int where "JH5P_LINK_CREATE_DEFAULT = 6200"
definition JH5P_LINK_ACCESS :: int where "JH5P_LINK_ACCESS = 6210"
definition JH5P_LINK_ACCESS_DEFAULT :: int where "JH5P_LINK_ACCESS_DEFAULT = 6220"
definition JH5R_BADTYPE :: int where "JH5R_BADTYPE = 2950"
definition JH5R_DATASET_REGION :: int where "JH5R_DATASET_REGION = 2960"
definition JH5R_MAXTYPE :: int where "JH5R_MAXTYPE = 2980"
definition JH5R_OBJ_REF_BUF_SIZE :: int where "JH5R_OBJ_REF_BUF_SIZE = 2990"
definition JH5R_OBJECT :: int where "JH5R_OBJECT = 3000"
definition JH5S_ALL :: int where "JH5S_ALL = 3010"
definition JH5S_MAX_RANK :: int where "JH5S_MAX_RANK = 3030"
definition JH5S_NO_CLASS :: int where "JH5S_NO_CLASS = 3040"
definition JH5S_NULL :: int where "JH5S_NULL = 3045"
definition JH5S_SCALAR :: int where "JH5S_SCALAR = 3050"
definition JH5S_SEL_ALL :: int where "JH5S_SEL_ALL = 3060"
definition JH5S_SEL_ERROR :: int where "JH5S_SEL_ERROR = 3070"
definition JH5S_SEL_HYPERSLABS :: int where "JH5S_SEL_HYPERSLABS = 3080"
definition JH5S_SEL_N :: int where "JH5S_SEL_N = 3090"
definition JH5S_SEL_NONE :: int where "JH5S_SEL_NONE = 3100"
definition JH5S_SEL_POINTS :: int where "JH5S_SEL_POINTS = 3110"
definition JH5S_SELECT_AND :: int where "JH5S_SELECT_AND = 3120"
definition JH5S_SELECT_APPEND :: int where "JH5S_SELECT_APPEND = 3130"
definition JH5S_SELECT_INVALID :: int where "JH5S_SELECT_INVALID = 3140"
definition JH5S_SELECT_NOOP :: int where "JH5S_SELECT_NOOP = 3150"
definition JH5S_SELECT_NOTA :: int where "JH5S_SELECT_NOTA = 3160"
definition JH5S_SELECT_NOTB :: int where "JH5S_SELECT_NOTB = 3170"
definition JH5S_SELECT_OR :: int where "JH5S_SELECT_OR = 3180"
definition JH5S_SELECT_PREPEND :: int where "JH5S_SELECT_PREPEND = 3190"
definition JH5S_SELECT_SET :: int where "JH5S_SELECT_SET = 3200"
definition JH5S_SELECT_XOR :: int where "JH5S_SELECT_XOR = 3210"
definition JH5S_SIMPLE :: int where "JH5S_SIMPLE = 3220"
definition JH5S_UNLIMITED :: int where "JH5S_UNLIMITED = 3230"
definition JH5T_ALPHA_B16 :: int where "JH5T_ALPHA_B16 = 3240"
definition JH5T_ALPHA_B32 :: int where "JH5T_ALPHA_B32 = 3250"
definition JH5T_ALPHA_B64 :: int where "JH5T_ALPHA_B64 = 3260"
definition JH5T_ALPHA_B8 :: int where "JH5T_ALPHA_B8 = 3270"
definition JH5T_ALPHA_F32 :: int where "JH5T_ALPHA_F32 = 3280"
definition JH5T_ALPHA_F64 :: int where "JH5T_ALPHA_F64 = 3290"
definition JH5T_ALPHA_I16 :: int where "JH5T_ALPHA_I16 = 3300"
definition JH5T_ALPHA_I32 :: int where "JH5T_ALPHA_I32 = 3310"
definition JH5T_ALPHA_I64 :: int where "JH5T_ALPHA_I64 = 3320"
definition JH5T_ALPHA_I8 :: int where "JH5T_ALPHA_I8 = 3330"
definition JH5T_ALPHA_U16 :: int where "JH5T_ALPHA_U16 = 3340"
definition JH5T_ALPHA_U32 :: int where "JH5T_ALPHA_U32 = 3350"
definition JH5T_ALPHA_U64 :: int where "JH5T_ALPHA_U64 = 3360"
definition JH5T_ALPHA_U8 :: int where "JH5T_ALPHA_U8 = 3370"
definition JH5T_ARRAY :: int where "JH5T_ARRAY = 3380"
definition JH5T_BITFIELD :: int where "JH5T_BITFIELD = 3390"
definition JH5T_BKG_NO :: int where "JH5T_BKG_NO = 3400"
definition JH5T_BKG_YES :: int where "JH5T_BKG_YES = 3410"
definition JH5T_C_S1 :: int where "JH5T_C_S1 = 3420"
definition JH5T_COMPOUND :: int where "JH5T_COMPOUND = 3430"
definition JH5T_CONV_CONV :: int where "JH5T_CONV_CONV = 3440"
definition JH5T_CONV_FREE :: int where "JH5T_CONV_FREE = 3450"
definition JH5T_CONV_INIT :: int where "JH5T_CONV_INIT = 3460"
definition JH5T_CSET_ASCII :: int where "JH5T_CSET_ASCII = 3470"
definition JH5T_CSET_ERROR :: int where "JH5T_CSET_ERROR = 3480"
definition JH5T_CSET_RESERVED_10 :: int where "JH5T_CSET_RESERVED_10 = 3500"
definition JH5T_CSET_RESERVED_11 :: int where "JH5T_CSET_RESERVED_11 = 3510"
definition JH5T_CSET_RESERVED_12 :: int where "JH5T_CSET_RESERVED_12 = 3520"
definition JH5T_CSET_RESERVED_13 :: int where "JH5T_CSET_RESERVED_13 = 3530"
definition JH5T_CSET_RESERVED_14 :: int where "JH5T_CSET_RESERVED_14 = 3540"
definition JH5T_CSET_RESERVED_15 :: int where "JH5T_CSET_RESERVED_15 = 3550"
definition JH5T_CSET_RESERVED_2 :: int where "JH5T_CSET_RESERVED_2 = 3560"
definition JH5T_CSET_RESERVED_3 :: int where "JH5T_CSET_RESERVED_3 = 3570"
definition JH5T_CSET_RESERVED_4 :: int where "JH5T_CSET_RESERVED_4 = 3580"
definition JH5T_CSET_RESERVED_5 :: int where "JH5T_CSET_RESERVED_5 = 3590"
definition JH5T_CSET_RESERVED_6 :: int where "JH5T_CSET_RESERVED_6 = 3600"
definition JH5T_CSET_RESERVED_7 :: int where "JH5T_CSET_RESERVED_7 = 3610"
definition JH5T_CSET_RESERVED_8 :: int where "JH5T_CSET_RESERVED_8 = 3620"
definition JH5T_CSET_RESERVED_9 :: int where "JH5T_CSET_RESERVED_9 = 3630"
definition JH5T_DIR_ASCEND :: int where "JH5T_DIR_ASCEND = 3640"
definition JH5T_DIR_DEFAULT :: int where "JH5T_DIR_DEFAULT = 3650"
definition JH5T_DIR_DESCEND :: int where "JH5T_DIR_DESCEND = 3660"
definition JH5T_ENUM :: int where "JH5T_ENUM = 3670"
definition JH5T_FLOAT :: int where "JH5T_FLOAT = 3680"
definition JH5T_FORTRAN_S1 :: int where "JH5T_FORTRAN_S1 = 3690"
definition JH5T_IEEE_F32BE :: int where "JH5T_IEEE_F32BE = 3700"
definition JH5T_IEEE_F32LE :: int where "JH5T_IEEE_F32LE = 3710"
definition JH5T_IEEE_F64BE :: int where "JH5T_IEEE_F64BE = 3720"
definition JH5T_IEEE_F64LE :: int where "JH5T_IEEE_F64LE = 3730"
definition JH5T_INTEGER :: int where "JH5T_INTEGER = 3740"
definition JH5T_INTEL_B16 :: int where "JH5T_INTEL_B16 = 3750"
definition JH5T_INTEL_B32 :: int where "JH5T_INTEL_B32 = 3760"
definition JH5T_INTEL_B64 :: int where "JH5T_INTEL_B64 = 3770"
definition JH5T_INTEL_B8 :: int where "JH5T_INTEL_B8 = 3780"
definition JH5T_INTEL_F32 :: int where "JH5T_INTEL_F32 = 3790"
definition JH5T_INTEL_F64 :: int where "JH5T_INTEL_F64 = 3800"
definition JH5T_INTEL_I16 :: int where "JH5T_INTEL_I16 = 3810"
definition JH5T_INTEL_I32 :: int where "JH5T_INTEL_I32 = 3820"
definition JH5T_INTEL_I64 :: int where "JH5T_INTEL_I64 = 3830"
definition JH5T_INTEL_I8 :: int where "JH5T_INTEL_I8 = 3840"
definition JH5T_INTEL_U16 :: int where "JH5T_INTEL_U16 = 3850"
definition JH5T_INTEL_U32 :: int where "JH5T_INTEL_U32 = 3860"
definition JH5T_INTEL_U64 :: int where "JH5T_INTEL_U64 = 3870"
definition JH5T_INTEL_U8 :: int where "JH5T_INTEL_U8 = 3880"
definition JH5T_MIPS_B16 :: int where "JH5T_MIPS_B16 = 3890"
definition JH5T_MIPS_B32 :: int where "JH5T_MIPS_B32 = 3900"
definition JH5T_MIPS_B64 :: int where "JH5T_MIPS_B64 = 3910"
definition JH5T_MIPS_B8 :: int where "JH5T_MIPS_B8 = 3920"
definition JH5T_MIPS_F32 :: int where "JH5T_MIPS_F32 = 3930"
definition JH5T_MIPS_F64 :: int where "JH5T_MIPS_F64 = 3940"
definition JH5T_MIPS_I16 :: int where "JH5T_MIPS_I16 = 3950"
definition JH5T_MIPS_I32 :: int where "JH5T_MIPS_I32 = 3960"
definition JH5T_MIPS_I64 :: int where "JH5T_MIPS_I64 = 3970"
definition JH5T_MIPS_I8 :: int where "JH5T_MIPS_I8 = 3980"
definition JH5T_MIPS_U16 :: int where "JH5T_MIPS_U16 = 3990"
definition JH5T_MIPS_U32 :: int where "JH5T_MIPS_U32 = 4000"
definition JH5T_MIPS_U64 :: int where "JH5T_MIPS_U64 = 4010"
definition JH5T_MIPS_U8 :: int where "JH5T_MIPS_U8 = 4020"
definition JH5T_NATIVE_B16 :: int where "JH5T_NATIVE_B16 = 4030"
definition JH5T_NATIVE_B32 :: int where "JH5T_NATIVE_B32 = 4040"
definition JH5T_NATIVE_B64 :: int where "JH5T_NATIVE_B64 = 4050"
definition JH5T_NATIVE_B8 :: int where "JH5T_NATIVE_B8 = 4060"
definition JH5T_NATIVE_CHAR :: int where "JH5T_NATIVE_CHAR = 4070"
definition JH5T_NATIVE_DOUBLE :: int where "JH5T_NATIVE_DOUBLE = 4080"
definition JH5T_NATIVE_FLOAT :: int where "JH5T_NATIVE_FLOAT = 4090"
definition JH5T_NATIVE_HADDR :: int where "JH5T_NATIVE_HADDR = 4100"
definition JH5T_NATIVE_HBOOL :: int where "JH5T_NATIVE_HBOOL = 4110"
definition JH5T_NATIVE_HERR :: int where "JH5T_NATIVE_HERR = 4120"
definition JH5T_NATIVE_HSIZE :: int where "JH5T_NATIVE_HSIZE = 4130"
definition JH5T_NATIVE_HSSIZE :: int where "JH5T_NATIVE_HSSIZE = 4140"
definition JH5T_NATIVE_INT :: int where "JH5T_NATIVE_INT = 4150"
definition JH5T_NATIVE_INT_FAST16 :: int where "JH5T_NATIVE_INT_FAST16 = 4160"
definition JH5T_NATIVE_INT_FAST32 :: int where "JH5T_NATIVE_INT_FAST32 = 4170"
definition JH5T_NATIVE_INT_FAST64 :: int where "JH5T_NATIVE_INT_FAST64 = 4180"
definition JH5T_NATIVE_INT_FAST8 :: int where "JH5T_NATIVE_INT_FAST8 = 4190"
definition JH5T_NATIVE_INT_LEAST16 :: int where "JH5T_NATIVE_INT_LEAST16 = 4200"
definition JH5T_NATIVE_INT_LEAST32 :: int where "JH5T_NATIVE_INT_LEAST32 = 4210"
definition JH5T_NATIVE_INT_LEAST64 :: int where "JH5T_NATIVE_INT_LEAST64 = 4220"
definition JH5T_NATIVE_INT_LEAST8 :: int where "JH5T_NATIVE_INT_LEAST8 = 4230"
definition JH5T_NATIVE_INT16 :: int where "JH5T_NATIVE_INT16 = 4240"
definition JH5T_NATIVE_INT32 :: int where "JH5T_NATIVE_INT32 = 4250"
definition JH5T_NATIVE_INT64 :: int where "JH5T_NATIVE_INT64 = 4260"
definition JH5T_NATIVE_INT8 :: int where "JH5T_NATIVE_INT8 = 4270"
definition JH5T_NATIVE_LDOUBLE :: int where "JH5T_NATIVE_LDOUBLE = 4280"
definition JH5T_NATIVE_LLONG :: int where "JH5T_NATIVE_LLONG = 4290"
definition JH5T_NATIVE_LONG :: int where "JH5T_NATIVE_LONG = 4300"
definition JH5T_NATIVE_OPAQUE :: int where "JH5T_NATIVE_OPAQUE = 4310"
definition JH5T_NATIVE_SCHAR :: int where "JH5T_NATIVE_SCHAR = 4320"
definition JH5T_NATIVE_SHORT :: int where "JH5T_NATIVE_SHORT = 4330"
definition JH5T_NATIVE_UCHAR :: int where "JH5T_NATIVE_UCHAR = 4340"
definition JH5T_NATIVE_UINT :: int where "JH5T_NATIVE_UINT = 4350"
definition JH5T_NATIVE_UINT_FAST16 :: int where "JH5T_NATIVE_UINT_FAST16 = 4360"
definition JH5T_NATIVE_UINT_FAST32 :: int where "JH5T_NATIVE_UINT_FAST32 = 4370"
definition JH5T_NATIVE_UINT_FAST64 :: int where "JH5T_NATIVE_UINT_FAST64 = 4380"
definition JH5T_NATIVE_UINT_FAST8 :: int where "JH5T_NATIVE_UINT_FAST8 = 4390"
definition JH5T_NATIVE_UINT_LEAST16 :: int where "JH5T_NATIVE_UINT_LEAST16 = 4400"
definition JH5T_NATIVE_UINT_LEAST32 :: int where "JH5T_NATIVE_UINT_LEAST32 = 4410"
definition JH5T_NATIVE_UINT_LEAST64 :: int where "JH5T_NATIVE_UINT_LEAST64 = 4420"
definition JH5T_NATIVE_UINT_LEAST8 :: int where "JH5T_NATIVE_UINT_LEAST8 = 4430"
definition JH5T_NATIVE_UINT16 :: int where "JH5T_NATIVE_UINT16 = 4440"
definition JH5T_NATIVE_UINT32 :: int where "JH5T_NATIVE_UINT32 = 4450"
definition JH5T_NATIVE_UINT64 :: int where "JH5T_NATIVE_UINT64 = 4460"
definition JH5T_NATIVE_UINT8 :: int where "JH5T_NATIVE_UINT8 = 4470"
definition JH5T_NATIVE_ULLONG :: int where "JH5T_NATIVE_ULLONG = 4480"
definition JH5T_NATIVE_ULONG :: int where "JH5T_NATIVE_ULONG = 4490"
definition JH5T_NATIVE_USHORT :: int where "JH5T_NATIVE_USHORT = 4500"
definition JH5T_NCLASSES :: int where "JH5T_NCLASSES = 4510"
definition JH5T_NO_CLASS :: int where "JH5T_NO_CLASS = 4520"
definition JH5T_NORM_ERROR :: int where "JH5T_NORM_ERROR = 4530"
definition JH5T_NORM_IMPLIED :: int where "JH5T_NORM_IMPLIED = 4540"
definition JH5T_NORM_MSBSET :: int where "JH5T_NORM_MSBSET = 4550"
definition JH5T_NORM_NONE :: int where "JH5T_NORM_NONE = 4560"
definition JH5T_NPAD :: int where "JH5T_NPAD = 4570"
definition JH5T_NSGN :: int where "JH5T_NSGN = 4580"
definition JH5T_OPAQUE :: int where "JH5T_OPAQUE = 4590"
definition JH5T_OPAQUE_TAG_MAX :: int where "JH5T_OPAQUE_TAG_MAX = 4595"
definition JH5T_ORDER_BE :: int where "JH5T_ORDER_BE = 4600"
definition JH5T_ORDER_ERROR :: int where "JH5T_ORDER_ERROR = 4610"
definition JH5T_ORDER_LE :: int where "JH5T_ORDER_LE = 4620"
definition JH5T_ORDER_NONE :: int where "JH5T_ORDER_NONE = 4630"
definition JH5T_ORDER_VAX :: int where "JH5T_ORDER_VAX = 4640"
definition JH5T_PAD_BACKGROUND :: int where "JH5T_PAD_BACKGROUND = 4650"
definition JH5T_PAD_ERROR :: int where "JH5T_PAD_ERROR = 4660"
definition JH5T_PAD_ONE :: int where "JH5T_PAD_ONE = 4670"
definition JH5T_PAD_ZERO :: int where "JH5T_PAD_ZERO = 4680"
definition JH5T_PERS_DONTCARE :: int where "JH5T_PERS_DONTCARE = 4690"
definition JH5T_PERS_HARD :: int where "JH5T_PERS_HARD = 4700"
definition JH5T_PERS_SOFT :: int where "JH5T_PERS_SOFT = 4710"
definition JH5T_REFERENCE :: int where "JH5T_REFERENCE = 4720"
definition JH5T_SGN_2 :: int where "JH5T_SGN_2 = 4730"
definition JH5T_SGN_ERROR :: int where "JH5T_SGN_ERROR = 4740"
definition JH5T_SGN_NONE :: int where "JH5T_SGN_NONE = 4750"
definition JH5T_STD_B16BE :: int where "JH5T_STD_B16BE = 4760"
definition JH5T_STD_B16LE :: int where "JH5T_STD_B16LE = 4770"
definition JH5T_STD_B32BE :: int where "JH5T_STD_B32BE = 4780"
definition JH5T_STD_B32LE :: int where "JH5T_STD_B32LE = 4790"
definition JH5T_STD_B64BE :: int where "JH5T_STD_B64BE = 4800"
definition JH5T_STD_B64LE :: int where "JH5T_STD_B64LE = 4810"
definition JH5T_STD_B8BE :: int where "JH5T_STD_B8BE = 4820"
definition JH5T_STD_B8LE :: int where "JH5T_STD_B8LE = 4830"
definition JH5T_STD_I16BE :: int where "JH5T_STD_I16BE = 4840"
definition JH5T_STD_I16LE :: int where "JH5T_STD_I16LE = 4850"
definition JH5T_STD_I32BE :: int where "JH5T_STD_I32BE = 4860"
definition JH5T_STD_I32LE :: int where "JH5T_STD_I32LE = 4870"
definition JH5T_STD_I64BE :: int where "JH5T_STD_I64BE = 4880"
definition JH5T_STD_I64LE :: int where "JH5T_STD_I64LE = 4890"
definition JH5T_STD_I8BE :: int where "JH5T_STD_I8BE = 4900"
definition JH5T_STD_I8LE :: int where "JH5T_STD_I8LE = 4910"
definition JH5T_STD_REF_DSETREG :: int where "JH5T_STD_REF_DSETREG = 4920"
definition JH5T_STD_REF_OBJ :: int where "JH5T_STD_REF_OBJ = 4930"
definition JH5T_STD_U16BE :: int where "JH5T_STD_U16BE = 4940"
definition JH5T_STD_U16LE :: int where "JH5T_STD_U16LE = 4950"
definition JH5T_STD_U32BE :: int where "JH5T_STD_U32BE = 4960"
definition JH5T_STD_U32LE :: int where "JH5T_STD_U32LE = 4970"
definition JH5T_STD_U64BE :: int where "JH5T_STD_U64BE = 4980"
definition JH5T_STD_U64LE :: int where "JH5T_STD_U64LE = 4990"
definition JH5T_STD_U8BE :: int where "JH5T_STD_U8BE = 5000"
definition JH5T_STD_U8LE :: int where "JH5T_STD_U8LE = 5010"
definition JH5T_STR_ERROR :: int where "JH5T_STR_ERROR = 5020"
definition JH5T_STR_NULLPAD :: int where "JH5T_STR_NULLPAD = 5030"
definition JH5T_STR_NULLTERM :: int where "JH5T_STR_NULLTERM = 5040"
definition JH5T_STR_RESERVED_10 :: int where "JH5T_STR_RESERVED_10 = 5050"
definition JH5T_STR_RESERVED_11 :: int where "JH5T_STR_RESERVED_11 = 5060"
definition JH5T_STR_RESERVED_12 :: int where "JH5T_STR_RESERVED_12 = 5070"
definition JH5T_STR_RESERVED_13 :: int where "JH5T_STR_RESERVED_13 = 5080"
definition JH5T_STR_RESERVED_14 :: int where "JH5T_STR_RESERVED_14 = 5090"
definition JH5T_STR_RESERVED_15 :: int where "JH5T_STR_RESERVED_15 = 5100"
definition JH5T_STR_RESERVED_3 :: int where "JH5T_STR_RESERVED_3 = 5110"
definition JH5T_STR_RESERVED_4 :: int where "JH5T_STR_RESERVED_4 = 5120"
definition JH5T_STR_RESERVED_5 :: int where "JH5T_STR_RESERVED_5 = 5130"
definition JH5T_STR_RESERVED_6 :: int where "JH5T_STR_RESERVED_6 = 5140"
definition JH5T_STR_RESERVED_7 :: int where "JH5T_STR_RESERVED_7 = 5150"
definition JH5T_STR_RESERVED_8 :: int where "JH5T_STR_RESERVED_8 = 5160"
definition JH5T_STR_RESERVED_9 :: int where "JH5T_STR_RESERVED_9 = 5170"
definition JH5T_STR_SPACEPAD :: int where "JH5T_STR_SPACEPAD = 5180"
definition JH5T_STRING :: int where "JH5T_STRING = 5190"
definition JH5T_TIME :: int where "JH5T_TIME = 5200"
definition JH5T_UNIX_D32BE :: int where "JH5T_UNIX_D32BE = 5210"
definition JH5T_UNIX_D32LE :: int where "JH5T_UNIX_D32LE = 5220"
definition JH5T_UNIX_D64BE :: int where "JH5T_UNIX_D64BE = 5230"
definition JH5T_UNIX_D64LE :: int where "JH5T_UNIX_D64LE = 5240"
definition JH5T_VARIABLE :: int where "JH5T_VARIABLE = 5245"
definition JH5T_VLEN :: int where "JH5T_VLEN = 5250"
definition JH5Z_CB_CONT :: int where "JH5Z_CB_CONT = 5260"
definition JH5Z_CB_ERROR :: int where "JH5Z_CB_ERROR = 5270"
definition JH5Z_CB_FAIL :: int where "JH5Z_CB_FAIL = 5280"
definition JH5Z_CB_NO :: int where "JH5Z_CB_NO = 5290"
definition JH5Z_DISABLE_EDC :: int where "JH5Z_DISABLE_EDC = 5300"
definition JH5Z_ENABLE_EDC :: int where "JH5Z_ENABLE_EDC = 5310"
definition JH5Z_ERROR_EDC :: int where "JH5Z_ERROR_EDC = 5320"
definition JH5Z_FILTER_DEFLATE :: int where "JH5Z_FILTER_DEFLATE = 5330"
definition JH5Z_FILTER_ERROR :: int where "JH5Z_FILTER_ERROR = 5340"
definition JH5Z_FILTER_FLETCHER32 :: int where "JH5Z_FILTER_FLETCHER32 = 5350"
definition JH5Z_FILTER_MAX :: int where "JH5Z_FILTER_MAX = 5360"
definition JH5Z_FILTER_NONE :: int where "JH5Z_FILTER_NONE = 5370"
definition JH5Z_FILTER_RESERVED :: int where "JH5Z_FILTER_RESERVED = 5380"
definition JH5Z_FILTER_SHUFFLE :: int where "JH5Z_FILTER_SHUFFLE = 5390"
definition JH5Z_FILTER_SZIP :: int where "JH5Z_FILTER_SZIP = 5400"
definition JH5Z_FLAG_DEFMASK :: int where "JH5Z_FLAG_DEFMASK = 5410"
definition JH5Z_FLAG_INVMASK :: int where "JH5Z_FLAG_INVMASK = 5420"
definition JH5Z_FLAG_MANDATORY :: int where "JH5Z_FLAG_MANDATORY = 5430"
definition JH5Z_FLAG_OPTIONAL :: int where "JH5Z_FLAG_OPTIONAL = 5440"
definition JH5Z_FLAG_REVERSE :: int where "JH5Z_FLAG_REVERSE = 5450"
definition JH5Z_FLAG_SKIP_EDC :: int where "JH5Z_FLAG_SKIP_EDC = 5460"
definition JH5Z_MAX_NFILTERS :: int where "JH5Z_MAX_NFILTERS = 5470"
definition JH5Z_NO_EDC :: int where "JH5Z_NO_EDC = 5480"
definition JH5Z_FILTER_CONFIG_ENCODE_ENABLED :: int where "JH5Z_FILTER_CONFIG_ENCODE_ENABLED = 5490"
definition JH5Z_FILTER_CONFIG_DECODE_ENABLED :: int where "JH5Z_FILTER_CONFIG_DECODE_ENABLED = 5500"

text \<open>
  The macro table of the header: every defined identifier with its name, in the header's order.
  The identifiers the header has commented out are not in it.
\<close>

definition h5Constants_h :: "(string \<times> int) list" where
  "h5Constants_h = [
    (''JH5_SZIP_MAX_PIXELS_PER_BLOCK'', JH5_SZIP_MAX_PIXELS_PER_BLOCK),
    (''JH5_SZIP_NN_OPTION_MASK'', JH5_SZIP_NN_OPTION_MASK),
    (''JH5_SZIP_EC_OPTION_MASK'', JH5_SZIP_EC_OPTION_MASK),
    (''JH5_SZIP_ALLOW_K13_OPTION_MASK'', JH5_SZIP_ALLOW_K13_OPTION_MASK),
    (''JH5_SZIP_CHIP_OPTION_MASK'', JH5_SZIP_CHIP_OPTION_MASK),
    (''JH5D_ALLOC_TIME_DEFAULT'', JH5D_ALLOC_TIME_DEFAULT),
    (''JH5D_ALLOC_TIME_EARLY'', JH5D_ALLOC_TIME_EARLY),
    (''JH5D_ALLOC_TIME_ERROR'', JH5D_ALLOC_TIME_ERROR),
    (''JH5D_ALLOC_TIME_INCR'', JH5D_ALLOC_TIME_INCR),
    (''JH5D_ALLOC_TIME_LATE'', JH5D_ALLOC_TIME_LATE),
    (''JH5D_CHUNKED'', JH5D_CHUNKED),
    (''JH5D_COMPACT'', JH5D_COMPACT),
    (''JH5D_CONTIGUOUS'', JH5D_CONTIGUOUS),
    (''JH5D_FILL_TIME_ALLOC'', JH5D_FILL_TIME_ALLOC),
    (''JH5D_FILL_TIME_ERROR'', JH5D_FILL_TIME_ERROR),
    (''JH5D_FILL_TIME_NEVER'', JH5D_FILL_TIME_NEVER),
    (''JH5D_FILL_VALUE_DEFAULT'', JH5D_FILL_VALUE_DEFAULT),
    (''JH5D_FILL_VALUE_ERROR'', JH5D_FILL_VALUE_ERROR),
    (''JH5D_FILL_VALUE_UNDEFINED'', JH5D_FILL_VALUE_UNDEFINED),
    (''JH5D_FILL_VALUE_USER_DEFINED'', JH5D_FILL_VALUE_USER_DEFINED),
    (''JH5D_LAYOUT_ERROR'', JH5D_LAYOUT_ERROR),
    (''JH5D_NLAYOUTS'', JH5D_NLAYOUTS),
    (''JH5D_SPACE_STATUS_ALLOCATED'', JH5D_SPACE_STATUS_ALLOCATED),
    (''JH5D_SPACE_STATUS_ERROR'', JH5D_SPACE_STATUS_ERROR),
    (''JH5D_SPACE_STATUS_NOT_ALLOCATED'', JH5D_SPACE_STATUS_NOT_ALLOCATED),
    (''JH5D_SPACE_STATUS_PART_ALLOCATED'', JH5D_SPACE_STATUS_PART_ALLOCATED),
    (''JH5E_ALIGNMENT'', JH5E_ALIGNMENT),
    (''JH5E_ALREADYEXISTS'', JH5E_ALREADYEXISTS),
    (''JH5E_ALREADYINIT'', JH5E_ALREADYINIT),
    (''JH5E_ARGS'', JH5E_ARGS),
    (''JH5E_ATOM'', JH5E_ATOM),
    (''JH5E_ATTR'', JH5E_ATTR),
    (''JH5E_BADATOM'', JH5E_BADATOM),
    (''JH5E_BADFILE'', JH5E_BADFILE),
    (''JH5E_BADGROUP'', JH5E_BADGROUP),
    (''JH5E_BADMESG'', JH5E_BADMESG),
    (''JH5E_BADRANGE'', JH5E_BADRANGE),
    (''JH5E_BADSELECT'', JH5E_BADSELECT),
    (''JH5E_BADSIZE'', JH5E_BADSIZE),
    (''JH5E_BADTYPE'', JH5E_BADTYPE),
    (''JH5E_BADVALUE'', JH5E_BADVALUE),
    (''JH5E_BTREE'', JH5E_BTREE),
    (''JH5E_CACHE'', JH5E_CACHE),
    (''JH5E_CALLBACK'', JH5E_CALLBACK),
    (''JH5E_CANAPPLY'', JH5E_CANAPPLY),
    (''JH5E_CANTCLIP'', JH5E_CANTCLIP),
    (''JH5E_CANTCLOSEFILE'', JH5E_CANTCLOSEFILE),
    (''JH5E_CANTCONVERT'', JH5E_CANTCONVERT),
    (''JH5E_CANTCOPY'', JH5E_CANTCOPY),
    (''JH5E_CANTCOUNT'', JH5E_CANTCOUNT),
    (''JH5E_CANTCREATE'', JH5E_CANTCREATE),
    (''JH5E_CANTDEC'', JH5E_CANTDEC),
    (''JH5E_CANTDECODE'', JH5E_CANTDECODE),
    (''JH5E_CANTDELETE'', JH5E_CANTDELETE),
    (''JH5E_CANTENCODE'', JH5E_CANTENCODE),
    (''JH5E_CANTFLUSH'', JH5E_CANTFLUSH),
    (''JH5E_CANTFREE'', JH5E_CANTFREE),
    (''JH5E_CANTGET'', JH5E_CANTGET),
    (''JH5E_CANTINC'', JH5E_CANTINC),
    (''JH5E_CANTINIT'', JH5E_CANTINIT),
    (''JH5E_CANTINSERT'', JH5E_CANTINSERT),
    (''JH5E_CANTLIST'', JH5E_CANTLIST),
    (''JH5E_CANTLOAD'', JH5E_CANTLOAD),
    (''JH5E_CANTLOCK'', JH5E_CANTLOCK),
    (''JH5E_CANTMAKETREE'', JH5E_CANTMAKETREE),
    (''JH5E_CANTNEXT'', JH5E_CANTNEXT),
    (''JH5E_CANTOPENFILE'', JH5E_CANTOPENFILE),
    (''JH5E_CANTOPENOBJ'', JH5E_CANTOPENOBJ),
    (''JH5E_CANTREGISTER'', JH5E_CANTREGISTER),
    (''JH5E_CANTRELEASE'', JH5E_CANTRELEASE),
    (''JH5E_CANTSELECT'', JH5E_CANTSELECT),
    (''JH5E_CANTSET'', JH5E_CANTSET),
    (''JH5E_CANTSPLIT'', JH5E_CANTSPLIT),
    (''JH5E_CANTUNLOCK'', JH5E_CANTUNLOCK),
    (''JH5E_CLOSEERROR'', JH5E_CLOSEERROR),
    (''JH5E_COMPLEN'', JH5E_COMPLEN),
    (''JH5E_DATASET'', JH5E_DATASET),
    (''JH5E_DATASPACE'', JH5E_DATASPACE),
    (''JH5E_DATATYPE'', JH5E_DATATYPE),
    (''JH5E_DUPCLASS'', JH5E_DUPCLASS),
    (''JH5E_EFL'', JH5E_EFL),
    (''JH5E_EXISTS'', JH5E_EXISTS),
    (''JH5E_FCNTL'', JH5E_FCNTL),
    (''JH5E_FILE'', JH5E_FILE),
    (''JH5E_FILEEXISTS'', JH5E_FILEEXISTS),
    (''JH5E_FILEOPEN'', JH5E_FILEOPEN),
    (''JH5E_FUNC'', JH5E_FUNC),
    (''JH5E_HEAP'', JH5E_HEAP),
    (''JH5E_INTERNAL'', JH5E_INTERNAL),
    (''JH5E_IO'', JH5E_IO),
    (''JH5E_LINK'', JH5E_LINK),
    (''JH5E_LINKCOUNT'', JH5E_LINKCOUNT),
    (''JH5E_MOUNT'', JH5E_MOUNT),
    (''JH5E_MPI'', JH5E_MPI),
    (''JH5E_MPIERRSTR'', JH5E_MPIERRSTR),
    (''JH5E_NOFILTER'', JH5E_NOFILTER),
    (''JH5E_NOIDS'', JH5E_NOIDS),
    (''JH5E_NONE_MAJOR'', JH5E_NONE_MAJOR),
    (''JH5E_NONE_MINOR'', JH5E_NONE_MINOR),
    (''JH5E_NOSPACE'', JH5E_NOSPACE),
    (''JH5E_NOTCACHED'', JH5E_NOTCACHED),
    (''JH5E_NOTFOUND'', JH5E_NOTFOUND),
    (''JH5E_NOTHDF5'', JH5E_NOTHDF5),
    (''JH5E_OHDR'', JH5E_OHDR),
    (''JH5E_OVERFLOW'', JH5E_OVERFLOW),
    (''JH5E_PLINE'', JH5E_PLINE),
    (''JH5E_PLIST'', JH5E_PLIST),
    (''JH5E_PROTECT'', JH5E_PROTECT),
    (''JH5E_READERROR'', JH5E_READERROR),
    (''JH5E_REFERENCE'', JH5E_REFERENCE),
    (''JH5E_RESOURCE'', JH5E_RESOURCE),
    (''JH5E_RS'', JH5E_RS),
    (''JH5E_SEEKERROR'', JH5E_SEEKERROR),
    (''JH5E_SETLOCAL'', JH5E_SETLOCAL),
    (''JH5E_STORAGE'', JH5E_STORAGE),
    (''JH5E_SYM'', JH5E_SYM),
    (''JH5E_TRUNCATED'', JH5E_TRUNCATED),
    (''JH5E_TST'', JH5E_TST),
    (''JH5E_UNINITIALIZED'', JH5E_UNINITIALIZED),
    (''JH5E_UNSUPPORTED'', JH5E_UNSUPPORTED),
    (''JH5E_VERSION'', JH5E_VERSION),
    (''JH5E_VFL'', JH5E_VFL),
    (''JH5E_WALK_DOWNWARD'', JH5E_WALK_DOWNWARD),
    (''JH5E_WALK_UPWARD'', JH5E_WALK_UPWARD),
    (''JH5E_WRITEERROR'', JH5E_WRITEERROR),
    (''JH5F_ACC_CREAT'', JH5F_ACC_CREAT),
    (''JH5F_ACC_DEBUG'', JH5F_ACC_DEBUG),
    (''JH5F_ACC_EXCL'', JH5F_ACC_EXCL),
    (''JH5F_ACC_RDONLY'', JH5F_ACC_RDONLY),
    (''JH5F_ACC_RDWR'', JH5F_ACC_RDWR),
    (''JH5F_ACC_TRUNC'', JH5F_ACC_TRUNC),
    (''JH5F_CLOSE_DEFAULT'', JH5F_CLOSE_DEFAULT),
    (''JH5F_CLOSE_SEMI'', JH5F_CLOSE_SEMI),
    (''JH5F_CLOSE_STRONG'', JH5F_CLOSE_STRONG),
    (''JH5F_CLOSE_WEAK'', JH5F_CLOSE_WEAK),
    (''JH5F_OBJ_ALL'', JH5F_OBJ_ALL),
    (''JH5F_OBJ_ATTR'', JH5F_OBJ_ATTR),
    (''JH5F_OBJ_DATASET'', JH5F_OBJ_DATASET),
    (''JH5F_OBJ_DATATYPE'', JH5F_OBJ_DATATYPE),
    (''JH5F_OBJ_FILE'', JH5F_OBJ_FILE),
    (''JH5F_OBJ_GROUP'', JH5F_OBJ_GROUP),
    (''JH5F_OBJ_LOCAL'', JH5F_OBJ_LOCAL),
    (''JH5F_SCOPE_DOWN'', JH5F_SCOPE_DOWN),
    (''JH5F_SCOPE_GLOBAL'', JH5F_SCOPE_GLOBAL),
    (''JH5F_SCOPE_LOCAL'', JH5F_SCOPE_LOCAL),
    (''JH5F_UNLIMITED'', JH5F_UNLIMITED),
    (''JH5F_LIBVER_EARLIEST'', JH5F_LIBVER_EARLIEST),
    (''JH5F_LIBVER_LATEST'', JH5F_LIBVER_LATEST),
    (''JH5G_DATASET'', JH5G_DATASET),
    (''JH5G_GROUP'', JH5G_GROUP),
    (''JH5G_LINK'', JH5G_LINK),
    (''JH5G_LINK_ERROR'', JH5G_LINK_ERROR),
    (''JH5G_LINK_HARD'', JH5G_LINK_HARD),
    (''JH5G_LINK_SOFT'', JH5G_LINK_SOFT),
    (''JH5G_NLIBTYPES'', JH5G_NLIBTYPES),
    (''JH5G_NTYPES'', JH5G_NTYPES),
    (''JH5G_NUSERTYPES'', JH5G_NUSERTYPES),
    (''JH5G_RESERVED_5'', JH5G_RESERVED_5),
    (''JH5G_RESERVED_6'', JH5G_RESERVED_6),
    (''JH5G_RESERVED_7'', JH5G_RESERVED_7),
    (''JH5G_SAME_LOC'', JH5G_SAME_LOC),
    (''JH5G_TYPE'', JH5G_TYPE),
    (''JH5G_UNKNOWN'', JH5G_UNKNOWN),
    (''JH5G_USERTYPE'', JH5G_USERTYPE),
    (''JH5I_ATTR'', JH5I_ATTR),
    (''JH5I_BADID'', JH5I_BADID),
    (''JH5I_DATASET'', JH5I_DATASET),
    (''JH5I_DATASPACE'', JH5I_DATASPACE),
    (''JH5I_DATATYPE'', JH5I_DATATYPE),
    (''JH5I_FILE'', JH5I_FILE),
    (''JH5I_FILE_CLOSING'', JH5I_FILE_CLOSING),
    (''JH5I_GENPROP_CLS'', JH5I_GENPROP_CLS),
    (''JH5I_GENPROP_LST'', JH5I_GENPROP_LST),
    (''JH5I_GROUP'', JH5I_GROUP),
    (''JH5I_INVALID_HID'', JH5I_INVALID_HID),
    (''JH5I_REFERENCE'', JH5I_REFERENCE),
    (''JH5I_VFL'', JH5I_VFL),
    (''JH5O_TYPE_UNKNOWN'', JH5O_TYPE_UNKNOWN),
    (''JH5O_TYPE_GROUP'', JH5O_TYPE_GROUP),
    (''JH5O_TYPE_DATASET'', JH5O_TYPE_DATASET),
    (''JH5O_TYPE_NAMED_DATATYPE'', JH5O_TYPE_NAMED_DATATYPE),
    (''JH5O_TYPE_NTYPES'', JH5O_TYPE_NTYPES),
    (''JH5L_TYPE_ERROR'', JH5L_TYPE_ERROR),
    (''JH5L_TYPE_HARD'', JH5L_TYPE_HARD),
    (''JH5L_TYPE_SOFT'', JH5L_TYPE_SOFT),
    (''JH5L_TYPE_EXTERNAL'', JH5L_TYPE_EXTERNAL),
    (''JH5L_TYPE_MAX'', JH5L_TYPE_MAX),
    (''JH5P_DATASET_CREATE'', JH5P_DATASET_CREATE),
    (''JH5P_DATASET_CREATE_DEFAULT'', JH5P_DATASET_CREATE_DEFAULT),
    (''JH5P_DATASET_XFER'', JH5P_DATASET_XFER),
    (''JH5P_DATASET_XFER_DEFAULT'', JH5P_DATASET_XFER_DEFAULT),
    (''JH5P_DEFAULT'', JH5P_DEFAULT),
    (''JH5P_FILE_ACCESS'', JH5P_FILE_ACCESS),
    (''JH5P_FILE_ACCESS_DEFAULT'', JH5P_FILE_ACCESS_DEFAULT),
    (''JH5P_FILE_CREATE'', JH5P_FILE_CREATE),
    (''JH5P_FILE_CREATE_DEFAULT'', JH5P_FILE_CREATE_DEFAULT),
    (''JH5P_NO_CLASS'', JH5P_NO_CLASS),
    (''JH5P_ROOT'', JH5P_ROOT),
    (''JH5P_OBJECT_CREATE'', JH5P_OBJECT_CREATE),
    (''JH5P_DATASET_ACCESS'', JH5P_DATASET_ACCESS),
    (''JH5P_DATASET_ACCESS_DEFAULT'', JH5P_DATASET_ACCESS_DEFAULT),
    (''JH5P_FILE_MOUNT'', JH5P_FILE_MOUNT),
    (''JH5P_FILE_MOUNT_DEFAULT'', JH5P_FILE_MOUNT_DEFAULT),
    (''JH5P_GROUP_CREATE'', JH5P_GROUP_CREATE),
    (''JH5P_GROUP_CREATE_DEFAULT'', JH5P_GROUP_CREATE_DEFAULT),
    (''JH5P_GROUP_ACCESS'', JH5P_GROUP_ACCESS),
    (''JH5P_GROUP_ACCESS_DEFAULT'', JH5P_GROUP_ACCESS_DEFAULT),
    (''JH5P_DATATYPE_CREATE'', JH5P_DATATYPE_CREATE),
    (''JH5P_DATATYPE_CREATE_DEFAULT'', JH5P_DATATYPE_CREATE_DEFAULT),
    (''JH5P_DATATYPE_ACCESS'', JH5P_DATATYPE_ACCESS),
    (''JH5P_DATATYPE_ACCESS_DEFAULT'', JH5P_DATATYPE_ACCESS_DEFAULT),
    (''JH5P_STRING_CREATE'', JH5P_STRING_CREATE),
    (''JH5P_ATTRIBUTE_CREATE'', JH5P_ATTRIBUTE_CREATE),
    (''JH5P_ATTRIBUTE_CREATE_DEFAULT'', JH5P_ATTRIBUTE_CREATE_DEFAULT),
    (''JH5P_OBJECT_COPY'', JH5P_OBJECT_COPY),
    (''JH5P_OBJECT_COPY_DEFAULT'', JH5P_OBJECT_COPY_DEFAULT),
    (''JH5P_LINK_CREATE'', JH5P_LINK_CREATE),
    (''JH5P_LINK_CREATE_DEFAULT'', JH5P_LINK_CREATE_DEFAULT),
    (''JH5P_LINK_ACCESS'', JH5P_LINK_ACCESS),
    (''JH5P_LINK_ACCESS_DEFAULT'', JH5P_LINK_ACCESS_DEFAULT),
    (''JH5R_BADTYPE'', JH5R_BADTYPE),
    (''JH5R_DATASET_REGION'', JH5R_DATASET_REGION),
    (''JH5R_MAXTYPE'', JH5R_MAXTYPE),
    (''JH5R_OBJ_REF_BUF_SIZE'', JH5R_OBJ_REF_BUF_SIZE),
    (''JH5R_OBJECT'', JH5R_OBJECT),
    (''JH5S_ALL'', JH5S_ALL),
    (''JH5S_MAX_RANK'', JH5S_MAX_RANK),
    (''JH5S_NO_CLASS'', JH5S_NO_CLASS),
    (''JH5S_NULL'', JH5S_NULL),
    (''JH5S_SCALAR'', JH5S_SCALAR),
    (''JH5S_SEL_ALL'', JH5S_SEL_ALL),
    (''JH5S_SEL_ERROR'', JH5S_SEL_ERROR),
    (''JH5S_SEL_HYPERSLABS'', JH5S_SEL_HYPERSLABS),
    (''JH5S_SEL_N'', JH5S_SEL_N),
    (''JH5S_SEL_NONE'', JH5S_SEL_NONE),
    (''JH5S_SEL_POINTS'', JH5S_SEL_POINTS),
    (''JH5S_SELECT_AND'', JH5S_SELECT_AND),
    (''JH5S_SELECT_APPEND'', JH5S_SELECT_APPEND),
    (''JH5S_SELECT_INVALID'', JH5S_SELECT_INVALID),
    (''JH5S_SELECT_NOOP'', JH5S_SELECT_NOOP),
    (''JH5S_SELECT_NOTA'', JH5S_SELECT_NOTA),
    (''JH5S_SELECT_NOTB'', JH5S_SELECT_NOTB),
    (''JH5S_SELECT_OR'', JH5S_SELECT_OR),
    (''JH5S_SELECT_PREPEND'', JH5S_SELECT_PREPEND),
    (''JH5S_SELECT_SET'', JH5S_SELECT_SET),
    (''JH5S_SELECT_XOR'', JH5S_SELECT_XOR),
    (''JH5S_SIMPLE'', JH5S_SIMPLE),
    (''JH5S_UNLIMITED'', JH5S_UNLIMITED),
    (''JH5T_ALPHA_B16'', JH5T_ALPHA_B16),
    (''JH5T_ALPHA_B32'', JH5T_ALPHA_B32),
    (''JH5T_ALPHA_B64'', JH5T_ALPHA_B64),
    (''JH5T_ALPHA_B8'', JH5T_ALPHA_B8),
    (''JH5T_ALPHA_F32'', JH5T_ALPHA_F32),
    (''JH5T_ALPHA_F64'', JH5T_ALPHA_F64),
    (''JH5T_ALPHA_I16'', JH5T_ALPHA_I16),
    (''JH5T_ALPHA_I32'', JH5T_ALPHA_I32),
    (''JH5T_ALPHA_I64'', JH5T_ALPHA_I64),
    (''JH5T_ALPHA_I8'', JH5T_ALPHA_I8),
    (''JH5T_ALPHA_U16'', JH5T_ALPHA_U16),
    (''JH5T_ALPHA_U32'', JH5T_ALPHA_U32),
    (''JH5T_ALPHA_U64'', JH5T_ALPHA_U64),
    (''JH5T_ALPHA_U8'', JH5T_ALPHA_U8),
    (''JH5T_ARRAY'', JH5T_ARRAY),
    (''JH5T_BITFIELD'', JH5T_BITFIELD),
    (''JH5T_BKG_NO'', JH5T_BKG_NO),
    (''JH5T_BKG_YES'', JH5T_BKG_YES),
    (''JH5T_C_S1'', JH5T_C_S1),
    (''JH5T_COMPOUND'', JH5T_COMPOUND),
    (''JH5T_CONV_CONV'', JH5T_CONV_CONV),
    (''JH5T_CONV_FREE'', JH5T_CONV_FREE),
    (''JH5T_CONV_INIT'', JH5T_CONV_INIT),
    (''JH5T_CSET_ASCII'', JH5T_CSET_ASCII),
    (''JH5T_CSET_ERROR'', JH5T_CSET_ERROR),
    (''JH5T_CSET_RESERVED_10'', JH5T_CSET_RESERVED_10),
    (''JH5T_CSET_RESERVED_11'', JH5T_CSET_RESERVED_11),
    (''JH5T_CSET_RESERVED_12'', JH5T_CSET_RESERVED_12),
    (''JH5T_CSET_RESERVED_13'', JH5T_CSET_RESERVED_13),
    (''JH5T_CSET_RESERVED_14'', JH5T_CSET_RESERVED_14),
    (''JH5T_CSET_RESERVED_15'', JH5T_CSET_RESERVED_15),
    (''JH5T_CSET_RESERVED_2'', JH5T_CSET_RESERVED_2),
    (''JH5T_CSET_RESERVED_3'', JH5T_CSET_RESERVED_3),
    (''JH5T_CSET_RESERVED_4'', JH5T_CSET_RESERVED_4),
    (''JH5T_CSET_RESERVED_5'', JH5T_CSET_RESERVED_5),
    (''JH5T_CSET_RESERVED_6'', JH5T_CSET_RESERVED_6),
    (''JH5T_CSET_RESERVED_7'', JH5T_CSET_RESERVED_7),
    (''JH5T_CSET_RESERVED_8'', JH5T_CSET_RESERVED_8),
    (''JH5T_CSET_RESERVED_9'', JH5T_CSET_RESERVED_9),
    (''JH5T_DIR_ASCEND'', JH5T_DIR_ASCEND),
    (''JH5T_DIR_DEFAULT'', JH5T_DIR_DEFAULT),
    (''JH5T_DIR_DESCEND'', JH5T_DIR_DESCEND),
    (''JH5T_ENUM'', JH5T_ENUM),
    (''JH5T_FLOAT'', JH5T_FLOAT),
    (''JH5T_FORTRAN_S1'', JH5T_FORTRAN_S1),
    (''JH5T_IEEE_F32BE'', JH5T_IEEE_F32BE),
    (''JH5T_IEEE_F32LE'', JH5T_IEEE_F32LE),
    (''JH5T_IEEE_F64BE'', JH5T_IEEE_F64BE),
    (''JH5T_IEEE_F64LE'', JH5T_IEEE_F64LE),
    (''JH5T_INTEGER'', JH5T_INTEGER),
    (''JH5T_INTEL_B16'', JH5T_INTEL_B16),
    (''JH5T_INTEL_B32'', JH5T_INTEL_B32),
    (''JH5T_INTEL_B64'', JH5T_INTEL_B64),
    (''JH5T_INTEL_B8'', JH5T_INTEL_B8),
    (''JH5T_INTEL_F32'', JH5T_INTEL_F32),
    (''JH5T_INTEL_F64'', JH5T_INTEL_F64),
    (''JH5T_INTEL_I16'', JH5T_INTEL_I16),
    (''JH5T_INTEL_I32'', JH5T_INTEL_I32),
    (''JH5T_INTEL_I64'', JH5T_INTEL_I64),
    (''JH5T_INTEL_I8'', JH5T_INTEL_I8),
    (''JH5T_INTEL_U16'', JH5T_INTEL_U16),
    (''JH5T_INTEL_U32'', JH5T_INTEL_U32),
    (''JH5T_INTEL_U64'', JH5T_INTEL_U64),
    (''JH5T_INTEL_U8'', JH5T_INTEL_U8),
    (''JH5T_MIPS_B16'', JH5T_MIPS_B16),
    (''JH5T_MIPS_B32'', JH5T_MIPS_B32),
    (''JH5T_MIPS_B64'', JH5T_MIPS_B64),
    (''JH5T_MIPS_B8'', JH5T_MIPS_B8),
    (''JH5T_MIPS_F32'', JH5T_MIPS_F32),
    (''JH5T_MIPS_F64'', JH5T_MIPS_F64),
    (''JH5T_MIPS_I16'', JH5T_MIPS_I16),
    (''JH5T_MIPS_I32'', JH5T_MIPS_I32),
    (''JH5T_MIPS_I64'', JH5T_MIPS_I64),
    (''JH5T_MIPS_I8'', JH5T_MIPS_I8),
    (''JH5T_MIPS_U16'', JH5T_MIPS_U16),
    (''JH5T_MIPS_U32'', JH5T_MIPS_U32),
    (''JH5T_MIPS_U64'', JH5T_MIPS_U64),
    (''JH5T_MIPS_U8'', JH5T_MIPS_U8),
    (''JH5T_NATIVE_B16'', JH5T_NATIVE_B16),
    (''JH5T_NATIVE_B32'', JH5T_NATIVE_B32),
    (''JH5T_NATIVE_B64'', JH5T_NATIVE_B64),
    (''JH5T_NATIVE_B8'', JH5T_NATIVE_B8),
    (''JH5T_NATIVE_CHAR'', JH5T_NATIVE_CHAR),
    (''JH5T_NATIVE_DOUBLE'', JH5T_NATIVE_DOUBLE),
    (''JH5T_NATIVE_FLOAT'', JH5T_NATIVE_FLOAT),
    (''JH5T_NATIVE_HADDR'', JH5T_NATIVE_HADDR),
    (''JH5T_NATIVE_HBOOL'', JH5T_NATIVE_HBOOL),
    (''JH5T_NATIVE_HERR'', JH5T_NATIVE_HERR),
    (''JH5T_NATIVE_HSIZE'', JH5T_NATIVE_HSIZE),
    (''JH5T_NATIVE_HSSIZE'', JH5T_NATIVE_HSSIZE),
    (''JH5T_NATIVE_INT'', JH5T_NATIVE_INT),
    (''JH5T_NATIVE_INT_FAST16'', JH5T_NATIVE_INT_FAST16),
    (''JH5T_NATIVE_INT_FAST32'', JH5T_NATIVE_INT_FAST32),
    (''JH5T_NATIVE_INT_FAST64'', JH5T_NATIVE_INT_FAST64),
    (''JH5T_NATIVE_INT_FAST8'', JH5T_NATIVE_INT_FAST8),
    (''JH5T_NATIVE_INT_LEAST16'', JH5T_NATIVE_INT_LEAST16),
    (''JH5T_NATIVE_INT_LEAST32'', JH5T_NATIVE_INT_LEAST32),
    (''JH5T_NATIVE_INT_LEAST64'', JH5T_NATIVE_INT_LEAST64),
    (''JH5T_NATIVE_INT_LEAST8'', JH5T_NATIVE_INT_LEAST8),
    (''JH5T_NATIVE_INT16'', JH5T_NATIVE_INT16),
    (''JH5T_NATIVE_INT32'', JH5T_NATIVE_INT32),
    (''JH5T_NATIVE_INT64'', JH5T_NATIVE_INT64),
    (''JH5T_NATIVE_INT8'', JH5T_NATIVE_INT8),
    (''JH5T_NATIVE_LDOUBLE'', JH5T_NATIVE_LDOUBLE),
    (''JH5T_NATIVE_LLONG'', JH5T_NATIVE_LLONG),
    (''JH5T_NATIVE_LONG'', JH5T_NATIVE_LONG),
    (''JH5T_NATIVE_OPAQUE'', JH5T_NATIVE_OPAQUE),
    (''JH5T_NATIVE_SCHAR'', JH5T_NATIVE_SCHAR),
    (''JH5T_NATIVE_SHORT'', JH5T_NATIVE_SHORT),
    (''JH5T_NATIVE_UCHAR'', JH5T_NATIVE_UCHAR),
    (''JH5T_NATIVE_UINT'', JH5T_NATIVE_UINT),
    (''JH5T_NATIVE_UINT_FAST16'', JH5T_NATIVE_UINT_FAST16),
    (''JH5T_NATIVE_UINT_FAST32'', JH5T_NATIVE_UINT_FAST32),
    (''JH5T_NATIVE_UINT_FAST64'', JH5T_NATIVE_UINT_FAST64),
    (''JH5T_NATIVE_UINT_FAST8'', JH5T_NATIVE_UINT_FAST8),
    (''JH5T_NATIVE_UINT_LEAST16'', JH5T_NATIVE_UINT_LEAST16),
    (''JH5T_NATIVE_UINT_LEAST32'', JH5T_NATIVE_UINT_LEAST32),
    (''JH5T_NATIVE_UINT_LEAST64'', JH5T_NATIVE_UINT_LEAST64),
    (''JH5T_NATIVE_UINT_LEAST8'', JH5T_NATIVE_UINT_LEAST8),
    (''JH5T_NATIVE_UINT16'', JH5T_NATIVE_UINT16),
    (''JH5T_NATIVE_UINT32'', JH5T_NATIVE_UINT32),
    (''JH5T_NATIVE_UINT64'', JH5T_NATIVE_UINT64),
    (''JH5T_NATIVE_UINT8'', JH5T_NATIVE_UINT8),
    (''JH5T_NATIVE_ULLONG'', JH5T_NATIVE_ULLONG),
    (''JH5T_NATIVE_ULONG'', JH5T_NATIVE_ULONG),
    (''JH5T_NATIVE_USHORT'', JH5T_NATIVE_USHORT),
    (''JH5T_NCLASSES'', JH5T_NCLASSES),
    (''JH5T_NO_CLASS'', JH5T_NO_CLASS),
    (''JH5T_NORM_ERROR'', JH5T_NORM_ERROR),
    (''JH5T_NORM_IMPLIED'', JH5T_NORM_IMPLIED),
    (''JH5T_NORM_MSBSET'', JH5T_NORM_MSBSET),
    (''JH5T_NORM_NONE'', JH5T_NORM_NONE),
    (''JH5T_NPAD'', JH5T_NPAD),
    (''JH5T_NSGN'', JH5T_NSGN),
    (''JH5T_OPAQUE'', JH5T_OPAQUE),
    (''JH5T_OPAQUE_TAG_MAX'', JH5T_OPAQUE_TAG_MAX),
    (''JH5T_ORDER_BE'', JH5T_ORDER_BE),
    (''JH5T_ORDER_ERROR'', JH5T_ORDER_ERROR),
    (''JH5T_ORDER_LE'', JH5T_ORDER_LE),
    (''JH5T_ORDER_NONE'', JH5T_ORDER_NONE),
    (''JH5T_ORDER_VAX'', JH5T_ORDER_VAX),
    (''JH5T_PAD_BACKGROUND'', JH5T_PAD_BACKGROUND),
    (''JH5T_PAD_ERROR'', JH5T_PAD_ERROR),
    (''JH5T_PAD_ONE'', JH5T_PAD_ONE),
    (''JH5T_PAD_ZERO'', JH5T_PAD_ZERO),
    (''JH5T_PERS_DONTCARE'', JH5T_PERS_DONTCARE),
    (''JH5T_PERS_HARD'', JH5T_PERS_HARD),
    (''JH5T_PERS_SOFT'', JH5T_PERS_SOFT),
    (''JH5T_REFERENCE'', JH5T_REFERENCE),
    (''JH5T_SGN_2'', JH5T_SGN_2),
    (''JH5T_SGN_ERROR'', JH5T_SGN_ERROR),
    (''JH5T_SGN_NONE'', JH5T_SGN_NONE),
    (''JH5T_STD_B16BE'', JH5T_STD_B16BE),
    (''JH5T_STD_B16LE'', JH5T_STD_B16LE),
    (''JH5T_STD_B32BE'', JH5T_STD_B32BE),
    (''JH5T_STD_B32LE'', JH5T_STD_B32LE),
    (''JH5T_STD_B64BE'', JH5T_STD_B64BE),
    (''JH5T_STD_B64LE'', JH5T_STD_B64LE),
    (''JH5T_STD_B8BE'', JH5T_STD_B8BE),
    (''JH5T_STD_B8LE'', JH5T_STD_B8LE),
    (''JH5T_STD_I16BE'', JH5T_STD_I16BE),
    (''JH5T_STD_I16LE'', JH5T_STD_I16LE),
    (''JH5T_STD_I32BE'', JH5T_STD_I32BE),
    (''JH5T_STD_I32LE'', JH5T_STD_I32LE),
    (''JH5T_STD_I64BE'', JH5T_STD_I64BE),
    (''JH5T_STD_I64LE'', JH5T_STD_I64LE),
    (''JH5T_STD_I8BE'', JH5T_STD_I8BE),
    (''JH5T_STD_I8LE'', JH5T_STD_I8LE),
    (''JH5T_STD_REF_DSETREG'', JH5T_STD_REF_DSETREG),
    (''JH5T_STD_REF_OBJ'', JH5T_STD_REF_OBJ),
    (''JH5T_STD_U16BE'', JH5T_STD_U16BE),
    (''JH5T_STD_U16LE'', JH5T_STD_U16LE),
    (''JH5T_STD_U32BE'', JH5T_STD_U32BE),
    (''JH5T_STD_U32LE'', JH5T_STD_U32LE),
    (''JH5T_STD_U64BE'', JH5T_STD_U64BE),
    (''JH5T_STD_U64LE'', JH5T_STD_U64LE),
    (''JH5T_STD_U8BE'', JH5T_STD_U8BE),
    (''JH5T_STD_U8LE'', JH5T_STD_U8LE),
    (''JH5T_STR_ERROR'', JH5T_STR_ERROR),
    (''JH5T_STR_NULLPAD'', JH5T_STR_NULLPAD),
    (''JH5T_STR_NULLTERM'', JH5T_STR_NULLTERM),
    (''JH5T_STR_RESERVED_10'', JH5T_STR_RESERVED_10),
    (''JH5T_STR_RESERVED_11'', JH5T_STR_RESERVED_11),
    (''JH5T_STR_RESERVED_12'', JH5T_STR_RESERVED_12),
    (''JH5T_STR_RESERVED_13'', JH5T_STR_RESERVED_13),
    (''JH5T_STR_RESERVED_14'', JH5T_STR_RESERVED_14),
    (''JH5T_STR_RESERVED_15'', JH5T_STR_RESERVED_15),
    (''JH5T_STR_RESERVED_3'', JH5T_STR_RESERVED_3),
    (''JH5T_STR_RESERVED_4'', JH5T_STR_RESERVED_4),
    (''JH5T_STR_RESERVED_5'', JH5T_STR_RESERVED_5),
    (''JH5T_STR_RESERVED_6'', JH5T_STR_RESERVED_6),
    (''JH5T_STR_RESERVED_7'', JH5T_STR_RESERVED_7),
    (''JH5T_STR_RESERVED_8'', JH5T_STR_RESERVED_8),
    (''JH5T_STR_RESERVED_9'', JH5T_STR_RESERVED_9),
    (''JH5T_STR_SPACEPAD'', JH5T_STR_SPACEPAD),
    (''JH5T_STRING'', JH5T_STRING),
    (''JH5T_TIME'', JH5T_TIME),
    (''JH5T_UNIX_D32BE'', JH5T_UNIX_D32BE),
    (''JH5T_UNIX_D32LE'', JH5T_UNIX_D32LE),
    (''JH5T_UNIX_D64BE'', JH5T_UNIX_D64BE),
    (''JH5T_UNIX_D64LE'', JH5T_UNIX_D64LE),
    (''JH5T_VARIABLE'', JH5T_VARIABLE),
    (''JH5T_VLEN'', JH5T_VLEN),
    (''JH5Z_CB_CONT'', JH5Z_CB_CONT),
    (''JH5Z_CB_ERROR'', JH5Z_CB_ERROR),
    (''JH5Z_CB_FAIL'', JH5Z_CB_FAIL),
    (''JH5Z_CB_NO'', JH5Z_CB_NO),
    (''JH5Z_DISABLE_EDC'', JH5Z_DISABLE_EDC),
    (''JH5Z_ENABLE_EDC'', JH5Z_ENABLE_EDC),
    (''JH5Z_ERROR_EDC'', JH5Z_ERROR_EDC),
    (''JH5Z_FILTER_DEFLATE'', JH5Z_FILTER_DEFLATE),
    (''JH5Z_FILTER_ERROR'', JH5Z_FILTER_ERROR),
    (''JH5Z_FILTER_FLETCHER32'', JH5Z_FILTER_FLETCHER32),
    (''JH5Z_FILTER_MAX'', JH5Z_FILTER_MAX),
    (''JH5Z_FILTER_NONE'', JH5Z_FILTER_NONE),
    (''JH5Z_FILTER_RESERVED'', JH5Z_FILTER_RESERVED),
    (''JH5Z_FILTER_SHUFFLE'', JH5Z_FILTER_SHUFFLE),
    (''JH5Z_FILTER_SZIP'', JH5Z_FILTER_SZIP),
    (''JH5Z_FLAG_DEFMASK'', JH5Z_FLAG_DEFMASK),
    (''JH5Z_FLAG_INVMASK'', JH5Z_FLAG_INVMASK),
    (''JH5Z_FLAG_MANDATORY'', JH5Z_FLAG_MANDATORY),
    (''JH5Z_FLAG_OPTIONAL'', JH5Z_FLAG_OPTIONAL),
    (''JH5Z_FLAG_REVERSE'', JH5Z_FLAG_REVERSE),
    (''JH5Z_FLAG_SKIP_EDC'', JH5Z_FLAG_SKIP_EDC),
    (''JH5Z_MAX_NFILTERS'', JH5Z_MAX_NFILTERS),
    (''JH5Z_NO_EDC'', JH5Z_NO_EDC),
    (''JH5Z_FILTER_CONFIG_ENCODE_ENABLED'', JH5Z_FILTER_CONFIG_ENCODE_ENABLED),
    (''JH5Z_FILTER_CONFIG_DECODE_ENABLED'', JH5Z_FILTER_CONFIG_DECODE_ENABLED)
  ]"

subsection \<open>h5Constants.c\<close>

text \<open>
  What a case of the switch returns: an \<^verbatim>\<open>hdf5.h\<close> macro, or one under the cast
  \<^verbatim>\<open>(int)\<close>. The function returns \<^verbatim>\<open>jint\<close>, so the macro's value, whatever its C type,
  is converted to 32 bits either way: \<open>word_of_int\<close> reduces it modulo \<open>2 ^ 32\<close>, which is
  what the compilers the library supports do for a value that does not fit.
\<close>

datatype native_expr = Macro string | Int_cast string

fun macro_name :: "native_expr \<Rightarrow> string" where
  "macro_name (Macro m) = m"
| "macro_name (Int_cast m) = m"

fun return_value :: "hdf5 \<Rightarrow> native_expr \<Rightarrow> jint" where
  "return_value lib (Macro m) = word_of_int (macro_value lib m)"
| "return_value lib (Int_cast m) = word_of_int (macro_value lib m)"

text \<open>
  The cases of the switch in \<^verbatim>\<open>Java_ncsa_hdf_hdf5lib_H5_J2C\<close>, in the order of the source;
  the cases the source has commented out are not among them.
\<close>

definition J2C_switch :: "(int \<times> native_expr) list" where
  "J2C_switch = [
    (JH5_SZIP_MAX_PIXELS_PER_BLOCK, Macro ''H5_SZIP_MAX_PIXELS_PER_BLOCK''),
    (JH5_SZIP_NN_OPTION_MASK, Macro ''H5_SZIP_NN_OPTION_MASK''),
    (JH5_SZIP_EC_OPTION_MASK, Macro ''H5_SZIP_EC_OPTION_MASK''),
    (JH5_SZIP_ALLOW_K13_OPTION_MASK, Macro ''H5_SZIP_ALLOW_K13_OPTION_MASK''),
    (JH5_SZIP_CHIP_OPTION_MASK, Macro ''H5_SZIP_CHIP_OPTION_MASK''),
    (JH5D_ALLOC_TIME_DEFAULT, Macro ''H5D_ALLOC_TIME_DEFAULT''),
    (JH5D_ALLOC_TIME_EARLY, Macro ''H5D_ALLOC_TIME_EARLY''),
    (JH5D_ALLOC_TIME_ERROR, Macro ''H5D_ALLOC_TIME_ERROR''),
    (JH5D_ALLOC_TIME_INCR, Macro ''H5D_ALLOC_TIME_INCR''),
    (JH5D_ALLOC_TIME_LATE, Macro ''H5D_ALLOC_TIME_LATE''),
    (JH5D_CHUNKED, Macro ''H5D_CHUNKED''),
    (JH5D_COMPACT, Macro ''H5D_COMPACT''),
    (JH5D_CONTIGUOUS, Macro ''H5D_CONTIGUOUS''),
    (JH5D_FILL_TIME_ALLOC, Macro ''H5D_FILL_TIME_ALLOC''),
    (JH5D_FILL_TIME_ERROR, Macro ''H5D_FILL_TIME_ERROR''),
    (JH5D_FILL_TIME_NEVER, Macro ''H5D_FILL_TIME_NEVER''),
    (JH5D_FILL_VALUE_DEFAULT, Macro ''H5D_FILL_VALUE_DEFAULT''),
    (JH5D_FILL_VALUE_ERROR, Macro ''H5D_FILL_VALUE_ERROR''),
    (JH5D_FILL_VALUE_UNDEFINED, Macro ''H5D_FILL_VALUE_UNDEFINED''),
    (JH5D_FILL_VALUE_USER_DEFINED, Macro ''H5D_FILL_VALUE_USER_DEFINED''),
    (JH5D_LAYOUT_ERROR, Macro ''H5D_LAYOUT_ERROR''),
    (JH5D_NLAYOUTS, Macro ''H5D_NLAYOUTS''),
    (JH5D_SPACE_STATUS_ALLOCATED, Macro ''H5D_SPACE_STATUS_ALLOCATED''),
    (JH5D_SPACE_STATUS_ERROR, Macro ''H5D_SPACE_STATUS_ERROR''),
    (JH5D_SPACE_STATUS_NOT_ALLOCATED, Macro ''H5D_SPACE_STATUS_NOT_ALLOCATED''),
    (JH5D_SPACE_STATUS_PART_ALLOCATED, Macro ''H5D_SPACE_STATUS_PART_ALLOCATED''),
    (JH5E_ALIGNMENT, Macro ''H5E_ALIGNMENT''),
    (JH5E_ALREADYEXISTS, Macro ''H5E_ALREADYEXISTS''),
    (JH5E_ALREADYINIT, Macro ''H5E_ALREADYINIT''),
    (JH5E_ARGS, Macro ''H5E_ARGS''),
    (JH5E_ATOM, Macro ''H5E_ATOM''),
    (JH5E_ATTR, Macro ''H5E_ATTR''),
    (JH5E_BADATOM, Macro ''H5E_BADATOM''),
    (JH5E_BADFILE, Macro ''H5E_BADFILE''),
    (JH5E_BADGROUP, Macro ''H5E_BADGROUP''),
    (JH5E_BADMESG, Macro ''H5E_BADMESG''),
    (JH5E_BADRANGE, Macro ''H5E_BADRANGE''),
    (JH5E_BADSELECT, Macro ''H5E_BADSELECT''),
    (JH5E_BADSIZE, Macro ''H5E_BADSIZE''),
    (JH5E_BADTYPE, Macro ''H5E_BADTYPE''),
    (JH5E_BADVALUE, Macro ''H5E_BADVALUE''),
    (JH5E_BTREE, Macro ''H5E_BTREE''),
    (JH5E_CACHE, Macro ''H5E_CACHE''),
    (JH5E_CALLBACK, Macro ''H5E_CALLBACK''),
    (JH5E_CANAPPLY, Macro ''H5E_CANAPPLY''),
    (JH5E_CANTCLIP, Macro ''H5E_CANTCLIP''),
    (JH5E_CANTCLOSEFILE, Macro ''H5E_CANTCLOSEFILE''),
    (JH5E_CANTCONVERT, Macro ''H5E_CANTCONVERT''),
    (JH5E_CANTCOPY, Macro ''H5E_CANTCOPY''),
    (JH5E_CANTCOUNT, Macro ''H5E_CANTCOUNT''),
    (JH5E_CANTCREATE, Macro ''H5E_CANTCREATE''),
    (JH5E_CANTDEC, Macro ''H5E_CANTDEC''),
    (JH5E_CANTDECODE, Macro ''H5E_CANTDECODE''),
    (JH5E_CANTDELETE, Macro ''H5E_CANTDELETE''),
    (JH5E_CANTENCODE, Macro ''H5E_CANTENCODE''),
    (JH5E_CANTFLUSH, Macro ''H5E_CANTFLUSH''),
    (JH5E_CANTFREE, Macro ''H5E_CANTFREE''),
    (JH5E_CANTGET, Macro ''H5E_CANTGET''),
    (JH5E_CANTINC, Macro ''H5E_CANTINC''),
    (JH5E_CANTINIT, Macro ''H5E_CANTINIT''),
    (JH5E_CANTINSERT, Macro ''H5E_CANTINSERT''),
    (JH5E_CANTLIST, Macro ''H5E_CANTLIST''),
    (JH5E_CANTLOAD, Macro ''H5E_CANTLOAD''),
    (JH5E_CANTLOCK, Macro ''H5E_CANTLOCK''),
    (JH5E_CANTNEXT, Macro ''H5E_CANTNEXT''),
    (JH5E_CANTOPENFILE, Macro ''H5E_CANTOPENFILE''),
    (JH5E_CANTOPENOBJ, Macro ''H5E_CANTOPENOBJ''),
    (JH5E_CANTREGISTER, Macro ''H5E_CANTREGISTER''),
    (JH5E_CANTRELEASE, Macro ''H5E_CANTRELEASE''),
    (JH5E_CANTSELECT, Macro ''H5E_CANTSELECT''),
    (JH5E_CANTSET, Macro ''H5E_CANTSET''),
    (JH5E_CANTSPLIT, Macro ''H5E_CANTSPLIT''),
    (JH5E_CANTUNLOCK, Macro ''H5E_CANTUNLOCK''),
    (JH5E_CLOSEERROR, Macro ''H5E_CLOSEERROR''),
    (JH5E_COMPLEN, Macro ''H5E_COMPLEN''),
    (JH5E_DATASET, Macro ''H5E_DATASET''),
    (JH5E_DATASPACE, Macro ''H5E_DATASPACE''),
    (JH5E_DATATYPE, Macro ''H5E_DATATYPE''),
    (JH5E_DUPCLASS, Macro ''H5E_DUPCLASS''),
    (JH5E_EFL, Macro ''H5E_EFL''),
    (JH5E_EXISTS, Macro ''H5E_EXISTS''),
    (JH5E_FCNTL, Macro ''H5E_FCNTL''),
    (JH5E_FILE, Macro ''H5E_FILE''),
    (JH5E_FILEEXISTS, Macro ''H5E_FILEEXISTS''),
    (JH5E_FILEOPEN, Macro ''H5E_FILEOPEN''),
    (JH5E_FUNC, Macro ''H5E_FUNC''),
    (JH5E_HEAP, Macro ''H5E_HEAP''),
    (JH5E_INTERNAL, Macro ''H5E_INTERNAL''),
    (JH5E_IO, Macro ''H5E_IO''),
    (JH5E_LINK, Macro ''H5E_LINK''),
    (JH5E_LINKCOUNT, Macro ''H5E_LINKCOUNT''),
    (JH5E_MOUNT, Macro ''H5E_MOUNT''),
    (JH5E_MPI, Macro ''H5E_MPI''),
    (JH5E_MPIERRSTR, Macro ''H5E_MPIERRSTR''),
    (JH5E_NOFILTER, Macro ''H5E_NOFILTER''),
    (JH5E_NOIDS, Macro ''H5E_NOIDS''),
    (JH5E_NONE_MAJOR, Macro ''H5E_NONE_MAJOR''),
    (JH5E_NONE_MINOR, Macro ''H5E_NONE_MINOR''),
    (JH5E_NOSPACE, Macro ''H5E_NOSPACE''),
    (JH5E_NOTCACHED, Macro ''H5E_NOTCACHED''),
    (JH5E_NOTFOUND, Macro ''H5E_NOTFOUND''),
    (JH5E_NOTHDF5, Macro ''H5E_NOTHDF5''),
    (JH5E_OHDR, Macro ''H5E_OHDR''),
    (JH5E_OVERFLOW, Macro ''H5E_OVERFLOW''),
    (JH5E_PLINE, Macro ''H5E_PLINE''),
    (JH5E_PLIST, Macro ''H5E_PLIST''),
    (JH5E_PROTECT, Macro ''H5E_PROTECT''),
    (JH5E_READERROR, Macro ''H5E_READERROR''),
    (JH5E_REFERENCE, Macro ''H5E_REFERENCE''),
    (JH5E_RESOURCE, Macro ''H5E_RESOURCE''),
    (JH5E_RS, Macro ''H5E_RS''),
    (JH5E_SEEKERROR, Macro ''H5E_SEEKERROR''),
    (JH5E_SETLOCAL, Macro ''H5E_SETLOCAL''),
    (JH5E_STORAGE, Macro ''H5E_STORAGE''),
    (JH5E_SYM, Macro ''H5E_SYM''),
    (JH5E_TRUNCATED, Macro ''H5E_TRUNCATED''),
    (JH5E_TST, Macro ''H5E_TST''),
    (JH5E_UNINITIALIZED, Macro ''H5E_UNINITIALIZED''),
    (JH5E_UNSUPPORTED, Macro ''H5E_UNSUPPORTED''),
    (JH5E_VERSION, Macro ''H5E_VERSION''),
    (JH5E_VFL, Macro ''H5E_VFL''),
    (JH5E_WALK_DOWNWARD, Macro ''H5E_WALK_DOWNWARD''),
    (JH5E_WALK_UPWARD, Macro ''H5E_WALK_UPWARD''),
    (JH5E_WRITEERROR, Macro ''H5E_WRITEERROR''),
    (JH5F_ACC_CREAT, Macro ''H5F_ACC_CREAT''),
    (JH5F_ACC_DEBUG, Macro ''H5F_ACC_DEBUG''),
    (JH5F_ACC_EXCL, Macro ''H5F_ACC_EXCL''),
    (JH5F_ACC_RDONLY, Macro ''H5F_ACC_RDONLY''),
    (JH5F_ACC_RDWR, Macro ''H5F_ACC_RDWR''),
    (JH5F_ACC_TRUNC, Macro ''H5F_ACC_TRUNC''),
    (JH5F_CLOSE_DEFAULT, Macro ''H5F_CLOSE_DEFAULT''),
    (JH5F_CLOSE_SEMI, Macro ''H5F_CLOSE_SEMI''),
    (JH5F_CLOSE_STRONG, Macro ''H5F_CLOSE_STRONG''),
    (JH5F_CLOSE_WEAK, Macro ''H5F_CLOSE_WEAK''),
    (JH5F_OBJ_ALL, Macro ''H5F_OBJ_ALL''),
    (JH5F_OBJ_DATASET, Macro ''H5F_OBJ_DATASET''),
    (JH5F_OBJ_DATATYPE, Macro ''H5F_OBJ_DATATYPE''),
    (JH5F_OBJ_FILE, Macro ''H5F_OBJ_FILE''),
    (JH5F_OBJ_ATTR, Macro ''H5F_OBJ_ATTR''),
    (JH5F_OBJ_GROUP, Macro ''H5F_OBJ_GROUP''),
    (JH5F_SCOPE_DOWN, Macro ''H5F_SCOPE_DOWN''),
    (JH5F_SCOPE_GLOBAL, Macro ''H5F_SCOPE_GLOBAL''),
    (JH5F_SCOPE_LOCAL, Macro ''H5F_SCOPE_LOCAL''),
    (JH5F_UNLIMITED, Int_cast ''H5F_UNLIMITED''),
    (JH5F_LIBVER_EARLIEST, Macro ''H5F_LIBVER_EARLIEST''),
    (JH5F_LIBVER_LATEST, Macro ''H5F_LIBVER_LATEST''),
    (JH5G_DATASET, Macro ''H5G_DATASET''),
    (JH5G_GROUP, Macro ''H5G_GROUP''),
    (JH5G_LINK, Macro ''H5G_LINK''),
    (JH5G_LINK_ERROR, Macro ''H5G_LINK_ERROR''),
    (JH5G_LINK_HARD, Macro ''H5G_LINK_HARD''),
    (JH5G_LINK_SOFT, Macro ''H5G_LINK_SOFT''),
    (JH5G_NLIBTYPES, Macro ''H5G_NLIBTYPES''),
    (JH5G_NTYPES, Macro ''H5G_NTYPES''),
    (JH5G_NUSERTYPES, Macro ''H5G_NUSERTYPES''),
    (JH5G_RESERVED_5, Macro ''H5G_RESERVED_5''),
    (JH5G_RESERVED_6, Macro ''H5G_RESERVED_6''),
    (JH5G_RESERVED_7, Macro ''H5G_RESERVED_7''),
    (JH5G_SAME_LOC, Macro ''H5G_SAME_LOC''),
    (JH5G_TYPE, Macro ''H5G_TYPE''),
    (JH5G_UNKNOWN, Macro ''H5G_UNKNOWN''),
    (JH5I_ATTR, Macro ''H5I_ATTR''),
    (JH5I_BADID, Macro ''H5I_BADID''),
    (JH5I_DATASET, Macro ''H5I_DATASET''),
    (JH5I_DATASPACE, Macro ''H5I_DATASPACE''),
    (JH5I_DATATYPE, Macro ''H5I_DATATYPE''),
    (JH5I_FILE, Macro ''H5I_FILE''),
    (JH5I_GENPROP_CLS, Macro ''H5I_GENPROP_CLS''),
    (JH5I_GENPROP_LST, Macro ''H5I_GENPROP_LST''),
    (JH5I_GROUP, Macro ''H5I_GROUP''),
    (JH5I_INVALID_HID, Macro ''H5I_INVALID_HID''),
    (JH5I_REFERENCE, Macro ''H5I_REFERENCE''),
    (JH5I_VFL, Macro ''H5I_VFL''),
    (JH5O_TYPE_UNKNOWN, Macro ''H5O_TYPE_UNKNOWN''),
    (JH5O_TYPE_GROUP, Macro ''H5O_TYPE_GROUP''),
    (JH5O_TYPE_DATASET, Macro ''H5O_TYPE_DATASET''),
    (JH5O_TYPE_NAMED_DATATYPE, Macro ''H5O_TYPE_NAMED_DATATYPE''),
    (JH5O_TYPE_NTYPES, Macro ''H5O_TYPE_NTYPES''),
    (JH5L_TYPE_ERROR, Macro ''H5L_TYPE_ERROR''),
    (JH5L_TYPE_HARD, Macro ''H5L_TYPE_HARD''),
    (JH5L_TYPE_SOFT, Macro ''H5L_TYPE_SOFT''),
    (JH5L_TYPE_EXTERNAL, Macro ''H5L_TYPE_EXTERNAL''),
    (JH5L_TYPE_MAX, Macro ''H5L_TYPE_MAX''),
    (JH5P_DATASET_CREATE, Macro ''H5P_DATASET_CREATE''),
    (JH5P_DATASET_CREATE_DEFAULT, Macro ''H5P_DATASET_CREATE_DEFAULT''),
    (JH5P_DATASET_XFER, Macro ''H5P_DATASET_XFER''),
    (JH5P_DATASET_XFER_DEFAULT, Macro ''H5P_DATASET_XFER_DEFAULT''),
    (JH5P_FILE_ACCESS, Macro ''H5P_FILE_ACCESS''),
    (JH5P_FILE_ACCESS_DEFAULT, Macro ''H5P_FILE_ACCESS_DEFAULT''),
    (JH5P_FILE_CREATE, Macro ''H5P_FILE_CREATE''),
    (JH5P_FILE_CREATE_DEFAULT, Macro ''H5P_FILE_CREATE_DEFAULT''),
    (JH5P_DEFAULT, Macro ''H5P_DEFAULT''),
    (JH5P_NO_CLASS, Macro ''H5P_NO_CLASS''),
    (JH5P_ROOT, Macro ''H5P_ROOT''),
    (JH5P_OBJECT_CREATE, Macro ''H5P_OBJECT_CREATE''),
    (JH5P_DATASET_ACCESS, Macro ''H5P_DATASET_ACCESS''),
    (JH5P_DATASET_ACCESS_DEFAULT, Macro ''H5P_DATASET_ACCESS_DEFAULT''),
    (JH5P_FILE_MOUNT, Macro ''H5P_FILE_MOUNT''),
    (JH5P_FILE_MOUNT_DEFAULT, Macro ''H5P_FILE_MOUNT_DEFAULT''),
    (JH5P_GROUP_CREATE, Macro ''H5P_GROUP_CREATE''),
    (JH5P_GROUP_CREATE_DEFAULT, Macro ''H5P_GROUP_CREATE_DEFAULT''),
    (JH5P_GROUP_ACCESS, Macro ''H5P_GROUP_ACCESS''),
    (JH5P_GROUP_ACCESS_DEFAULT, Macro ''H5P_GROUP_ACCESS_DEFAULT''),
    (JH5P_DATATYPE_CREATE, Macro ''H5P_DATATYPE_CREATE''),
    (JH5P_DATATYPE_CREATE_DEFAULT, Macro ''H5P_DATATYPE_CREATE_DEFAULT''),
    (JH5P_DATATYPE_ACCESS, Macro ''H5P_DATATYPE_ACCESS''),
    (JH5P_DATATYPE_ACCESS_DEFAULT, Macro ''H5P_DATATYPE_ACCESS_DEFAULT''),
    (JH5P_STRING_CREATE, Macro ''H5P_STRING_CREATE''),
    (JH5P_ATTRIBUTE_CREATE, Macro ''H5P_ATTRIBUTE_CREATE''),
    (JH5P_ATTRIBUTE_CREATE_DEFAULT, Macro ''H5P_ATTRIBUTE_CREATE_DEFAULT''),
    (JH5P_OBJECT_COPY, Macro ''H5P_OBJECT_COPY''),
    (JH5P_OBJECT_COPY_DEFAULT, Macro ''H5P_OBJECT_COPY_DEFAULT''),
    (JH5P_LINK_CREATE, Macro ''H5P_LINK_CREATE''),
    (JH5P_LINK_CREATE_DEFAULT, Macro ''H5P_LINK_CREATE_DEFAULT''),
    (JH5P_LINK_ACCESS, Macro ''H5P_LINK_ACCESS''),
    (JH5P_LINK_ACCESS_DEFAULT, Macro ''H5P_LINK_ACCESS_DEFAULT''),
    (JH5R_BADTYPE, Macro ''H5R_BADTYPE''),
    (JH5R_DATASET_REGION, Macro ''H5R_DATASET_REGION''),
    (JH5R_MAXTYPE, Macro ''H5R_MAXTYPE''),
    (JH5R_OBJ_REF_BUF_SIZE, Macro ''H5R_OBJ_REF_BUF_SIZE''),
    (JH5R_OBJECT, Macro ''H5R_OBJECT''),
    (JH5S_ALL, Macro ''H5S_ALL''),
    (JH5S_MAX_RANK, Macro ''H5S_MAX_RANK''),
    (JH5S_NO_CLASS, Macro ''H5S_NO_CLASS''),
    (JH5S_NULL, Macro ''H5S_NULL''),
    (JH5S_SCALAR, Macro ''H5S_SCALAR''),
    (JH5S_SEL_ALL, Macro ''H5S_SEL_ALL''),
    (JH5S_SEL_ERROR, Macro ''H5S_SEL_ERROR''),
    (JH5S_SEL_HYPERSLABS, Macro ''H5S_SEL_HYPERSLABS''),
    (JH5S_SEL_N, Macro ''H5S_SEL_N''),
    (JH5S_SEL_NONE, Macro ''H5S_SEL_NONE''),
    (JH5S_SEL_POINTS, Macro ''H5S_SEL_POINTS''),
    (JH5S_SELECT_AND, Macro ''H5S_SELECT_AND''),
    (JH5S_SELECT_APPEND, Macro ''H5S_SELECT_APPEND''),
    (JH5S_SELECT_INVALID, Macro ''H5S_SELECT_INVALID''),
    (JH5S_SELECT_NOOP, Macro ''H5S_SELECT_NOOP''),
    (JH5S_SELECT_NOTA, Macro ''H5S_SELECT_NOTA''),
    (JH5S_SELECT_NOTB, Macro ''H5S_SELECT_NOTB''),
    (JH5S_SELECT_OR, Macro ''H5S_SELECT_OR''),
    (JH5S_SELECT_PREPEND, Macro ''H5S_SELECT_PREPEND''),
    (JH5S_SELECT_SET, Macro ''H5S_SELECT_SET''),
    (JH5S_SELECT_XOR, Macro ''H5S_SELECT_XOR''),
    (JH5S_SIMPLE, Macro ''H5S_SIMPLE''),
    (JH5S_UNLIMITED, Int_cast ''H5S_UNLIMITED''),
    (JH5T_ALPHA_B16, Macro ''H5T_ALPHA_B16''),
    (JH5T_ALPHA_B32, Macro ''H5T_ALPHA_B32''),
    (JH5T_ALPHA_B64, Macro ''H5T_ALPHA_B64''),
    (JH5T_ALPHA_B8, Macro ''H5T_ALPHA_B8''),
    (JH5T_ALPHA_F32, Macro ''H5T_ALPHA_F32''),
    (JH5T_ALPHA_F64, Macro ''H5T_ALPHA_F64''),
    (JH5T_ALPHA_I16, Macro ''H5T_ALPHA_I16''),
    (JH5T_ALPHA_I32, Macro ''H5T_ALPHA_I32''),
    (JH5T_ALPHA_I64, Macro ''H5T_ALPHA_I64''),
    (JH5T_ALPHA_I8, Macro ''H5T_ALPHA_I8''),
    (JH5T_ALPHA_U16, Macro ''H5T_ALPHA_U16''),
    (JH5T_ALPHA_U32, Macro ''H5T_ALPHA_U32''),
    (JH5T_ALPHA_U64, Macro ''H5T_ALPHA_U64''),
    (JH5T_ALPHA_U8, Macro ''H5T_ALPHA_U8''),
    (JH5T_ARRAY, Macro ''H5T_ARRAY''),
    (JH5T_BITFIELD, Macro ''H5T_BITFIELD''),
    (JH5T_BKG_NO, Macro ''H5T_BKG_NO''),
    (JH5T_BKG_YES, Macro ''H5T_BKG_YES''),
    (JH5T_C_S1, Macro ''H5T_C_S1''),
    (JH5T_COMPOUND, Macro ''H5T_COMPOUND''),
    (JH5T_CONV_CONV, Macro ''H5T_CONV_CONV''),
    (JH5T_CONV_FREE, Macro ''H5T_CONV_FREE''),
    (JH5T_CONV_INIT, Macro ''H5T_CONV_INIT''),
    (JH5T_CSET_ASCII, Macro ''H5T_CSET_ASCII''),
    (JH5T_CSET_ERROR, Macro ''H5T_CSET_ERROR''),
    (JH5T_CSET_RESERVED_10, Macro ''H5T_CSET_RESERVED_10''),
    (JH5T_CSET_RESERVED_11, Macro ''H5T_CSET_RESERVED_11''),
    (JH5T_CSET_RESERVED_12, Macro ''H5T_CSET_RESERVED_12''),
    (JH5T_CSET_RESERVED_13, Macro ''H5T_CSET_RESERVED_13''),
    (JH5T_CSET_RESERVED_14, Macro ''H5T_CSET_RESERVED_14''),
    (JH5T_CSET_RESERVED_15, Macro ''H5T_CSET_RESERVED_15''),
    (JH5T_CSET_RESERVED_2, Macro ''H5T_CSET_RESERVED_2''),
    (JH5T_CSET_RESERVED_3, Macro ''H5T_CSET_RESERVED_3''),
    (JH5T_CSET_RESERVED_4, Macro ''H5T_CSET_RESERVED_4''),
    (JH5T_CSET_RESERVED_5, Macro ''H5T_CSET_RESERVED_5''),
    (JH5T_CSET_RESERVED_6, Macro ''H5T_CSET_RESERVED_6''),
    (JH5T_CSET_RESERVED_7, Macro ''H5T_CSET_RESERVED_7''),
    (JH5T_CSET_RESERVED_8, Macro ''H5T_CSET_RESERVED_8''),
    (JH5T_CSET_RESERVED_9, Macro ''H5T_CSET_RESERVED_9''),
    (JH5T_DIR_ASCEND, Macro ''H5T_DIR_ASCEND''),
    (JH5T_DIR_DEFAULT, Macro ''H5T_DIR_DEFAULT''),
    (JH5T_DIR_DESCEND, Macro ''H5T_DIR_DESCEND''),
    (JH5T_ENUM, Macro ''H5T_ENUM''),
    (JH5T_FLOAT, Macro ''H5T_FLOAT''),
    (JH5T_FORTRAN_S1, Macro ''H5T_FORTRAN_S1''),
    (JH5T_IEEE_F32BE, Macro ''H5T_IEEE_F32BE''),
    (JH5T_IEEE_F32LE, Macro ''H5T_IEEE_F32LE''),
    (JH5T_IEEE_F64BE, Macro ''H5T_IEEE_F64BE''),
    (JH5T_IEEE_F64LE, Macro ''H5T_IEEE_F64LE''),
    (JH5T_INTEGER, Macro ''H5T_INTEGER''),
    (JH5T_INTEL_B16, Macro ''H5T_INTEL_B16''),
    (JH5T_INTEL_B32, Macro ''H5T_INTEL_B32''),
    (JH5T_INTEL_B64, Macro ''H5T_INTEL_B64''),
    (JH5T_INTEL_B8, Macro ''H5T_INTEL_B8''),
    (JH5T_INTEL_F32, Macro ''H5T_INTEL_F32''),
    (JH5T_INTEL_F64, Macro ''H5T_INTEL_F64''),
    (JH5T_INTEL_I16, Macro ''H5T_INTEL_I16''),
    (JH5T_INTEL_I32, Macro ''H5T_INTEL_I32''),
    (JH5T_INTEL_I64, Macro ''H5T_INTEL_I64''),
    (JH5T_INTEL_I8, Macro ''H5T_INTEL_I8''),
    (JH5T_INTEL_U16, Macro ''H5T_INTEL_U16''),
    (JH5T_INTEL_U32, Macro ''H5T_INTEL_U32''),
    (JH5T_INTEL_U64, Macro ''H5T_INTEL_U64''),
    (JH5T_INTEL_U8, Macro ''H5T_INTEL_U8''),
    (JH5T_MIPS_B16, Macro ''H5T_MIPS_B16''),
    (JH5T_MIPS_B32, Macro ''H5T_MIPS_B32''),
    (JH5T_MIPS_B64, Macro ''H5T_MIPS_B64''),
    (JH5T_MIPS_B8, Macro ''H5T_MIPS_B8''),
    (JH5T_MIPS_F32, Macro ''H5T_MIPS_F32''),
    (JH5T_MIPS_F64, Macro ''H5T_MIPS_F64''),
    (JH5T_MIPS_I16, Macro ''H5T_MIPS_I16''),
    (JH5T_MIPS_I32, Macro ''H5T_MIPS_I32''),
    (JH5T_MIPS_I64, Macro ''H5T_MIPS_I64''),
    (JH5T_MIPS_I8, Macro ''H5T_MIPS_I8''),
    (JH5T_MIPS_U16, Macro ''H5T_MIPS_U16''),
    (JH5T_MIPS_U32, Macro ''H5T_MIPS_U32''),
    (JH5T_MIPS_U64, Macro ''H5T_MIPS_U64''),
    (JH5T_MIPS_U8, Macro ''H5T_MIPS_U8''),
    (JH5T_NATIVE_B16, Macro ''H5T_NATIVE_B16''),
    (JH5T_NATIVE_B32, Macro ''H5T_NATIVE_B32''),
    (JH5T_NATIVE_B64, Macro ''H5T_NATIVE_B64''),
    (JH5T_NATIVE_B8, Macro ''H5T_NATIVE_B8''),
    (JH5T_NATIVE_CHAR, Macro ''H5T_NATIVE_CHAR''),
    (JH5T_NATIVE_DOUBLE, Macro ''H5T_NATIVE_DOUBLE''),
    (JH5T_NATIVE_FLOAT, Macro ''H5T_NATIVE_FLOAT''),
    (JH5T_NATIVE_HADDR, Macro ''H5T_NATIVE_HADDR''),
    (JH5T_NATIVE_HBOOL, Macro ''H5T_NATIVE_HBOOL''),
    (JH5T_NATIVE_HERR, Macro ''H5T_NATIVE_HERR''),
    (JH5T_NATIVE_HSIZE, Macro ''H5T_NATIVE_HSIZE''),
    (JH5T_NATIVE_HSSIZE, Macro ''H5T_NATIVE_HSSIZE''),
    (JH5T_NATIVE_INT, Macro ''H5T_NATIVE_INT''),
    (JH5T_NATIVE_INT_FAST16, Macro ''H5T_NATIVE_INT_FAST16''),
    (JH5T_NATIVE_INT_FAST32, Macro ''H5T_NATIVE_INT_FAST32''),
    (JH5T_NATIVE_INT_FAST64, Macro ''H5T_NATIVE_INT_FAST64''),
    (JH5T_NATIVE_INT_FAST8, Macro ''H5T_NATIVE_INT_FAST8''),
    (JH5T_NATIVE_INT_LEAST16, Macro ''H5T_NATIVE_INT_LEAST16''),
    (JH5T_NATIVE_INT_LEAST32, Macro ''H5T_NATIVE_INT_LEAST32''),
    (JH5T_NATIVE_INT_LEAST64, Macro ''H5T_NATIVE_INT_LEAST64''),
    (JH5T_NATIVE_INT_LEAST8, Macro ''H5T_NATIVE_INT_LEAST8''),
    (JH5T_NATIVE_INT16, Macro ''H5T_NATIVE_INT16''),
    (JH5T_NATIVE_INT32, Macro ''H5T_NATIVE_INT32''),
    (JH5T_NATIVE_INT64, Macro ''H5T_NATIVE_INT64''),
    (JH5T_NATIVE_INT8, Macro ''H5T_NATIVE_INT8''),
    (JH5T_NATIVE_LDOUBLE, Macro ''H5T_NATIVE_LDOUBLE''),
    (JH5T_NATIVE_LLONG, Macro ''H5T_NATIVE_LLONG''),
    (JH5T_NATIVE_LONG, Macro ''H5T_NATIVE_LONG''),
    (JH5T_NATIVE_OPAQUE, Macro ''H5T_NATIVE_OPAQUE''),
    (JH5T_NATIVE_SCHAR, Macro ''H5T_NATIVE_SCHAR''),
    (JH5T_NATIVE_SHORT, Macro ''H5T_NATIVE_SHORT''),
    (JH5T_NATIVE_UCHAR, Macro ''H5T_NATIVE_UCHAR''),
    (JH5T_NATIVE_UINT, Macro ''H5T_NATIVE_UINT''),
    (JH5T_NATIVE_UINT_FAST16, Macro ''H5T_NATIVE_UINT_FAST16''),
    (JH5T_NATIVE_UINT_FAST32, Macro ''H5T_NATIVE_UINT_FAST32''),
    (JH5T_NATIVE_UINT_FAST64, Macro ''H5T_NATIVE_UINT_FAST64''),
    (JH5T_NATIVE_UINT_FAST8, Macro ''H5T_NATIVE_UINT_FAST8''),
    (JH5T_NATIVE_UINT_LEAST16, Macro ''H5T_NATIVE_UINT_LEAST16''),
    (JH5T_NATIVE_UINT_LEAST32, Macro ''H5T_NATIVE_UINT_LEAST32''),
    (JH5T_NATIVE_UINT_LEAST64, Macro ''H5T_NATIVE_UINT_LEAST64''),
    (JH5T_NATIVE_UINT_LEAST8, Macro ''H5T_NATIVE_UINT_LEAST8''),
    (JH5T_NATIVE_UINT16, Macro ''H5T_NATIVE_UINT16''),
    (JH5T_NATIVE_UINT32, Macro ''H5T_NATIVE_UINT32''),
    (JH5T_NATIVE_UINT64, Macro ''H5T_NATIVE_UINT64''),
    (JH5T_NATIVE_UINT8, Macro ''H5T_NATIVE_UINT8''),
    (JH5T_NATIVE_ULLONG, Macro ''H5T_NATIVE_ULLONG''),
    (JH5T_NATIVE_ULONG, Macro ''H5T_NATIVE_ULONG''),
    (JH5T_NATIVE_USHORT, Macro ''H5T_NATIVE_USHORT''),
    (JH5T_NCLASSES, Macro ''H5T_NCLASSES''),
    (JH5T_NO_CLASS, Macro ''H5T_NO_CLASS''),
    (JH5T_NORM_ERROR, Macro ''H5T_NORM_ERROR''),
    (JH5T_NORM_IMPLIED, Macro ''H5T_NORM_IMPLIED''),
    (JH5T_NORM_MSBSET, Macro ''H5T_NORM_MSBSET''),
    (JH5T_NORM_NONE, Macro ''H5T_NORM_NONE''),
    (JH5T_NPAD, Macro ''H5T_NPAD''),
    (JH5T_NSGN, Macro ''H5T_NSGN''),
    (JH5T_OPAQUE, Macro ''H5T_OPAQUE''),
    (JH5T_OPAQUE_TAG_MAX, Macro ''H5T_OPAQUE_TAG_MAX''),
    (JH5T_ORDER_BE, Macro ''H5T_ORDER_BE''),
    (JH5T_ORDER_ERROR, Macro ''H5T_ORDER_ERROR''),
    (JH5T_ORDER_LE, Macro ''H5T_ORDER_LE''),
    (JH5T_ORDER_NONE, Macro ''H5T_ORDER_NONE''),
    (JH5T_ORDER_VAX, Macro ''H5T_ORDER_VAX''),
    (JH5T_PAD_BACKGROUND, Macro ''H5T_PAD_BACKGROUND''),
    (JH5T_PAD_ERROR, Macro ''H5T_PAD_ERROR''),
    (JH5T_PAD_ONE, Macro ''H5T_PAD_ONE''),
    (JH5T_PAD_ZERO, Macro ''H5T_PAD_ZERO''),
    (JH5T_PERS_DONTCARE, Macro ''H5T_PERS_DONTCARE''),
    (JH5T_PERS_HARD, Macro ''H5T_PERS_HARD''),
    (JH5T_PERS_SOFT, Macro ''H5T_PERS_SOFT''),
    (JH5T_REFERENCE, Macro ''H5T_REFERENCE''),
    (JH5T_SGN_2, Macro ''H5T_SGN_2''),
    (JH5T_SGN_ERROR, Macro ''H5T_SGN_ERROR''),
    (JH5T_SGN_NONE, Macro ''H5T_SGN_NONE''),
    (JH5T_STD_B16BE, Macro ''H5T_STD_B16BE''),
    (JH5T_STD_B16LE, Macro ''H5T_STD_B16LE''),
    (JH5T_STD_B32BE, Macro ''H5T_STD_B32BE''),
    (JH5T_STD_B32LE, Macro ''H5T_STD_B32LE''),
    (JH5T_STD_B64BE, Macro ''H5T_STD_B64BE''),
    (JH5T_STD_B64LE, Macro ''H5T_STD_B64LE''),
    (JH5T_STD_B8BE, Macro ''H5T_STD_B8BE''),
    (JH5T_STD_B8LE, Macro ''H5T_STD_B8LE''),
    (JH5T_STD_I16BE, Macro ''H5T_STD_I16BE''),
    (JH5T_STD_I16LE, Macro ''H5T_STD_I16LE''),
    (JH5T_STD_I32BE, Macro ''H5T_STD_I32BE''),
    (JH5T_STD_I32LE, Macro ''H5T_STD_I32LE''),
    (JH5T_STD_I64BE, Macro ''H5T_STD_I64BE''),
    (JH5T_STD_I64LE, Macro ''H5T_STD_I64LE''),
    (JH5T_STD_I8BE, Macro ''H5T_STD_I8BE''),
    (JH5T_STD_I8LE, Macro ''H5T_STD_I8LE''),
    (JH5T_STD_REF_DSETREG, Macro ''H5T_STD_REF_DSETREG''),
    (JH5T_STD_REF_OBJ, Macro ''H5T_STD_REF_OBJ''),
    (JH5T_STD_U16BE, Macro ''H5T_STD_U16BE''),
    (JH5T_STD_U16LE, Macro ''H5T_STD_U16LE''),
    (JH5T_STD_U32BE, Macro ''H5T_STD_U32BE''),
    (JH5T_STD_U32LE, Macro ''H5T_STD_U32LE''),
    (JH5T_STD_U64BE, Macro ''H5T_STD_U64BE''),
    (JH5T_STD_U64LE, Macro ''H5T_STD_U64LE''),
    (JH5T_STD_U8BE, Macro ''H5T_STD_U8BE''),
    (JH5T_STD_U8LE, Macro ''H5T_STD_U8LE''),
    (JH5T_STR_ERROR, Macro ''H5T_STR_ERROR''),
    (JH5T_STR_NULLPAD, Macro ''H5T_STR_NULLPAD''),
    (JH5T_STR_NULLTERM, Macro ''H5T_STR_NULLTERM''),
    (JH5T_STR_RESERVED_10, Macro ''H5T_STR_RESERVED_10''),
    (JH5T_STR_RESERVED_11, Macro ''H5T_STR_RESERVED_11''),
    (JH5T_STR_RESERVED_12, Macro ''H5T_STR_RESERVED_12''),
    (JH5T_STR_RESERVED_13, Macro ''H5T_STR_RESERVED_13''),
    (JH5T_STR_RESERVED_14, Macro ''H5T_STR_RESERVED_14''),
    (JH5T_STR_RESERVED_15, Macro ''H5T_STR_RESERVED_15''),
    (JH5T_STR_RESERVED_3, Macro ''H5T_STR_RESERVED_3''),
    (JH5T_STR_RESERVED_4, Macro ''H5T_STR_RESERVED_4''),
    (JH5T_STR_RESERVED_5, Macro ''H5T_STR_RESERVED_5''),
    (JH5T_STR_RESERVED_6, Macro ''H5T_STR_RESERVED_6''),
    (JH5T_STR_RESERVED_7, Macro ''H5T_STR_RESERVED_7''),
    (JH5T_STR_RESERVED_8, Macro ''H5T_STR_RESERVED_8''),
    (JH5T_STR_RESERVED_9, Macro ''H5T_STR_RESERVED_9''),
    (JH5T_STR_SPACEPAD, Macro ''H5T_STR_SPACEPAD''),
    (JH5T_STRING, Macro ''H5T_STRING''),
    (JH5T_TIME, Macro ''H5T_TIME''),
    (JH5T_UNIX_D32BE, Macro ''H5T_UNIX_D32BE''),
    (JH5T_UNIX_D32LE, Macro ''H5T_UNIX_D32LE''),
    (JH5T_UNIX_D64BE, Macro ''H5T_UNIX_D64BE''),
    (JH5T_UNIX_D64LE, Macro ''H5T_UNIX_D64LE''),
    (JH5T_VARIABLE, Macro ''H5T_VARIABLE''),
    (JH5T_VLEN, Macro ''H5T_VLEN''),
    (JH5Z_CB_CONT, Macro ''H5Z_CB_CONT''),
    (JH5Z_CB_ERROR, Macro ''H5Z_CB_ERROR''),
    (JH5Z_CB_FAIL, Macro ''H5Z_CB_FAIL''),
    (JH5Z_CB_NO, Macro ''H5Z_CB_NO''),
    (JH5Z_DISABLE_EDC, Macro ''H5Z_DISABLE_EDC''),
    (JH5Z_ENABLE_EDC, Macro ''H5Z_ENABLE_EDC''),
    (JH5Z_ERROR_EDC, Macro ''H5Z_ERROR_EDC''),
    (JH5Z_FILTER_DEFLATE, Macro ''H5Z_FILTER_DEFLATE''),
    (JH5Z_FILTER_ERROR, Macro ''H5Z_FILTER_ERROR''),
    (JH5Z_FILTER_FLETCHER32, Macro ''H5Z_FILTER_FLETCHER32''),
    (JH5Z_FILTER_MAX, Macro ''H5Z_FILTER_MAX''),
    (JH5Z_FILTER_NONE, Macro ''H5Z_FILTER_NONE''),
    (JH5Z_FILTER_RESERVED, Macro ''H5Z_FILTER_RESERVED''),
    (JH5Z_FILTER_SHUFFLE, Macro ''H5Z_FILTER_SHUFFLE''),
    (JH5Z_FILTER_SZIP, Macro ''H5Z_FILTER_SZIP''),
    (JH5Z_FLAG_DEFMASK, Macro ''H5Z_FLAG_DEFMASK''),
    (JH5Z_FLAG_INVMASK, Macro ''H5Z_FLAG_INVMASK''),
    (JH5Z_FLAG_MANDATORY, Macro ''H5Z_FLAG_MANDATORY''),
    (JH5Z_FLAG_OPTIONAL, Macro ''H5Z_FLAG_OPTIONAL''),
    (JH5Z_FLAG_REVERSE, Macro ''H5Z_FLAG_REVERSE''),
    (JH5Z_FLAG_SKIP_EDC, Macro ''H5Z_FLAG_SKIP_EDC''),
    (JH5Z_MAX_NFILTERS, Macro ''H5Z_MAX_NFILTERS''),
    (JH5Z_NO_EDC, Macro ''H5Z_NO_EDC''),
    (JH5Z_FILTER_CONFIG_ENCODE_ENABLED, Macro ''H5Z_FILTER_CONFIG_ENCODE_ENABLED''),
    (JH5Z_FILTER_CONFIG_DECODE_ENABLED, Macro ''H5Z_FILTER_CONFIG_DECODE_ENABLED'')
  ]"

text \<open>
  \<^verbatim>\<open>Java_ncsa_hdf_hdf5lib_H5_J2C\<close>: the case whose label equals \<^verbatim>\<open>java_constant\<close>, or the
  default branch, which calls \<^verbatim>\<open>h5illegalConstantError\<close>, drops its result and returns
  \<^verbatim>\<open>-1\<close>.
\<close>

definition J2C :: "JNIEnv \<Rightarrow> hdf5 \<Rightarrow> jint \<Rightarrow> jint \<times> event list" where
  "J2C env lib java_constant =
     (case map_of J2C_switch (sint java_constant) of
        Some e \<Rightarrow> (return_value lib e, [H5_macro (macro_name e)])
      | None \<Rightarrow> (case h5illegalConstantError env of (ok, calls) \<Rightarrow> (- 1, calls)))"

text \<open>The identifiers with a case in the switch.\<close>

definition J2C_known :: "int set" where
  "J2C_known = fst ` set J2C_switch"

text \<open>
  The bridge names the identifier of the \<^verbatim>\<open>hdf5.h\<close> constant \<^verbatim>\<open>H5X\<close> by \<^verbatim>\<open>JH5X\<close>: the
  constant an identifier stands for is its name without the leading \<^verbatim>\<open>J\<close>.
\<close>

definition native_name :: "string \<Rightarrow> string" where
  "native_name identifier = tl identifier"

text \<open>
  Four identifiers the header defines have no case in the switch: the cases of
  \<^verbatim>\<open>JH5E_CANTMAKETREE\<close>, \<^verbatim>\<open>JH5G_USERTYPE\<close> and \<^verbatim>\<open>JH5I_FILE_CLOSING\<close> are commented out
  there, and \<^verbatim>\<open>JH5F_OBJ_LOCAL\<close> has none at all.
\<close>

definition without_case :: "int list" where
  "without_case = [JH5E_CANTMAKETREE, JH5F_OBJ_LOCAL, JH5G_USERTYPE, JH5I_FILE_CLOSING]"

text \<open>
  The switch follows the order of the header, except for two cases that stand at another
  place than their \<^verbatim>\<open>#define\<close>.
\<close>

definition out_of_order :: "int list" where
  "out_of_order = [JH5F_OBJ_ATTR, JH5P_DEFAULT]"

subsection \<open>Observations on traces and sample surroundings\<close>

text \<open>The statuses the calls of \<^verbatim>\<open>Throw\<close> in a trace returned, in order.\<close>

fun throw_results :: "event list \<Rightarrow> jint list" where
  "throw_results [] = []"
| "throw_results (JNI_Throw ex rval # t) = rval # throw_results t"
| "throw_results (e # t) = throw_results t"

text \<open>
  What the raisers have in common, for a raiser that looks up \<open>class_name\<close> and the
  constructor of signature \<open>sig\<close> and prints \<open>diagnostic\<close> when the throw fails: the
  result is \<^verbatim>\<open>JNI_TRUE\<close> exactly when a \<^verbatim>\<open>Throw\<close> returned a status that is not negative;
  \<^verbatim>\<open>Throw\<close> is called at most once; a class that is not found ends the raiser with
  \<^verbatim>\<open>JNI_FALSE\<close>, no throw and nothing printed; a constructor that is not found ends it
  with \<^verbatim>\<open>JNI_FALSE\<close> and no throw; a failed throw ends it with \<^verbatim>\<open>JNI_FALSE\<close> and the
  diagnostic as the only line printed; and an exception the runtime accepted is of the
  class looked up.
\<close>

definition fail_silent ::
  "JNIEnv \<Rightarrow> string \<Rightarrow> string \<Rightarrow> string \<Rightarrow> jboolean \<times> event list \<Rightarrow> bool"
where
  "fail_silent env class_name sig diagnostic res =
     (case res of
        (ok, t) \<Rightarrow>
          (ok = JNI_TRUE \<longleftrightarrow> list_ex (\<lambda>rval. \<not> sint rval < 0) (throw_results t)) \<and>
          length (throw_results t) \<le> 1 \<and>
          (\<not> class_found env class_name \<longrightarrow>
             ok = JNI_FALSE \<and> throw_results t = [] \<and> stderr_output t = []) \<and>
          (\<not> method_found env (JClass class_name) ''<init>'' sig \<longrightarrow>
             ok = JNI_FALSE \<and> throw_results t = []) \<and>
          (list_ex (\<lambda>rval. sint rval < 0) (throw_results t) \<longrightarrow>
             ok = JNI_FALSE \<and> stderr_output t = [diagnostic]) \<and>
          list_all (\<lambda>ex. case ex of JObject c m a \<Rightarrow> c = JClass class_name) (thrown t))"

text \<open>
  The major error categories \<^verbatim>\<open>defineHDF5LibraryException\<close> compares with, each with the
  class named for it, and the class named when none matches.
\<close>

definition exception_of_major :: "(string \<times> string) list" where
  "exception_of_major = [
    (''H5E_ARGS'', ''ncsa/hdf/hdf5lib/exceptions/HDF5FunctionArgumentException''),
    (''H5E_RESOURCE'', ''ncsa/hdf/hdf5lib/exceptions/HDF5ResourceUnavailableException''),
    (''H5E_INTERNAL'', ''ncsa/hdf/hdf5lib/exceptions/HDF5InternalErrorException''),
    (''H5E_FILE'', ''ncsa/hdf/hdf5lib/exceptions/HDF5FileInterfaceException''),
    (''H5E_IO'', ''ncsa/hdf/hdf5lib/exceptions/HDF5LowLevelIOException''),
    (''H5E_FUNC'', ''ncsa/hdf/hdf5lib/exceptions/HDF5FunctionEntryExitException''),
    (''H5E_ATOM'', ''ncsa/hdf/hdf5lib/exceptions/HDF5AtomException''),
    (''H5E_CACHE'', ''ncsa/hdf/hdf5lib/exceptions/HDF5MetaDataCacheException''),
    (''H5E_BTREE'', ''ncsa/hdf/hdf5lib/exceptions/HDF5BtreeException''),
    (''H5E_SYM'', ''ncsa/hdf/hdf5lib/exceptions/HDF5SymbolTableException''),
    (''H5E_HEAP'', ''ncsa/hdf/hdf5lib/exceptions/HDF5HeapException''),
    (''H5E_OHDR'', ''ncsa/hdf/hdf5lib/exceptions/HDF5ObjectHeaderException''),
    (''H5E_DATATYPE'', ''ncsa/hdf/hdf5lib/exceptions/HDF5DatatypeInterfaceException''),
    (''H5E_DATASPACE'', ''ncsa/hdf/hdf5lib/exceptions/HDF5DataspaceInterfaceException''),
    (''H5E_DATASET'', ''ncsa/hdf/hdf5lib/exceptions/HDF5DatasetInterfaceException''),
    (''H5E_STORAGE'', ''ncsa/hdf/hdf5lib/exceptions/HDF5DataStorageException''),
    (''H5E_PLIST'', ''ncsa/hdf/hdf5lib/exceptions/HDF5PropertyListInterfaceException''),
    (''H5E_ATTR'', ''ncsa/hdf/hdf5lib/exceptions/HDF5AttributeException''),
    (''H5E_PLINE'', ''ncsa/hdf/hdf5lib/exceptions/HDF5DataFiltersException''),
    (''H5E_EFL'', ''ncsa/hdf/hdf5lib/exceptions/HDF5ExternalFileListException''),
    (''H5E_REFERENCE'', ''ncsa/hdf/hdf5lib/exceptions/HDF5ReferenceException'')
  ]"

definition generic_exception :: string where
  "generic_exception = ''ncsa/hdf/hdf5lib/exceptions/HDF5LibraryException''"

text \<open>
  Surroundings for concrete runs: a runtime in which every step succeeds, and three in
  which one step fails; a library that numbers its major error categories from 1 in the
  order above, has the all-ones 64-bit value for the two \<^verbatim>\<open>UNLIMITED\<close> sentinels and holds
  two entries on its error stack.
\<close>

definition working_runtime :: JNIEnv where
  "working_runtime =
     \<lparr>class_found = (\<lambda>name. True), method_found = (\<lambda>clazz name sig. True),
      string_made = (\<lambda>bytes. True), object_made = (\<lambda>clazz methodID args. True),
      throw_status = (\<lambda>obj. 0), chars_made = (\<lambda>s. True)\<rparr>"

definition runtime_without_classes :: JNIEnv where
  "runtime_without_classes = working_runtime\<lparr>class_found := (\<lambda>name. False)\<rparr>"

definition runtime_without_constructors :: JNIEnv where
  "runtime_without_constructors = working_runtime\<lparr>method_found := (\<lambda>clazz name sig. False)\<rparr>"

definition runtime_refusing_throw :: JNIEnv where
  "runtime_refusing_throw = working_runtime\<lparr>throw_status := (\<lambda>obj. - 1)\<rparr>"

definition sample_values :: "(string \<times> int) list" where
  "sample_values = [
    (''H5E_ARGS'', 1), (''H5E_RESOURCE'', 2), (''H5E_INTERNAL'', 3), (''H5E_FILE'', 4),
    (''H5E_IO'', 5), (''H5E_FUNC'', 6), (''H5E_ATOM'', 7), (''H5E_CACHE'', 8),
    (''H5E_BTREE'', 9), (''H5E_SYM'', 10), (''H5E_HEAP'', 11), (''H5E_OHDR'', 12),
    (''H5E_DATATYPE'', 13), (''H5E_DATASPACE'', 14), (''H5E_DATASET'', 15),
    (''H5E_STORAGE'', 16), (''H5E_PLIST'', 17), (''H5E_ATTR'', 18), (''H5E_PLINE'', 19),
    (''H5E_EFL'', 20), (''H5E_REFERENCE'', 21),
    (''H5D_CHUNKED'', 2), (''H5D_COMPACT'', 0),
    (''H5F_UNLIMITED'', 18446744073709551615), (''H5S_UNLIMITED'', 18446744073709551615)
  ]"

definition sample_lib :: hdf5 where
  "sample_lib =
     \<lparr>macro_value = (\<lambda>m. case map_of sample_values m of Some v \<Rightarrow> v | None \<Rightarrow> 0),
      major_mesg = (\<lambda>n. if n = 4 then ''File interface'' else ''Invalid major error number''),
      minor_mesg = (\<lambda>n. if n = 7 then ''Unable to open file'' else ''Invalid minor error number''),
      error_stack = [\<lparr>err_maj_num = 4, err_min_num = 7\<rparr>, \<lparr>err_maj_num = 5, err_min_num = 9\<rparr>]\<rparr>"

definition sample_junk :: H5E_num_t where
  "sample_junk = \<lparr>nums_maj_num = 99, nums_min_num = 98\<rparr>"

text \<open>A list with or without a new head, for filtering a long list step by step.\<close>

fun cons_if :: "bool \<Rightarrow> 'a \<Rightarrow> 'a list \<Rightarrow> 'a list" where
  "cons_if True x xs = x # xs"
| "cons_if False x xs = xs"

definition any_file_opens :: "string \<Rightarrow> string \<Rightarrow> bool" where
  "any_file_opens path mode = True"

subsection \<open>Auxiliary facts\<close>

lemmas h5Constants_defs = JH5_SZIP_MAX_PIXELS_PER_BLOCK_def JH5_SZIP_NN_OPTION_MASK_def
  JH5_SZIP_EC_OPTION_MASK_def JH5_SZIP_ALLOW_K13_OPTION_MASK_def JH5_SZIP_CHIP_OPTION_MASK_def
  JH5D_ALLOC_TIME_DEFAULT_def JH5D_ALLOC_TIME_EARLY_def JH5D_ALLOC_TIME_ERROR_def
  JH5D_ALLOC_TIME_INCR_def JH5D_ALLOC_TIME_LATE_def JH5D_CHUNKED_def JH5D_COMPACT_def
  JH5D_CONTIGUOUS_def JH5D_FILL_TIME_ALLOC_def JH5D_FILL_TIME_ERROR_def
  JH5D_FILL_TIME_NEVER_def JH5D_FILL_VALUE_DEFAULT_def JH5D_FILL_VALUE_ERROR_def
  JH5D_FILL_VALUE_UNDEFINED_def JH5D_FILL_VALUE_USER_DEFINED_def JH5D_LAYOUT_ERROR_def
  JH5D_NLAYOUTS_def JH5D_SPACE_STATUS_ALLOCATED_def JH5D_SPACE_STATUS_ERROR_def
  JH5D_SPACE_STATUS_NOT_ALLOCATED_def JH5D_SPACE_STATUS_PART_ALLOCATED_def JH5E_ALIGNMENT_def
  JH5E_ALREADYEXISTS_def JH5E_ALREADYINIT_def JH5E_ARGS_def JH5E_ATOM_def JH5E_ATTR_def
  JH5E_BADATOM_def JH5E_BADFILE_def JH5E_BADGROUP_def JH5E_BADMESG_def JH5E_BADRANGE_def
  JH5E_BADSELECT_def JH5E_BADSIZE_def JH5E_BADTYPE_def JH5E_BADVALUE_def JH5E_BTREE_def
  JH5E_CACHE_def JH5E_CALLBACK_def JH5E_CANAPPLY_def JH5E_CANTCLIP_def JH5E_CANTCLOSEFILE_def
  JH5E_CANTCONVERT_def JH5E_CANTCOPY_def JH5E_CANTCOUNT_def JH5E_CANTCREATE_def
  JH5E_CANTDEC_def JH5E_CANTDECODE_def JH5E_CANTDELETE_def JH5E_CANTENCODE_def
  JH5E_CANTFLUSH_def JH5E_CANTFREE_def JH5E_CANTGET_def JH5E_CANTINC_def JH5E_CANTINIT_def
  JH5E_CANTINSERT_def JH5E_CANTLIST_def JH5E_CANTLOAD_def JH5E_CANTLOCK_def
  JH5E_CANTMAKETREE_def JH5E_CANTNEXT_def JH5E_CANTOPENFILE_def JH5E_CANTOPENOBJ_def
  JH5E_CANTREGISTER_def JH5E_CANTRELEASE_def JH5E_CANTSELECT_def JH5E_CANTSET_def
  JH5E_CANTSPLIT_def JH5E_CANTUNLOCK_def JH5E_CLOSEERROR_def JH5E_COMPLEN_def JH5E_DATASET_def
  JH5E_DATASPACE_def JH5E_DATATYPE_def JH5E_DUPCLASS_def JH5E_EFL_def JH5E_EXISTS_def
  JH5E_FCNTL_def JH5E_FILE_def JH5E_FILEEXISTS_def JH5E_FILEOPEN_def JH5E_FUNC_def
  JH5E_HEAP_def JH5E_INTERNAL_def JH5E_IO_def JH5E_LINK_def JH5E_LINKCOUNT_def JH5E_MOUNT_def
  JH5E_MPI_def JH5E_MPIERRSTR_def JH5E_NOFILTER_def JH5E_NOIDS_def JH5E_NONE_MAJOR_def
  JH5E_NONE_MINOR_def JH5E_NOSPACE_def JH5E_NOTCACHED_def JH5E_NOTFOUND_def JH5E_NOTHDF5_def
  JH5E_OHDR_def JH5E_OVERFLOW_def JH5E_PLINE_def JH5E_PLIST_def JH5E_PROTECT_def
  JH5E_READERROR_def JH5E_REFERENCE_def JH5E_RESOURCE_def JH5E_RS_def JH5E_SEEKERROR_def
  JH5E_SETLOCAL_def JH5E_STORAGE_def JH5E_SYM_def JH5E_TRUNCATED_def JH5E_TST_def
  JH5E_UNINITIALIZED_def JH5E_UNSUPPORTED_def JH5E_VERSION_def JH5E_VFL_def
  JH5E_WALK_DOWNWARD_def JH5E_WALK_UPWARD_def JH5E_WRITEERROR_def JH5F_ACC_CREAT_def
  JH5F_ACC_DEBUG_def JH5F_ACC_EXCL_def JH5F_ACC_RDONLY_def JH5F_ACC_RDWR_def JH5F_ACC_TRUNC_def
  JH5F_CLOSE_DEFAULT_def JH5F_CLOSE_SEMI_def JH5F_CLOSE_STRONG_def JH5F_CLOSE_WEAK_def
  JH5F_OBJ_ALL_def JH5F_OBJ_ATTR_def JH5F_OBJ_DATASET_def JH5F_OBJ_DATATYPE_def
  JH5F_OBJ_FILE_def JH5F_OBJ_GROUP_def JH5F_OBJ_LOCAL_def JH5F_SCOPE_DOWN_def
  JH5F_SCOPE_GLOBAL_def JH5F_SCOPE_LOCAL_def JH5F_UNLIMITED_def JH5F_LIBVER_EARLIEST_def
  JH5F_LIBVER_LATEST_def JH5G_DATASET_def JH5G_GROUP_def JH5G_LINK_def JH5G_LINK_ERROR_def
  JH5G_LINK_HARD_def JH5G_LINK_SOFT_def JH5G_NLIBTYPES_def JH5G_NTYPES_def JH5G_NUSERTYPES_def
  JH5G_RESERVED_5_def JH5G_RESERVED_6_def JH5G_RESERVED_7_def JH5G_SAME_LOC_def JH5G_TYPE_def
  JH5G_UNKNOWN_def JH5G_USERTYPE_def JH5I_ATTR_def JH5I_BADID_def JH5I_DATASET_def
  JH5I_DATASPACE_def JH5I_DATATYPE_def JH5I_FILE_def JH5I_FILE_CLOSING_def JH5I_GENPROP_CLS_def
  JH5I_GENPROP_LST_def JH5I_GROUP_def JH5I_INVALID_HID_def JH5I_REFERENCE_def JH5I_VFL_def
  JH5O_TYPE_UNKNOWN_def JH5O_TYPE_GROUP_def JH5O_TYPE_DATASET_def JH5O_TYPE_NAMED_DATATYPE_def
  JH5O_TYPE_NTYPES_def JH5L_TYPE_ERROR_def JH5L_TYPE_HARD_def JH5L_TYPE_SOFT_def
  JH5L_TYPE_EXTERNAL_def JH5L_TYPE_MAX_def JH5P_DATASET_CREATE_def
  JH5P_DATASET_CREATE_DEFAULT_def JH5P_DATASET_XFER_def JH5P_DATASET_XFER_DEFAULT_def
  JH5P_DEFAULT_def JH5P_FILE_ACCESS_def JH5P_FILE_ACCESS_DEFAULT_def JH5P_FILE_CREATE_def
  JH5P_FILE_CREATE_DEFAULT_def JH5P_NO_CLASS_def JH5P_ROOT_def JH5P_OBJECT_CREATE_def
  JH5P_DATASET_ACCESS_def JH5P_DATASET_ACCESS_DEFAULT_def JH5P_FILE_MOUNT_def
  JH5P_FILE_MOUNT_DEFAULT_def JH5P_GROUP_CREATE_def JH5P_GROUP_CREATE_DEFAULT_def
  JH5P_GROUP_ACCESS_def JH5P_GROUP_ACCESS_DEFAULT_def JH5P_DATATYPE_CREATE_def
  JH5P_DATATYPE_CREATE_DEFAULT_def JH5P_DATATYPE_ACCESS_def JH5P_DATATYPE_ACCESS_DEFAULT_def
  JH5P_STRING_CREATE_def JH5P_ATTRIBUTE_CREATE_def JH5P_ATTRIBUTE_CREATE_DEFAULT_def
  JH5P_OBJECT_COPY_def JH5P_OBJECT_COPY_DEFAULT_def JH5P_LINK_CREATE_def
  JH5P_LINK_CREATE_DEFAULT_def JH5P_LINK_ACCESS_def JH5P_LINK_ACCESS_DEFAULT_def
  JH5R_BADTYPE_def JH5R_DATASET_REGION_def JH5R_MAXTYPE_def JH5R_OBJ_REF_BUF_SIZE_def
  JH5R_OBJECT_def JH5S_ALL_def JH5S_MAX_RANK_def JH5S_NO_CLASS_def JH5S_NULL_def
  JH5S_SCALAR_def JH5S_SEL_ALL_def JH5S_SEL_ERROR_def JH5S_SEL_HYPERSLABS_def JH5S_SEL_N_def
  JH5S_SEL_NONE_def JH5S_SEL_POINTS_def JH5S_SELECT_AND_def JH5S_SELECT_APPEND_def
  JH5S_SELECT_INVALID_def JH5S_SELECT_NOOP_def JH5S_SELECT_NOTA_def JH5S_SELECT_NOTB_def
  JH5S_SELECT_OR_def JH5S_SELECT_PREPEND_def JH5S_SELECT_SET_def JH5S_SELECT_XOR_def
  JH5S_SIMPLE_def JH5S_UNLIMITED_def JH5T_ALPHA_B16_def JH5T_ALPHA_B32_def JH5T_ALPHA_B64_def
  JH5T_ALPHA_B8_def JH5T_ALPHA_F32_def JH5T_ALPHA_F64_def JH5T_ALPHA_I16_def JH5T_ALPHA_I32_def
  JH5T_ALPHA_I64_def JH5T_ALPHA_I8_def JH5T_ALPHA_U16_def JH5T_ALPHA_U32_def JH5T_ALPHA_U64_def
  JH5T_ALPHA_U8_def JH5T_ARRAY_def JH5T_BITFIELD_def JH5T_BKG_NO_def JH5T_BKG_YES_def
  JH5T_C_S1_def JH5T_COMPOUND_def JH5T_CONV_CONV_def JH5T_CONV_FREE_def JH5T_CONV_INIT_def
  JH5T_CSET_ASCII_def JH5T_CSET_ERROR_def JH5T_CSET_RESERVED_10_def JH5T_CSET_RESERVED_11_def
  JH5T_CSET_RESERVED_12_def JH5T_CSET_RESERVED_13_def JH5T_CSET_RESERVED_14_def
  JH5T_CSET_RESERVED_15_def JH5T_CSET_RESERVED_2_def JH5T_CSET_RESERVED_3_def
  JH5T_CSET_RESERVED_4_def JH5T_CSET_RESERVED_5_def JH5T_CSET_RESERVED_6_def
  JH5T_CSET_RESERVED_7_def JH5T_CSET_RESERVED_8_def JH5T_CSET_RESERVED_9_def
  JH5T_DIR_ASCEND_def JH5T_DIR_DEFAULT_def JH5T_DIR_DESCEND_def JH5T_ENUM_def JH5T_FLOAT_def
  JH5T_FORTRAN_S1_def JH5T_IEEE_F32BE_def JH5T_IEEE_F32LE_def JH5T_IEEE_F64BE_def
  JH5T_IEEE_F64LE_def JH5T_INTEGER_def JH5T_INTEL_B16_def JH5T_INTEL_B32_def JH5T_INTEL_B64_def
  JH5T_INTEL_B8_def JH5T_INTEL_F32_def JH5T_INTEL_F64_def JH5T_INTEL_I16_def JH5T_INTEL_I32_def
  JH5T_INTEL_I64_def JH5T_INTEL_I8_def JH5T_INTEL_U16_def JH5T_INTEL_U32_def JH5T_INTEL_U64_def
  JH5T_INTEL_U8_def JH5T_MIPS_B16_def JH5T_MIPS_B32_def JH5T_MIPS_B64_def JH5T_MIPS_B8_def
  JH5T_MIPS_F32_def JH5T_MIPS_F64_def JH5T_MIPS_I16_def JH5T_MIPS_I32_def JH5T_MIPS_I64_def
  JH5T_MIPS_I8_def JH5T_MIPS_U16_def JH5T_MIPS_U32_def JH5T_MIPS_U64_def JH5T_MIPS_U8_def
  JH5T_NATIVE_B16_def JH5T_NATIVE_B32_def JH5T_NATIVE_B64_def JH5T_NATIVE_B8_def
  JH5T_NATIVE_CHAR_def JH5T_NATIVE_DOUBLE_def JH5T_NATIVE_FLOAT_def JH5T_NATIVE_HADDR_def
  JH5T_NATIVE_HBOOL_def JH5T_NATIVE_HERR_def JH5T_NATIVE_HSIZE_def JH5T_NATIVE_HSSIZE_def
  JH5T_NATIVE_INT_def JH5T_NATIVE_INT_FAST16_def JH5T_NATIVE_INT_FAST32_def
  JH5T_NATIVE_INT_FAST64_def JH5T_NATIVE_INT_FAST8_def JH5T_NATIVE_INT_LEAST16_def
  JH5T_NATIVE_INT_LEAST32_def JH5T_NATIVE_INT_LEAST64_def JH5T_NATIVE_INT_LEAST8_def
  JH5T_NATIVE_INT16_def JH5T_NATIVE_INT32_def JH5T_NATIVE_INT64_def JH5T_NATIVE_INT8_def
  JH5T_NATIVE_LDOUBLE_def JH5T_NATIVE_LLONG_def JH5T_NATIVE_LONG_def JH5T_NATIVE_OPAQUE_def
  JH5T_NATIVE_SCHAR_def JH5T_NATIVE_SHORT_def JH5T_NATIVE_UCHAR_def JH5T_NATIVE_UINT_def
  JH5T_NATIVE_UINT_FAST16_def JH5T_NATIVE_UINT_FAST32_def JH5T_NATIVE_UINT_FAST64_def
  JH5T_NATIVE_UINT_FAST8_def JH5T_NATIVE_UINT_LEAST16_def JH5T_NATIVE_UINT_LEAST32_def
  JH5T_NATIVE_UINT_LEAST64_def JH5T_NATIVE_UINT_LEAST8_def JH5T_NATIVE_UINT16_def
  JH5T_NATIVE_UINT32_def JH5T_NATIVE_UINT64_def JH5T_NATIVE_UINT8_def JH5T_NATIVE_ULLONG_def
  JH5T_NATIVE_ULONG_def JH5T_NATIVE_USHORT_def JH5T_NCLASSES_def JH5T_NO_CLASS_def
  JH5T_NORM_ERROR_def JH5T_NORM_IMPLIED_def JH5T_NORM_MSBSET_def JH5T_NORM_NONE_def
  JH5T_NPAD_def JH5T_NSGN_def JH5T_OPAQUE_def JH5T_OPAQUE_TAG_MAX_def JH5T_ORDER_BE_def
  JH5T_ORDER_ERROR_def JH5T_ORDER_LE_def JH5T_ORDER_NONE_def JH5T_ORDER_VAX_def
  JH5T_PAD_BACKGROUND_def JH5T_PAD_ERROR_def JH5T_PAD_ONE_def JH5T_PAD_ZERO_def
  JH5T_PERS_DONTCARE_def JH5T_PERS_HARD_def JH5T_PERS_SOFT_def JH5T_REFERENCE_def
  JH5T_SGN_2_def JH5T_SGN_ERROR_def JH5T_SGN_NONE_def JH5T_STD_B16BE_def JH5T_STD_B16LE_def
  JH5T_STD_B32BE_def JH5T_STD_B32LE_def JH5T_STD_B64BE_def JH5T_STD_B64LE_def JH5T_STD_B8BE_def
  JH5T_STD_B8LE_def JH5T_STD_I16BE_def JH5T_STD_I16LE_def JH5T_STD_I32BE_def JH5T_STD_I32LE_def
  JH5T_STD_I64BE_def JH5T_STD_I64LE_def JH5T_STD_I8BE_def JH5T_STD_I8LE_def
  JH5T_STD_REF_DSETREG_def JH5T_STD_REF_OBJ_def JH5T_STD_U16BE_def JH5T_STD_U16LE_def
  JH5T_STD_U32BE_def JH5T_STD_U32LE_def JH5T_STD_U64BE_def JH5T_STD_U64LE_def JH5T_STD_U8BE_def
  JH5T_STD_U8LE_def JH5T_STR_ERROR_def JH5T_STR_NULLPAD_def JH5T_STR_NULLTERM_def
  JH5T_STR_RESERVED_10_def JH5T_STR_RESERVED_11_def JH5T_STR_RESERVED_12_def
  JH5T_STR_RESERVED_13_def JH5T_STR_RESERVED_14_def JH5T_STR_RESERVED_15_def
  JH5T_STR_RESERVED_3_def JH5T_STR_RESERVED_4_def JH5T_STR_RESERVED_5_def
  JH5T_STR_RESERVED_6_def JH5T_STR_RESERVED_7_def JH5T_STR_RESERVED_8_def
  JH5T_STR_RESERVED_9_def JH5T_STR_SPACEPAD_def JH5T_STRING_def JH5T_TIME_def
  JH5T_UNIX_D32BE_def JH5T_UNIX_D32LE_def JH5T_UNIX_D64BE_def JH5T_UNIX_D64LE_def
  JH5T_VARIABLE_def JH5T_VLEN_def JH5Z_CB_CONT_def JH5Z_CB_ERROR_def JH5Z_CB_FAIL_def
  JH5Z_CB_NO_def JH5Z_DISABLE_EDC_def JH5Z_ENABLE_EDC_def JH5Z_ERROR_EDC_def
  JH5Z_FILTER_DEFLATE_def JH5Z_FILTER_ERROR_def JH5Z_FILTER_FLETCHER32_def JH5Z_FILTER_MAX_def
  JH5Z_FILTER_NONE_def JH5Z_FILTER_RESERVED_def JH5Z_FILTER_SHUFFLE_def JH5Z_FILTER_SZIP_def
  JH5Z_FLAG_DEFMASK_def JH5Z_FLAG_INVMASK_def JH5Z_FLAG_MANDATORY_def JH5Z_FLAG_OPTIONAL_def
  JH5Z_FLAG_REVERSE_def JH5Z_FLAG_SKIP_EDC_def JH5Z_MAX_NFILTERS_def JH5Z_NO_EDC_def
  JH5Z_FILTER_CONFIG_ENCODE_ENABLED_def JH5Z_FILTER_CONFIG_DECODE_ENABLED_def

lemma filter_cons_if: "filter P (x # xs) = cons_if (P x) x (filter P xs)"
  by (cases "P x") simp_all

lemma switch_keys_distinct: "distinct (map fst J2C_switch)"
  by (simp add: J2C_switch_def h5Constants_defs)

lemma switch_in_order:
  "map (\<lambda>(k, e). (k, macro_name e)) (filter (\<lambda>x. fst x \<notin> set out_of_order) J2C_switch) =
   map (\<lambda>(n, k). (k, native_name n))
     (filter (\<lambda>x. snd x \<notin> set (out_of_order @ without_case)) h5Constants_h)"
  by (simp add: J2C_switch_def h5Constants_h_def h5Constants_defs out_of_order_def
      without_case_def native_name_def filter_cons_if del: filter.simps)

lemma switch_out_of_order:
  "map (\<lambda>(k, e). (k, macro_name e)) (filter (\<lambda>x. fst x \<in> set out_of_order) J2C_switch) =
   map (\<lambda>(n, k). (k, native_name n)) (filter (\<lambda>x. snd x \<in> set out_of_order) h5Constants_h)"
  by (simp add: J2C_switch_def h5Constants_h_def h5Constants_defs out_of_order_def
      native_name_def filter_cons_if del: filter.simps)

lemma switch_range: "\<forall>k \<in> set (map fst J2C_switch). 1000 \<le> k \<and> k \<le> 6220"
  by (simp add: J2C_switch_def h5Constants_defs)

lemma out_of_order_have_case: "set out_of_order \<inter> set without_case = {}"
  by (simp add: out_of_order_def without_case_def h5Constants_defs)

lemma switch_header:
  "(\<lambda>(k, e). (k, macro_name e)) ` set J2C_switch =
   (\<lambda>(n, k). (k, native_name n)) ` {x \<in> set h5Constants_h. snd x \<notin> set without_case}"
proof -
  let ?g = "\<lambda>(k, e). (k, macro_name e)" and ?h = "\<lambda>(n, k). (k, native_name n)"
  have "set J2C_switch =
      set (filter (\<lambda>x. fst x \<notin> set out_of_order) J2C_switch) \<union>
      set (filter (\<lambda>x. fst x \<in> set out_of_order) J2C_switch)"
    by auto
  then have "?g ` set J2C_switch =
      set (map ?g (filter (\<lambda>x. fst x \<notin> set out_of_order) J2C_switch)) \<union>
      set (map ?g (filter (\<lambda>x. fst x \<in> set out_of_order) J2C_switch))"
    by (metis image_Un set_map)
  also have "\<dots> =
      set (map ?h (filter (\<lambda>x. snd x \<notin> set (out_of_order @ without_case)) h5Constants_h)) \<union>
      set (map ?h (filter (\<lambda>x. snd x \<in> set out_of_order) h5Constants_h))"
    by (simp only: switch_in_order switch_out_of_order)
  also have "\<dots> = ?h ` {x \<in> set h5Constants_h. snd x \<notin> set without_case}"
    using out_of_order_have_case by (simp only: set_map set_filter set_append) blast
  finally show ?thesis .
qed

lemma lookup_of_member: "(k, e) \<in> set J2C_switch \<Longrightarrow> map_of J2C_switch k = Some e"
  by (rule map_of_is_SomeI [OF switch_keys_distinct])

lemma header_case:
  assumes "(n, k) \<in> set h5Constants_h" and "k \<notin> set without_case"
  shows "\<exists>e. map_of J2C_switch k = Some e \<and> macro_name e = native_name n"
proof -
  from assms have "(k, native_name n) \<in>
      (\<lambda>(n, k). (k, native_name n)) ` {x \<in> set h5Constants_h. snd x \<notin> set without_case}"
    by force
  then have "(k, native_name n) \<in> (\<lambda>(k, e). (k, macro_name e)) ` set J2C_switch"
    by (simp only: switch_header)
  then obtain e where "(k, e) \<in> set J2C_switch" and "macro_name e = native_name n"
    by auto
  then show ?thesis
    by (auto intro: lookup_of_member)
qed

lemma case_header:
  assumes "map_of J2C_switch k = Some e"
  shows "\<exists>n. (n, k) \<in> set h5Constants_h \<and> k \<notin> set without_case \<and> macro_name e = native_name n"
proof -
  from assms have "(k, e) \<in> set J2C_switch"
    by (rule map_of_SomeD)
  then have "(k, macro_name e) \<in> (\<lambda>(k, e). (k, macro_name e)) ` set J2C_switch"
    by force
  then have "(k, macro_name e) \<in>
      (\<lambda>(n, k). (k, native_name n)) ` {x \<in> set h5Constants_h. snd x \<notin> set without_case}"
    by (simp only: switch_header)
  then show ?thesis
    by auto
qed

lemma known_iff: "k \<in> J2C_known \<longleftrightarrow> (\<exists>e. map_of J2C_switch k = Some e)"
  using map_of_eq_None_iff [of J2C_switch k] by (auto simp: J2C_known_def)

lemma known_iff_header:
  "k \<in> J2C_known \<longleftrightarrow> (\<exists>n. (n, k) \<in> set h5Constants_h) \<and> k \<notin> set without_case"
  using header_case case_header known_iff by blast

lemma return_value_macro: "return_value lib e = word_of_int (macro_value lib (macro_name e))"
  by (cases e) simp_all

lemma J2C_case:
  "map_of J2C_switch (sint c) = Some e \<Longrightarrow>
   J2C env lib c = (word_of_int (macro_value lib (macro_name e)), [H5_macro (macro_name e)])"
  by (simp add: J2C_def return_value_macro)

lemma J2C_default:
  "sint c \<notin> J2C_known \<Longrightarrow> J2C env lib c = (- 1, snd (h5illegalConstantError env))"
  by (simp add: J2C_def J2C_known_def map_of_eq_None_iff [symmetric] split: prod.splits)

lemma sint_word_of_int_32:
  "- (2 ^ 31) \<le> x \<Longrightarrow> x < 2 ^ 31 \<Longrightarrow> sint (word_of_int x :: 32 word) = x"
  by (simp add: sint_sbintrunc' signed_take_bit_int_eq_self)


lemma walk_entries_callback:
  "es \<noteq> [] \<Longrightarrow>
   walk_entries walk_error_callback n es nums =
     (0, nums\<lparr>nums_maj_num := err_maj_num (last es), nums_min_num := err_min_num (last es)\<rparr>)"
proof (induction es arbitrary: n nums)
  case Nil
  then show ?case by simp
next
  case (Cons e es)
  show ?case
  proof (cases "es = []")
    case True
    then show ?thesis by (simp add: walk_error_callback_def)
  next
    case False
    with Cons.IH show ?thesis by (simp add: walk_error_callback_def)
  qed
qed

lemma define_as_lookup:
  "defineHDF5LibraryException lib n =
     (case map_of (map (\<lambda>(m, c). (macro_value lib m, c)) exception_of_major) (sint n) of
        Some c \<Rightarrow> c
      | None \<Rightarrow> generic_exception)"
  by (simp add: defineHDF5LibraryException_def exception_of_major_def generic_exception_def
      Let_def)

lemma throw_with_string_fail_silent:
  "fail_silent env class_name ''(Ljava/lang/String;)V'' diagnostic
     (throw_with_string env class_name text diagnostic)"
  by (simp add: fail_silent_def throw_with_string_def FindClass_def GetMethodID_def
      NewObjectA_def Throw_def Let_def split: option.splits)

lemma h5libraryError_fail_silent:
  "fail_silent env (defineHDF5LibraryException lib (getMajorErrorNumber lib junk1))
     ''(ILjava/lang/String;ILjava/lang/String;)V''
     (''FATAL ERROR:  h5libraryError: Throw failed'' @ [CHR 0x0A])
     (h5libraryError env lib junk1 junk2)"
  by (simp add: fail_silent_def h5libraryError_def FindClass_def GetMethodID_def
      NewObjectA_def Throw_def Let_def split: option.splits)

lemma top_bit_uint:
  fixes u :: "'a::len word"
  assumes "bit u (LENGTH('a) - 1)"
  shows "2 ^ (LENGTH('a) - 1) \<le> uint u"
proof (rule ccontr)
  assume "\<not> 2 ^ (LENGTH('a) - 1) \<le> uint u"
  then have "uint u < 2 ^ (LENGTH('a) - 1)" by simp
  then have "\<not> bit (uint u) (LENGTH('a) - 1)"
    by (simp add: bit_iff_odd)
  then show False using assms by (simp add: bit_uint_iff)
qed

lemma UNLIMITED_cases:
  "map_of J2C_switch JH5F_UNLIMITED = Some (Int_cast ''H5F_UNLIMITED'')"
  "map_of J2C_switch JH5S_UNLIMITED = Some (Int_cast ''H5S_UNLIMITED'')"
  by (rule lookup_of_member, simp add: J2C_switch_def)+

lemma CHUNKED_in_header: "(''JH5D_CHUNKED'', JH5D_CHUNKED) \<in> set h5Constants_h"
  by (simp add: h5Constants_h_def)

lemma COMPACT_in_header: "(''JH5D_COMPACT'', JH5D_COMPACT) \<in> set h5Constants_h"
  by (simp add: h5Constants_h_def)

lemma without_case_in_header:
  "(''JH5E_CANTMAKETREE'', JH5E_CANTMAKETREE) \<in> set h5Constants_h"
  "(''JH5F_OBJ_LOCAL'', JH5F_OBJ_LOCAL) \<in> set h5Constants_h"
  "(''JH5G_USERTYPE'', JH5G_USERTYPE) \<in> set h5Constants_h"
  "(''JH5I_FILE_CLOSING'', JH5I_FILE_CLOSING) \<in> set h5Constants_h"
  by (simp_all add: h5Constants_h_def)

lemma without_case_unknown:
  "JH5E_CANTMAKETREE \<notin> J2C_known" "JH5F_OBJ_LOCAL \<notin> J2C_known"
  "JH5G_USERTYPE \<notin> J2C_known" "JH5I_FILE_CLOSING \<notin> J2C_known"
  by (simp_all add: known_iff_header without_case_def)

lemma zero_unknown: "0 \<notin> J2C_known"
  using switch_range by (auto simp: J2C_known_def)

lemma illegal_constant_thrown:
  "class_found env ''java/lang/IllegalArgumentException'' \<Longrightarrow>
   method_found env (JClass ''java/lang/IllegalArgumentException'') ''<init>''
     ''(Ljava/lang/String;)V'' \<Longrightarrow>
   string_made env ''Illegal java constant'' \<Longrightarrow>
   object_made env (JClass ''java/lang/IllegalArgumentException'')
     (JMethodID (JClass ''java/lang/IllegalArgumentException'') ''<init>'' ''(Ljava/lang/String;)V'')
     [JV_l (Some (JString ''Illegal java constant'')), JV_l None] \<Longrightarrow>
   \<not> sint (throw_status env
       (Some (JObject (JClass ''java/lang/IllegalArgumentException'')
          (JMethodID (JClass ''java/lang/IllegalArgumentException'') ''<init>''
             ''(Ljava/lang/String;)V'')
          [JV_l (Some (JString ''Illegal java constant'')), JV_l None]))) < 0 \<Longrightarrow>
   thrown (snd (h5illegalConstantError env)) =
     [JObject (JClass ''java/lang/IllegalArgumentException'')
        (JMethodID (JClass ''java/lang/IllegalArgumentException'') ''<init>'' ''(Ljava/lang/String;)V'')
        [JV_l (Some (JString ''Illegal java constant'')), JV_l None]]"
  by (simp add: h5illegalConstantError_def throw_with_string_def FindClass_def GetMethodID_def
      NewStringUTF_def NewObjectA_def Throw_def Let_def)

lemma illegal_constant_no_native_call:
  "filter is_native_call (snd (h5illegalConstantError env)) = []"
  by (simp add: h5illegalConstantError_def throw_with_string_def Let_def split: option.splits)

subsection \<open>The error numbers on top of the stack\<close>

text \<open>
  C4. For a non-empty error stack, \<^verbatim>\<open>getMajorErrorNumber\<close> and \<^verbatim>\<open>getMinorErrorNumber\<close>
  return the major and the minor number of the last entry the downward walk visits,
  whatever the uninitialised \<^verbatim>\<open>err_nums\<close> held; that entry is the one at the head of the
  stack, pushed where the error was detected.
\<close>

theorem error_numbers_of_last_visited:
  "error_stack lib \<noteq> [] \<Longrightarrow>
   getMajorErrorNumber lib junk1 =
     err_maj_num (last (walk_order H5E_WALK_DOWNWARD (error_stack lib))) \<and>
   getMinorErrorNumber lib junk2 =
     err_min_num (last (walk_order H5E_WALK_DOWNWARD (error_stack lib))) \<and>
   last (walk_order H5E_WALK_DOWNWARD (error_stack lib)) = hd (error_stack lib)"
proof -
  assume ne: "error_stack lib \<noteq> []"
  then have "walk_order H5E_WALK_DOWNWARD (error_stack lib) \<noteq> []"
    by (simp add: walk_order_def)
  then show ?thesis
    using ne
    by (simp add: getMajorErrorNumber_def getMinorErrorNumber_def H5Ewalk_def
        walk_entries_callback) (simp add: walk_order_def last_rev)
qed

theorem error_numbers_of_last_visited_witness:
  "error_stack sample_lib \<noteq> [] \<and>
   getMajorErrorNumber sample_lib sample_junk = 4 \<and>
   getMinorErrorNumber sample_lib sample_junk = 7"
  using error_numbers_of_last_visited [of sample_lib sample_junk sample_junk]
  by (simp add: sample_lib_def walk_order_def)

text \<open>
  C7. With an empty error stack the callback is never called, and the two functions
  return the fields of the uninitialised \<^verbatim>\<open>err_nums\<close>: the result is whatever the C stack
  held, not a value the code fixes.
\<close>

theorem error_numbers_of_empty_stack:
  "getMajorErrorNumber (lib\<lparr>error_stack := []\<rparr>) junk = nums_maj_num junk \<and>
   getMinorErrorNumber (lib\<lparr>error_stack := []\<rparr>) junk = nums_min_num junk"
  by (simp add: getMajorErrorNumber_def getMinorErrorNumber_def H5Ewalk_def walk_order_def)

subsection \<open>The class for a major error number\<close>

text \<open>
  C3. \<^verbatim>\<open>defineHDF5LibraryException\<close> is a function of the library's numbering and the
  major number alone. Where the library gives the categories pairwise different numbers,
  the number of each category yields the class named for that category; a number that
  is none of them yields \<^verbatim>\<open>HDF5LibraryException\<close>; and for every number the result is one
  of these class names, never the empty string.
\<close>

theorem defineHDF5LibraryException_total:
  "(distinct (map (macro_value lib \<circ> fst) exception_of_major) \<longrightarrow>
      (\<forall>(m, c) \<in> set exception_of_major.
         sint maj_num = macro_value lib m \<longrightarrow> defineHDF5LibraryException lib maj_num = c)) \<and>
   (sint maj_num \<notin> set (map (macro_value lib \<circ> fst) exception_of_major) \<longrightarrow>
      defineHDF5LibraryException lib maj_num = generic_exception) \<and>
   defineHDF5LibraryException lib maj_num \<in> set (generic_exception # map snd exception_of_major) \<and>
   defineHDF5LibraryException lib maj_num \<noteq> []"
proof -
  let ?t = "map (\<lambda>(m, c). (macro_value lib m, c)) exception_of_major"
  have keys: "map fst ?t = map (macro_value lib \<circ> fst) exception_of_major"
    by (simp add: case_prod_unfold comp_def)
  have a: "defineHDF5LibraryException lib maj_num = c"
    if d: "distinct (map (macro_value lib \<circ> fst) exception_of_major)"
      and mc: "(m, c) \<in> set exception_of_major" and eq: "sint maj_num = macro_value lib m"
    for m c
  proof -
    from mc eq have mem: "(sint maj_num, c) \<in> set ?t"
      by force
    from d have "distinct (map fst ?t)"
      by (simp only: keys)
    then have "map_of ?t (sint maj_num) = Some c"
      using mem by (rule map_of_is_SomeI)
    then show ?thesis
      by (simp only: define_as_lookup option.case)
  qed
  have b: "defineHDF5LibraryException lib maj_num = generic_exception"
    if n: "sint maj_num \<notin> set (map (macro_value lib \<circ> fst) exception_of_major)"
  proof -
    have "fst ` set ?t = set (map fst ?t)"
      by (simp only: set_map)
    also have "\<dots> = set (map (macro_value lib \<circ> fst) exception_of_major)"
      by (simp only: keys)
    finally have eq: "fst ` set ?t = set (map (macro_value lib \<circ> fst) exception_of_major)" .
    have "sint maj_num \<notin> fst ` set ?t"
      unfolding eq by (rule n)
    then have "map_of ?t (sint maj_num) = None"
      by (rule map_of_eq_None_iff [THEN iffD2])
    then show ?thesis
      by (simp only: define_as_lookup option.case)
  qed
  have c: "defineHDF5LibraryException lib maj_num \<in> set (generic_exception # map snd exception_of_major)"
  proof (cases "map_of ?t (sint maj_num)")
    case None
    then show ?thesis by (simp add: define_as_lookup)
  next
    case (Some c)
    then have "(sint maj_num, c) \<in> set ?t"
      by (rule map_of_SomeD)
    then have "c \<in> snd ` set exception_of_major"
      by force
    with Some show ?thesis by (simp add: define_as_lookup)
  qed
  have "[] \<notin> set (generic_exception # map snd exception_of_major)"
    by (simp add: generic_exception_def exception_of_major_def)
  with c have ne: "defineHDF5LibraryException lib maj_num \<noteq> []"
    by (rule_tac notI) simp
  have a': "distinct (map (macro_value lib \<circ> fst) exception_of_major) \<longrightarrow>
      (\<forall>(m, c) \<in> set exception_of_major.
         sint maj_num = macro_value lib m \<longrightarrow> defineHDF5LibraryException lib maj_num = c)"
  proof (intro impI ballI)
    fix x
    assume d: "distinct (map (macro_value lib \<circ> fst) exception_of_major)"
      and x: "x \<in> set exception_of_major"
    obtain m c where xmc: "x = (m, c)"
      by (cases x)
    from x xmc show "case x of (m, c) \<Rightarrow>
        sint maj_num = macro_value lib m \<longrightarrow> defineHDF5LibraryException lib maj_num = c"
      by (simp add: a [OF d])
  qed
  from b have b': "sint maj_num \<notin> set (map (macro_value lib \<circ> fst) exception_of_major) \<longrightarrow>
      defineHDF5LibraryException lib maj_num = generic_exception"
    by (rule impI)
  from a' b' c ne show ?thesis
    by (intro conjI)
qed

theorem defineHDF5LibraryException_total_witness:
  "distinct (map (macro_value sample_lib \<circ> fst) exception_of_major) \<and>
   (''H5E_FILE'', ''ncsa/hdf/hdf5lib/exceptions/HDF5FileInterfaceException'') \<in> set exception_of_major \<and>
   sint (4 :: jint) = macro_value sample_lib ''H5E_FILE'' \<and>
   defineHDF5LibraryException sample_lib 4 = ''ncsa/hdf/hdf5lib/exceptions/HDF5FileInterfaceException'' \<and>
   sint (0 :: jint) \<notin> set (map (macro_value sample_lib \<circ> fst) exception_of_major) \<and>
   defineHDF5LibraryException sample_lib 0 = generic_exception"
proof -
  have d: "distinct (map (macro_value sample_lib \<circ> fst) exception_of_major)"
    by (simp add: exception_of_major_def sample_lib_def sample_values_def)
  have m: "(''H5E_FILE'', ''ncsa/hdf/hdf5lib/exceptions/HDF5FileInterfaceException'') \<in> set exception_of_major"
    by (simp add: exception_of_major_def)
  have e: "sint (4 :: jint) = macro_value sample_lib ''H5E_FILE''"
    by (simp add: sample_lib_def sample_values_def)
  have n: "sint (0 :: jint) \<notin> set (map (macro_value sample_lib \<circ> fst) exception_of_major)"
    by (simp add: exception_of_major_def sample_lib_def sample_values_def)
  note t4 = defineHDF5LibraryException_total [of sample_lib 4, THEN conjunct1, rule_format, OF d m]
  note t0 = defineHDF5LibraryException_total [of sample_lib 0, THEN conjunct2, THEN conjunct1,
      rule_format, OF n]
  from t4 have r4: "sint (4 :: jint) = macro_value sample_lib ''H5E_FILE'' \<longrightarrow>
      defineHDF5LibraryException sample_lib 4 = ''ncsa/hdf/hdf5lib/exceptions/HDF5FileInterfaceException''"
    by (simp only: prod.case)
  from r4 e have "defineHDF5LibraryException sample_lib 4 =
      ''ncsa/hdf/hdf5lib/exceptions/HDF5FileInterfaceException''"
    by (rule mp)
  with d m e n t0 show ?thesis
    by (intro conjI)
qed

subsection \<open>The raisers\<close>

text \<open>
  C6, as stated, asks for a diagnostic on the standard error stream whenever the class is
  not found. No raiser prints one there: with a runtime that finds no class,
  \<^verbatim>\<open>h5outOfMemory\<close> and \<^verbatim>\<open>h5libraryError\<close> return \<^verbatim>\<open>JNI_FALSE\<close> right after \<^verbatim>\<open>FindClass\<close>
  and print nothing.
\<close>

theorem raisers_silent_without_class:
  "h5outOfMemory runtime_without_classes ''H5Dread'' =
     (JNI_FALSE, [JNI_FindClass ''java/lang/OutOfMemoryError'']) \<and>
   stderr_output (snd (h5outOfMemory runtime_without_classes ''H5Dread'')) = [] \<and>
   fst (h5libraryError runtime_without_classes sample_lib sample_junk sample_junk) = JNI_FALSE \<and>
   stderr_output (snd (h5libraryError runtime_without_classes sample_lib sample_junk sample_junk)) = []"
  by (simp add: h5outOfMemory_def throw_with_string_def h5libraryError_def FindClass_def
      runtime_without_classes_def working_runtime_def Let_def)

text \<open>
  C6, amended. Every raiser returns \<^verbatim>\<open>JNI_TRUE\<close> exactly when its \<^verbatim>\<open>Throw\<close> returned a
  status that is not negative, and calls \<^verbatim>\<open>Throw\<close> at most once; when the class is not
  found it returns \<^verbatim>\<open>JNI_FALSE\<close> without a throw and without printing; when the
  constructor is not found it returns \<^verbatim>\<open>JNI_FALSE\<close> without a throw; when the throw fails
  it returns \<^verbatim>\<open>JNI_FALSE\<close> and prints its diagnostic line; and an exception the runtime
  accepted is of the class the raiser looked up, never of another.
\<close>

theorem raisers_fail_silent:
  "fail_silent env ''java/lang/OutOfMemoryError'' ''(Ljava/lang/String;)V''
     (''FATAL ERROR:  OutOfMemoryError: Throw failed'' @ [CHR 0x0A]) (h5outOfMemory env functName) \<and>
   fail_silent env ''java/lang/InternalError'' ''(Ljava/lang/String;)V''
     (''FATAL ERROR:  JNIFatal: Throw failed'' @ [CHR 0x0A]) (h5JNIFatalError env functName) \<and>
   fail_silent env ''java/lang/NullPointerException'' ''(Ljava/lang/String;)V''
     (''FATAL ERROR:  NullPointer: Throw failed'' @ [CHR 0x0A]) (h5nullArgument env functName) \<and>
   fail_silent env ''java/lang/IllegalArgumentException'' ''(Ljava/lang/String;)V''
     (''FATAL ERROR:  BadArgument: Throw failed'' @ [CHR 0x0A]) (h5badArgument env functName) \<and>
   fail_silent env ''java/lang/UnsupportedOperationException'' ''(Ljava/lang/String;)V''
     (''FATAL ERROR:  Unsupported: Throw failed'' @ [CHR 0x0A]) (h5unimplemented env functName) \<and>
   fail_silent env ''java/lang/IllegalArgumentException'' ''(Ljava/lang/String;)V''
     (''FATAL ERROR:  Unsupported: Throw failed'' @ [CHR 0x0A]) (h5illegalConstantError env) \<and>
   fail_silent env exception ''(Ljava/lang/String;)V''
     (''FATAL ERROR:  raiseException: Throw failed'' @ [CHR 0x0A])
     (h5raiseException env exception message) \<and>
   fail_silent env (defineHDF5LibraryException lib (getMajorErrorNumber lib junk1))
     ''(ILjava/lang/String;ILjava/lang/String;)V''
     (''FATAL ERROR:  h5libraryError: Throw failed'' @ [CHR 0x0A])
     (h5libraryError env lib junk1 junk2)"
  unfolding h5outOfMemory_def h5JNIFatalError_def h5nullArgument_def h5badArgument_def
    h5unimplemented_def h5illegalConstantError_def h5raiseException_def
  by (intro conjI throw_with_string_fail_silent h5libraryError_fail_silent)

theorem raisers_fail_silent_witness:
  "\<not> class_found runtime_without_classes ''java/lang/NullPointerException'' \<and>
   h5nullArgument runtime_without_classes ''H5Dread'' =
     (JNI_FALSE, [JNI_FindClass ''java/lang/NullPointerException'']) \<and>
   \<not> method_found runtime_without_constructors (JClass ''java/lang/NullPointerException'')
       ''<init>'' ''(Ljava/lang/String;)V'' \<and>
   fst (h5nullArgument runtime_without_constructors ''H5Dread'') = JNI_FALSE \<and>
   throw_results (snd (h5nullArgument runtime_without_constructors ''H5Dread'')) = [] \<and>
   list_ex (\<lambda>rval. sint rval < 0)
     (throw_results (snd (h5nullArgument runtime_refusing_throw ''H5Dread''))) \<and>
   fst (h5nullArgument runtime_refusing_throw ''H5Dread'') = JNI_FALSE \<and>
   stderr_output (snd (h5nullArgument runtime_refusing_throw ''H5Dread'')) =
     [''FATAL ERROR:  NullPointer: Throw failed'' @ [CHR 0x0A]] \<and>
   fst (h5nullArgument working_runtime ''H5Dread'') = JNI_TRUE \<and>
   thrown (snd (h5nullArgument working_runtime ''H5Dread'')) =
     [JObject (JClass ''java/lang/NullPointerException'')
        (JMethodID (JClass ''java/lang/NullPointerException'') ''<init>'' ''(Ljava/lang/String;)V'')
        [JV_l (Some (JString ''H5Dread'')), JV_l None]]"
  using raisers_fail_silent [of runtime_without_classes "''H5Dread''"]
    raisers_fail_silent [of runtime_without_constructors "''H5Dread''"]
    raisers_fail_silent [of runtime_refusing_throw "''H5Dread''"]
    raisers_fail_silent [of working_runtime "''H5Dread''"]
  by (simp add: h5nullArgument_def throw_with_string_def FindClass_def GetMethodID_def
      NewStringUTF_def NewObjectA_def Throw_def Let_def runtime_without_classes_def
      runtime_without_constructors_def runtime_refusing_throw_def working_runtime_def)

text \<open>
  C8. Where the class and the constructor are found and both strings are made,
  \<^verbatim>\<open>h5libraryError\<close> builds the object with the constructor of signature
  \<^verbatim>\<open>(ILjava/lang/String;ILjava/lang/String;)V\<close> from the major number, the major message,
  the minor number and the minor message, in this order. The two messages are the
  answers of \<^verbatim>\<open>H5Eget_major\<close> and \<^verbatim>\<open>H5Eget_minor\<close> of the library at this call, each asked
  once in the call itself; the function has no state of its own in which a message
  could be kept.
\<close>

theorem h5libraryError_constructor_arguments:
  "maj = getMajorErrorNumber lib junk1 \<Longrightarrow>
   mnr = getMinorErrorNumber lib junk2 \<Longrightarrow>
   jc = JClass (defineHDF5LibraryException lib maj) \<Longrightarrow>
   jm = JMethodID jc ''<init>'' ''(ILjava/lang/String;ILjava/lang/String;)V'' \<Longrightarrow>
   args = [JV_i maj, JV_l (Some (JString (H5Eget_major lib maj))),
           JV_i mnr, JV_l (Some (JString (H5Eget_minor lib mnr)))] \<Longrightarrow>
   class_found env (defineHDF5LibraryException lib maj) \<Longrightarrow>
   method_found env jc ''<init>'' ''(ILjava/lang/String;ILjava/lang/String;)V'' \<Longrightarrow>
   string_made env (H5Eget_major lib maj) \<Longrightarrow>
   string_made env (H5Eget_minor lib mnr) \<Longrightarrow>
   JNI_NewObjectA jc jm args \<in> set (snd (h5libraryError env lib junk1 junk2)) \<and>
   filter is_native_call (snd (h5libraryError env lib junk1 junk2)) =
     [H5_Ewalk H5E_WALK_DOWNWARD, H5_Eget_major maj, H5_Ewalk H5E_WALK_DOWNWARD, H5_Eget_minor mnr] \<and>
   thrown (snd (h5libraryError env lib junk1 junk2)) =
     (if object_made env jc jm args \<and> \<not> sint (throw_status env (Some (JObject jc jm args))) < 0
      then [JObject jc jm args] else [])"
  by (simp add: h5libraryError_def FindClass_def GetMethodID_def NewStringUTF_def
      NewObjectA_def Throw_def Let_def)

theorem h5libraryError_constructor_arguments_witness:
  "getMajorErrorNumber sample_lib sample_junk = 4 \<and>
   getMinorErrorNumber sample_lib sample_junk = 7 \<and>
   defineHDF5LibraryException sample_lib 4 = ''ncsa/hdf/hdf5lib/exceptions/HDF5FileInterfaceException'' \<and>
   H5Eget_major sample_lib 4 = ''File interface'' \<and>
   H5Eget_minor sample_lib 7 = ''Unable to open file'' \<and>
   class_found working_runtime ''ncsa/hdf/hdf5lib/exceptions/HDF5FileInterfaceException'' \<and>
   string_made working_runtime ''File interface'' \<and>
   string_made working_runtime ''Unable to open file'' \<and>
   thrown (snd (h5libraryError working_runtime sample_lib sample_junk sample_junk)) =
     [JObject (JClass ''ncsa/hdf/hdf5lib/exceptions/HDF5FileInterfaceException'')
        (JMethodID (JClass ''ncsa/hdf/hdf5lib/exceptions/HDF5FileInterfaceException'') ''<init>''
           ''(ILjava/lang/String;ILjava/lang/String;)V'')
        [JV_i 4, JV_l (Some (JString ''File interface'')),
         JV_i 7, JV_l (Some (JString ''Unable to open file''))]]"
proof -
  have maj: "getMajorErrorNumber sample_lib sample_junk = 4"
    and mnr: "getMinorErrorNumber sample_lib sample_junk = 7"
    by (simp_all add: getMajorErrorNumber_def getMinorErrorNumber_def H5Ewalk_def
        walk_order_def walk_error_callback_def sample_lib_def)
  have cls: "defineHDF5LibraryException sample_lib 4 =
      ''ncsa/hdf/hdf5lib/exceptions/HDF5FileInterfaceException''"
    by (simp add: defineHDF5LibraryException_def sample_lib_def sample_values_def)
  have msg: "H5Eget_major sample_lib 4 = ''File interface''"
    "H5Eget_minor sample_lib 7 = ''Unable to open file''"
    by (simp_all add: H5Eget_major_def H5Eget_minor_def sample_lib_def)
  have rt: "class_found working_runtime c" "method_found working_runtime k n s"
    "string_made working_runtime b" "object_made working_runtime k m a"
    "throw_status working_runtime obj = 0" for c k n s b m a obj
    by (simp_all add: working_runtime_def)
  note t = h5libraryError_constructor_arguments
    [of 4 sample_lib sample_junk 7 sample_junk
        "JClass ''ncsa/hdf/hdf5lib/exceptions/HDF5FileInterfaceException''"
        "JMethodID (JClass ''ncsa/hdf/hdf5lib/exceptions/HDF5FileInterfaceException'') ''<init>''
           ''(ILjava/lang/String;ILjava/lang/String;)V''"
        "[JV_i 4, JV_l (Some (JString ''File interface'')),
          JV_i 7, JV_l (Some (JString ''Unable to open file''))]"
        working_runtime]
  from t maj mnr cls msg rt show ?thesis
    by simp
qed

text \<open>
  C9. Without a file name \<^verbatim>\<open>printStackTrace0\<close> makes one call, \<^verbatim>\<open>H5Eprint\<close> on the standard
  error stream. With a file name it opens the file of that name with mode \<^verbatim>\<open>a+\<close>, prints
  the stack to the stream it got and closes that stream as its last step. The function
  has a single way out, and whatever the runtime and the file system answer, no file it
  opened is open when it returns.
\<close>

theorem printStackTrace0_stream_closed:
  "printStackTrace0 env can_open None = [H5_Eprint (Some Stderr)] \<and>
   open_files [] (printStackTrace0 env can_open file_name) = [] \<and>
   (chars_made env (JString path) \<and> can_open path ''a+'' \<longrightarrow>
      printStackTrace0 env can_open (Some (JString path)) =
        [JNI_GetStringUTFChars (JString path),
         C_fopen (Some path) ''a+'' (Some (Opened path ''a+'')),
         H5_Eprint (Some (Opened path ''a+'')),
         JNI_ReleaseStringUTFChars (JString path) (Some path),
         C_fclose (Opened path ''a+'')])"
  by (simp add: printStackTrace0_def GetStringUTFChars_def fopen_def Let_def
      split: option.splits jstring.splits)

theorem printStackTrace0_stream_closed_witness:
  "chars_made working_runtime (JString ''trace.log'') \<and> any_file_opens ''trace.log'' ''a+'' \<and>
   printStackTrace0 working_runtime any_file_opens (Some (JString ''trace.log'')) =
     [JNI_GetStringUTFChars (JString ''trace.log''),
      C_fopen (Some ''trace.log'') ''a+'' (Some (Opened ''trace.log'' ''a+'')),
      H5_Eprint (Some (Opened ''trace.log'' ''a+'')),
      JNI_ReleaseStringUTFChars (JString ''trace.log'') (Some ''trace.log''),
      C_fclose (Opened ''trace.log'' ''a+'')] \<and>
   open_files [] (printStackTrace0 working_runtime any_file_opens (Some (JString ''trace.log''))) = []"
  using printStackTrace0_stream_closed
    [of working_runtime any_file_opens "Some (JString ''trace.log'')" "''trace.log''"]
  by (simp add: working_runtime_def any_file_opens_def)

subsection \<open>The translation of constants\<close>

text \<open>
  C1. Every identifier with a case in the switch is one the header defines, and for each
  header identifier \<^verbatim>\<open>JH5X\<close> with a case, \<^verbatim>\<open>J2C\<close> returns the value the linked library has
  for \<^verbatim>\<open>H5X\<close>, the constant of that very name, converted to \<^verbatim>\<open>jint\<close>; a value that fits
  into 32 bits arrives unchanged.
\<close>

theorem J2C_known_returns_native:
  "J2C_known \<subseteq> snd ` set h5Constants_h \<and>
   (\<forall>(name, k) \<in> set h5Constants_h.
      k \<in> J2C_known \<longrightarrow>
      (\<forall>c. sint c = k \<longrightarrow>
         J2C env lib c =
           (word_of_int (macro_value lib (native_name name)), [H5_macro (native_name name)]) \<and>
         (- (2 ^ 31) \<le> macro_value lib (native_name name) \<and>
          macro_value lib (native_name name) < 2 ^ 31 \<longrightarrow>
            sint (fst (J2C env lib c)) = macro_value lib (native_name name))))"
proof (intro conjI subsetI ballI)
  fix k
  assume "k \<in> J2C_known"
  then obtain n where "(n, k) \<in> set h5Constants_h"
    by (auto simp: known_iff_header)
  then show "k \<in> snd ` set h5Constants_h"
    by force
next
  fix x
  assume x: "x \<in> set h5Constants_h"
  obtain name k where xnk: "x = (name, k)"
    by (cases x)
  have "k \<in> J2C_known \<longrightarrow>
      (\<forall>c. sint c = k \<longrightarrow>
         J2C env lib c =
           (word_of_int (macro_value lib (native_name name)), [H5_macro (native_name name)]) \<and>
         (- (2 ^ 31) \<le> macro_value lib (native_name name) \<and>
          macro_value lib (native_name name) < 2 ^ 31 \<longrightarrow>
            sint (fst (J2C env lib c)) = macro_value lib (native_name name)))"
  proof (intro impI allI)
    fix c :: jint
    assume kn: "k \<in> J2C_known" and c: "sint c = k"
    from kn have "k \<notin> set without_case"
      by (simp add: known_iff_header)
    with x xnk obtain e where "map_of J2C_switch k = Some e" and "macro_name e = native_name name"
      using header_case by blast
    with c have r: "J2C env lib c =
        (word_of_int (macro_value lib (native_name name)), [H5_macro (native_name name)])"
      by (simp add: J2C_case)
    have "sint (fst (J2C env lib c)) = macro_value lib (native_name name)"
      if "- (2 ^ 31) \<le> macro_value lib (native_name name) \<and>
          macro_value lib (native_name name) < 2 ^ 31"
      using that by (simp add: r sint_word_of_int_32)
    with r show "J2C env lib c =
          (word_of_int (macro_value lib (native_name name)), [H5_macro (native_name name)]) \<and>
        (- (2 ^ 31) \<le> macro_value lib (native_name name) \<and>
         macro_value lib (native_name name) < 2 ^ 31 \<longrightarrow>
           sint (fst (J2C env lib c)) = macro_value lib (native_name name))"
      by (intro conjI impI)
  qed
  then show "case x of (name, k) \<Rightarrow>
      k \<in> J2C_known \<longrightarrow>
      (\<forall>c. sint c = k \<longrightarrow>
         J2C env lib c =
           (word_of_int (macro_value lib (native_name name)), [H5_macro (native_name name)]) \<and>
         (- (2 ^ 31) \<le> macro_value lib (native_name name) \<and>
          macro_value lib (native_name name) < 2 ^ 31 \<longrightarrow>
            sint (fst (J2C env lib c)) = macro_value lib (native_name name)))"
    unfolding xnk prod.case .
qed

theorem J2C_known_returns_native_witness:
  "(''JH5D_CHUNKED'', JH5D_CHUNKED) \<in> set h5Constants_h \<and>
   JH5D_CHUNKED \<in> J2C_known \<and>
   sint (1080 :: jint) = JH5D_CHUNKED \<and>
   macro_value sample_lib (native_name ''JH5D_CHUNKED'') = 2 \<and>
   J2C working_runtime sample_lib 1080 = (2, [H5_macro ''H5D_CHUNKED'']) \<and>
   sint (fst (J2C working_runtime sample_lib 1080)) = 2"
proof -
  have kn: "JH5D_CHUNKED \<in> J2C_known"
    using CHUNKED_in_header by (auto simp: known_iff_header without_case_def h5Constants_defs)
  have c: "sint (1080 :: jint) = JH5D_CHUNKED"
    by (simp add: JH5D_CHUNKED_def)
  have n: "native_name ''JH5D_CHUNKED'' = ''H5D_CHUNKED''"
    by (simp add: native_name_def)
  have v: "macro_value sample_lib (native_name ''JH5D_CHUNKED'') = 2"
    by (simp add: n sample_lib_def sample_values_def)
  note t = J2C_known_returns_native [of working_runtime sample_lib, THEN conjunct2,
      THEN bspec, OF CHUNKED_in_header, unfolded prod.case, THEN mp, OF kn, THEN spec,
      THEN mp, OF c]
  have v2: "macro_value sample_lib ''H5D_CHUNKED'' = 2"
    by (simp add: sample_lib_def sample_values_def)
  from t have r: "J2C working_runtime sample_lib 1080 = (2, [H5_macro ''H5D_CHUNKED''])"
    by (simp add: n v2)
  then have "sint (fst (J2C working_runtime sample_lib 1080)) = 2"
    by simp
  with CHUNKED_in_header kn c v r show ?thesis
    by (intro conjI)
qed

text \<open>
  C2, as stated, has every unknown identifier end in a raised exception and never in a
  returned sentinel. The default branch returns \<^verbatim>\<open>-1\<close> in every case, and \<^verbatim>\<open>0\<close>, an
  identifier without a case, raises nothing in a runtime where the class lookup fails:
  \<^verbatim>\<open>h5illegalConstantError\<close> gives up after \<^verbatim>\<open>FindClass\<close>, its result is dropped, and the
  caller is left with \<^verbatim>\<open>-1\<close>.
\<close>

theorem J2C_unknown_without_exception:
  "sint (0 :: jint) \<notin> J2C_known \<and>
   J2C runtime_without_classes sample_lib 0 =
     (- 1, [JNI_FindClass ''java/lang/IllegalArgumentException'']) \<and>
   thrown (snd (J2C runtime_without_classes sample_lib 0)) = []"
proof -
  have u: "sint (0 :: jint) \<notin> J2C_known"
    using zero_unknown by simp
  have "snd (h5illegalConstantError runtime_without_classes) =
      [JNI_FindClass ''java/lang/IllegalArgumentException'']"
    by (simp add: h5illegalConstantError_def throw_with_string_def FindClass_def
        runtime_without_classes_def working_runtime_def)
  with u show ?thesis
    by (simp add: J2C_default)
qed

text \<open>
  C2, amended. For every identifier without a case, \<^verbatim>\<open>J2C\<close> calls
  \<^verbatim>\<open>h5illegalConstantError\<close>, makes no call into the HDF5 library and returns \<^verbatim>\<open>-1\<close> from
  the native function; where the runtime finds \<^verbatim>\<open>java/lang/IllegalArgumentException\<close> and
  its constructor taking one string, makes the string and the object and accepts the
  throw, the one exception raised is an \<^verbatim>\<open>IllegalArgumentException\<close> built from the single
  string \<^verbatim>\<open>Illegal java constant\<close>.
\<close>

theorem J2C_unknown_raises_illegal_constant:
  "sint java_constant \<notin> J2C_known \<Longrightarrow>
   J2C env lib java_constant = (- 1, snd (h5illegalConstantError env)) \<and>
   filter is_native_call (snd (J2C env lib java_constant)) = [] \<and>
   (class_found env ''java/lang/IllegalArgumentException'' \<and>
    method_found env (JClass ''java/lang/IllegalArgumentException'') ''<init>''
      ''(Ljava/lang/String;)V'' \<and>
    string_made env ''Illegal java constant'' \<and>
    object_made env (JClass ''java/lang/IllegalArgumentException'')
      (JMethodID (JClass ''java/lang/IllegalArgumentException'') ''<init>'' ''(Ljava/lang/String;)V'')
      [JV_l (Some (JString ''Illegal java constant'')), JV_l None] \<and>
    \<not> sint (throw_status env
        (Some (JObject (JClass ''java/lang/IllegalArgumentException'')
           (JMethodID (JClass ''java/lang/IllegalArgumentException'') ''<init>''
              ''(Ljava/lang/String;)V'')
           [JV_l (Some (JString ''Illegal java constant'')), JV_l None]))) < 0 \<longrightarrow>
    thrown (snd (J2C env lib java_constant)) =
      [JObject (JClass ''java/lang/IllegalArgumentException'')
         (JMethodID (JClass ''java/lang/IllegalArgumentException'') ''<init>''
            ''(Ljava/lang/String;)V'')
         [JV_l (Some (JString ''Illegal java constant'')), JV_l None]])"
  by (simp add: J2C_default illegal_constant_no_native_call illegal_constant_thrown)

theorem J2C_unknown_raises_illegal_constant_witness:
  "sint (0 :: jint) \<notin> J2C_known \<and>
   fst (J2C working_runtime sample_lib 0) = - 1 \<and>
   filter is_native_call (snd (J2C working_runtime sample_lib 0)) = [] \<and>
   thrown (snd (J2C working_runtime sample_lib 0)) =
     [JObject (JClass ''java/lang/IllegalArgumentException'')
        (JMethodID (JClass ''java/lang/IllegalArgumentException'') ''<init>''
           ''(Ljava/lang/String;)V'')
        [JV_l (Some (JString ''Illegal java constant'')), JV_l None]]"
proof -
  have u: "sint (0 :: jint) \<notin> J2C_known"
    using zero_unknown by simp
  note t = J2C_unknown_raises_illegal_constant [OF u, of working_runtime sample_lib]
  from t have "J2C working_runtime sample_lib 0 =
      (- 1, snd (h5illegalConstantError working_runtime))"
    by (rule conjunct1)
  then have a: "fst (J2C working_runtime sample_lib 0) = - 1"
    by simp
  from t have b: "filter is_native_call (snd (J2C working_runtime sample_lib 0)) = []"
    by (rule conjunct2 [THEN conjunct1])
  have "class_found working_runtime ''java/lang/IllegalArgumentException'' \<and>
    method_found working_runtime (JClass ''java/lang/IllegalArgumentException'') ''<init>''
      ''(Ljava/lang/String;)V'' \<and>
    string_made working_runtime ''Illegal java constant'' \<and>
    object_made working_runtime (JClass ''java/lang/IllegalArgumentException'')
      (JMethodID (JClass ''java/lang/IllegalArgumentException'') ''<init>'' ''(Ljava/lang/String;)V'')
      [JV_l (Some (JString ''Illegal java constant'')), JV_l None] \<and>
    \<not> sint (throw_status working_runtime
        (Some (JObject (JClass ''java/lang/IllegalArgumentException'')
           (JMethodID (JClass ''java/lang/IllegalArgumentException'') ''<init>''
              ''(Ljava/lang/String;)V'')
           [JV_l (Some (JString ''Illegal java constant'')), JV_l None]))) < 0"
    by (simp add: working_runtime_def)
  with t [THEN conjunct2, THEN conjunct2]
  have d: "thrown (snd (J2C working_runtime sample_lib 0)) =
     [JObject (JClass ''java/lang/IllegalArgumentException'')
        (JMethodID (JClass ''java/lang/IllegalArgumentException'') ''<init>''
           ''(Ljava/lang/String;)V'')
        [JV_l (Some (JString ''Illegal java constant'')), JV_l None]]"
    by (rule mp)
  from u a b d show ?thesis
    by (intro conjI)
qed

text \<open>
  C5, as stated, has a case for every identifier the header defines. Four defined
  identifiers have none, and \<^verbatim>\<open>J2C\<close> takes the default branch for them.
\<close>

theorem header_identifiers_without_case:
  "(''JH5E_CANTMAKETREE'', JH5E_CANTMAKETREE) \<in> set h5Constants_h \<and>
   JH5E_CANTMAKETREE \<notin> J2C_known \<and>
   (''JH5F_OBJ_LOCAL'', JH5F_OBJ_LOCAL) \<in> set h5Constants_h \<and>
   JH5F_OBJ_LOCAL \<notin> J2C_known \<and>
   (''JH5G_USERTYPE'', JH5G_USERTYPE) \<in> set h5Constants_h \<and>
   JH5G_USERTYPE \<notin> J2C_known \<and>
   (''JH5I_FILE_CLOSING'', JH5I_FILE_CLOSING) \<in> set h5Constants_h \<and>
   JH5I_FILE_CLOSING \<notin> J2C_known \<and>
   sint (1640 :: jint) = JH5E_CANTMAKETREE \<and>
   J2C working_runtime sample_lib 1640 = (- 1, snd (h5illegalConstantError working_runtime))"
proof -
  have c: "sint (1640 :: jint) = JH5E_CANTMAKETREE"
    by (simp add: JH5E_CANTMAKETREE_def)
  have u: "sint (1640 :: jint) \<notin> J2C_known"
    unfolding c by (rule without_case_unknown(1))
  have "J2C working_runtime sample_lib 1640 = (- 1, snd (h5illegalConstantError working_runtime))"
    by (rule J2C_default [OF u])
  with c without_case_in_header without_case_unknown show ?thesis
    by (intro conjI)
qed

text \<open>
  C5, amended. Every identifier the header defines, other than \<^verbatim>\<open>JH5E_CANTMAKETREE\<close>,
  \<^verbatim>\<open>JH5F_OBJ_LOCAL\<close>, \<^verbatim>\<open>JH5G_USERTYPE\<close> and \<^verbatim>\<open>JH5I_FILE_CLOSING\<close>, has a case in the switch, so
  that its translation returns the native value and raises nothing. The three of them
  whose case the switch has commented out have none, and their translation takes the
  default branch.
\<close>

theorem header_identifiers_with_case:
  "(\<forall>(name, k) \<in> set h5Constants_h.
      k \<notin> set [JH5E_CANTMAKETREE, JH5F_OBJ_LOCAL, JH5G_USERTYPE, JH5I_FILE_CLOSING] \<longrightarrow>
      k \<in> J2C_known \<and>
      (\<forall>c. sint c = k \<longrightarrow>
         fst (J2C env lib c) = word_of_int (macro_value lib (native_name name)) \<and>
         thrown (snd (J2C env lib c)) = [])) \<and>
   (\<forall>k \<in> set [JH5E_CANTMAKETREE, JH5G_USERTYPE, JH5I_FILE_CLOSING].
      k \<notin> J2C_known \<and>
      (\<forall>c. sint c = k \<longrightarrow> J2C env lib c = (- 1, snd (h5illegalConstantError env))))"
proof (rule conjI)
  show "\<forall>(name, k) \<in> set h5Constants_h.
      k \<notin> set [JH5E_CANTMAKETREE, JH5F_OBJ_LOCAL, JH5G_USERTYPE, JH5I_FILE_CLOSING] \<longrightarrow>
      k \<in> J2C_known \<and>
      (\<forall>c. sint c = k \<longrightarrow>
         fst (J2C env lib c) = word_of_int (macro_value lib (native_name name)) \<and>
         thrown (snd (J2C env lib c)) = [])"
  proof (rule ballI)
    fix x
    assume x: "x \<in> set h5Constants_h"
    obtain name k where xnk: "x = (name, k)"
      by (cases x)
    have "k \<notin> set [JH5E_CANTMAKETREE, JH5F_OBJ_LOCAL, JH5G_USERTYPE, JH5I_FILE_CLOSING] \<longrightarrow>
        k \<in> J2C_known \<and>
        (\<forall>c. sint c = k \<longrightarrow>
           fst (J2C env lib c) = word_of_int (macro_value lib (native_name name)) \<and>
           thrown (snd (J2C env lib c)) = [])"
    proof (intro impI conjI allI)
      assume "k \<notin> set [JH5E_CANTMAKETREE, JH5F_OBJ_LOCAL, JH5G_USERTYPE, JH5I_FILE_CLOSING]"
      then have nw: "k \<notin> set without_case"
        unfolding without_case_def .
      with x xnk obtain e where e: "map_of J2C_switch k = Some e" "macro_name e = native_name name"
        using header_case by blast
      then show "k \<in> J2C_known"
        by (auto simp: known_iff)
      fix c :: jint
      assume "sint c = k"
      with e have r: "J2C env lib c =
          (word_of_int (macro_value lib (native_name name)), [H5_macro (native_name name)])"
        by (simp add: J2C_case)
      then show "fst (J2C env lib c) = word_of_int (macro_value lib (native_name name))"
        by simp
      from r show "thrown (snd (J2C env lib c)) = []"
        by simp
    qed
    then show "case x of (name, k) \<Rightarrow>
        k \<notin> set [JH5E_CANTMAKETREE, JH5F_OBJ_LOCAL, JH5G_USERTYPE, JH5I_FILE_CLOSING] \<longrightarrow>
        k \<in> J2C_known \<and>
        (\<forall>c. sint c = k \<longrightarrow>
           fst (J2C env lib c) = word_of_int (macro_value lib (native_name name)) \<and>
           thrown (snd (J2C env lib c)) = [])"
      unfolding xnk prod.case .
  qed
  show "\<forall>k \<in> set [JH5E_CANTMAKETREE, JH5G_USERTYPE, JH5I_FILE_CLOSING].
      k \<notin> J2C_known \<and>
      (\<forall>c. sint c = k \<longrightarrow> J2C env lib c = (- 1, snd (h5illegalConstantError env)))"
  proof (rule ballI)
    fix k
    assume "k \<in> set [JH5E_CANTMAKETREE, JH5G_USERTYPE, JH5I_FILE_CLOSING]"
    then have "k \<notin> J2C_known"
      using without_case_unknown by auto
    then show "k \<notin> J2C_known \<and>
        (\<forall>c. sint c = k \<longrightarrow> J2C env lib c = (- 1, snd (h5illegalConstantError env)))"
      by (simp add: J2C_default)
  qed
qed

theorem header_identifiers_with_case_witness:
  "(''JH5D_COMPACT'', JH5D_COMPACT) \<in> set h5Constants_h \<and>
   JH5D_COMPACT \<notin> set [JH5E_CANTMAKETREE, JH5F_OBJ_LOCAL, JH5G_USERTYPE, JH5I_FILE_CLOSING] \<and>
   JH5D_COMPACT \<in> J2C_known \<and>
   sint (1090 :: jint) = JH5D_COMPACT \<and>
   thrown (snd (J2C working_runtime sample_lib 1090)) = [] \<and>
   JH5G_USERTYPE \<in> set [JH5E_CANTMAKETREE, JH5G_USERTYPE, JH5I_FILE_CLOSING] \<and>
   JH5G_USERTYPE \<notin> J2C_known"
proof -
  have nw: "JH5D_COMPACT \<notin> set [JH5E_CANTMAKETREE, JH5F_OBJ_LOCAL, JH5G_USERTYPE, JH5I_FILE_CLOSING]"
    by (simp add: h5Constants_defs)
  have c: "sint (1090 :: jint) = JH5D_COMPACT"
    by (simp add: JH5D_COMPACT_def)
  have g: "JH5G_USERTYPE \<in> set [JH5E_CANTMAKETREE, JH5G_USERTYPE, JH5I_FILE_CLOSING]"
    by simp
  note t1 = header_identifiers_with_case [of working_runtime sample_lib, THEN conjunct1,
      THEN bspec, OF COMPACT_in_header, unfolded prod.case, THEN mp, OF nw]
  note t2 = header_identifiers_with_case [of working_runtime sample_lib, THEN conjunct2,
      THEN bspec, OF g, THEN conjunct1]
  from t1 have kn: "JH5D_COMPACT \<in> J2C_known"
    by (rule conjunct1)
  from t1 [THEN conjunct2, THEN spec, THEN mp, OF c]
  have th: "thrown (snd (J2C working_runtime sample_lib 1090)) = []"
    by (rule conjunct2)
  from COMPACT_in_header nw kn c th g t2 show ?thesis
    by (intro conjI)
qed

text \<open>
  C10. For \<^verbatim>\<open>JH5F_UNLIMITED\<close> and \<^verbatim>\<open>JH5S_UNLIMITED\<close> the library's value is unsigned, of some
  width of at least 32 bits. When its top bit is set, what \<^verbatim>\<open>J2C\<close> returns has the bits of
  the native value at all of its 32 positions, and as a signed number it differs from the
  native value; the all-ones sentinel arrives as all ones, that is \<^verbatim>\<open>-1\<close>.
\<close>

theorem J2C_UNLIMITED_keeps_bits:
  fixes u :: "'a::len word"
  shows "32 \<le> LENGTH('a) \<Longrightarrow>
   bit u (LENGTH('a) - 1) \<Longrightarrow>
   (k, m) \<in> set [(JH5F_UNLIMITED, ''H5F_UNLIMITED''), (JH5S_UNLIMITED, ''H5S_UNLIMITED'')] \<Longrightarrow>
   macro_value lib m = uint u \<Longrightarrow>
   sint java_constant = k \<Longrightarrow>
   fst (J2C env lib java_constant) = ucast u \<and>
   (\<forall>i < 32. bit (fst (J2C env lib java_constant)) i = bit u i) \<and>
   sint (fst (J2C env lib java_constant)) \<noteq> uint u \<and>
   (u = - 1 \<longrightarrow> fst (J2C env lib java_constant) = - 1)"
proof -
  assume len: "32 \<le> LENGTH('a)" and top: "bit u (LENGTH('a) - 1)"
    and km: "(k, m) \<in> set [(JH5F_UNLIMITED, ''H5F_UNLIMITED''), (JH5S_UNLIMITED, ''H5S_UNLIMITED'')]"
    and v: "macro_value lib m = uint u" and c: "sint java_constant = k"
  from km have "map_of J2C_switch k = Some (Int_cast m)"
    using UNLIMITED_cases by auto
  then have "map_of J2C_switch (sint java_constant) = Some (Int_cast m)"
    by (simp only: c)
  then have "J2C env lib java_constant =
      (word_of_int (macro_value lib (macro_name (Int_cast m))), [H5_macro (macro_name (Int_cast m))])"
    by (rule J2C_case)
  then have "fst (J2C env lib java_constant) = word_of_int (uint u)"
    by (simp add: v)
  then have r: "fst (J2C env lib java_constant) = ucast u"
    by (simp only: ucast_eq)
  have bits: "\<forall>i < 32. bit (ucast u :: jint) i = bit u i"
    by (simp add: bit_ucast_iff)
  have "sint (ucast u :: jint) < 2 ^ 31"
    using sint_lt [of "ucast u :: jint"] by simp
  also have "(2 :: int) ^ 31 \<le> 2 ^ (LENGTH('a) - 1)"
    using len by (intro power_increasing) simp_all
  also have "\<dots> \<le> uint u"
    using top by (rule top_bit_uint)
  finally have ne: "sint (ucast u :: jint) \<noteq> uint u"
    by simp
  have ones: "u = - 1 \<longrightarrow> (ucast u :: jint) = - 1"
  proof
    assume "u = - 1"
    then have "bit (ucast u :: jint) i = bit (- 1 :: jint) i" for i
      using len by (auto simp add: bit_ucast_iff bit_simps)
    then show "(ucast u :: jint) = - 1"
      by (rule bit_eqI)
  qed
  from r bits ne ones show ?thesis
    by simp
qed

theorem J2C_UNLIMITED_keeps_bits_witness:
  "32 \<le> LENGTH(64) \<and> bit (- 1 :: 64 word) (LENGTH(64) - 1) \<and>
   macro_value sample_lib ''H5F_UNLIMITED'' = uint (- 1 :: 64 word) \<and>
   sint (2490 :: jint) = JH5F_UNLIMITED \<and>
   fst (J2C working_runtime sample_lib 2490) = - 1 \<and>
   sint (fst (J2C working_runtime sample_lib 2490)) \<noteq> 18446744073709551615"
proof -
  have len: "32 \<le> LENGTH(64)"
    by simp
  have top: "bit (- 1 :: 64 word) (LENGTH(64) - 1)"
    by simp
  have km: "(JH5F_UNLIMITED, ''H5F_UNLIMITED'') \<in>
      set [(JH5F_UNLIMITED, ''H5F_UNLIMITED''), (JH5S_UNLIMITED, ''H5S_UNLIMITED'')]"
    by simp
  have w: "uint (- 1 :: 64 word) = 18446744073709551615"
    by (simp add: unsigned_minus_1_eq_mask mask_eq_exp_minus_1)
  have v: "macro_value sample_lib ''H5F_UNLIMITED'' = uint (- 1 :: 64 word)"
    unfolding w by (simp add: sample_lib_def sample_values_def)
  have c: "sint (2490 :: jint) = JH5F_UNLIMITED"
    by (simp add: JH5F_UNLIMITED_def)
  note t = J2C_UNLIMITED_keeps_bits [OF len top km v c, of working_runtime]
  from t [THEN conjunct2, THEN conjunct2, THEN conjunct2]
  have r: "fst (J2C working_runtime sample_lib 2490) = - 1"
    by simp
  from t [THEN conjunct2, THEN conjunct2, THEN conjunct1]
  have ne: "sint (fst (J2C working_runtime sample_lib 2490)) \<noteq> 18446744073709551615"
    unfolding w .
  from len top v c r ne show ?thesis
    by (intro conjI)
qed

end
